theory Spec2Isabelle
  imports Complex_Main "HOL-Library.Word" "HOL-Library.Signed_Division"
begin

section \<open>Strings and machine integers of the C++ standard library\<close>

text \<open>
  Exceptions of the standard library that the modelled code can let escape:
  \<open>std::stoi\<close>, \<open>std::stoll\<close> and \<open>std::stod\<close> throw \<open>std::invalid_argument\<close>
  when no conversion can be done and \<open>std::out_of_range\<close> when the value does not
  fit the result type.
\<close>

datatype std_exception = invalid_argument | out_of_range

text \<open>
  The ways in which the modelled code does not return: an exception of the standard
  library that nothing catches, or a step whose behaviour the language leaves undefined
  and at which the process is in practice killed by a signal (the division of the
  smallest \<open>int\<close> by \<open>-1\<close>, the use of a pointer that was never initialised).
\<close>

datatype failure = Throws std_exception | Undefined

definition isdigit :: "char \<Rightarrow> bool" where
  "isdigit c = (c \<in> set ''0123456789'')"

definition isspace :: "char \<Rightarrow> bool" where
  "isspace c = (c \<in> {CHR '' '', CHR 0x09, CHR 0x0A, CHR 0x0B, CHR 0x0C, CHR 0x0D})"

definition digit_char :: "nat \<Rightarrow> char" where
  "digit_char d = ''0123456789'' ! d"

definition digit_value :: "char \<Rightarrow> nat" where
  "digit_value c = of_char c - 48"

fun to_string_nat :: "nat \<Rightarrow> string" where
  "to_string_nat n =
     (if n < 10 then [digit_char n] else to_string_nat (n div 10) @ [digit_char (n mod 10)])"

declare to_string_nat.simps [simp del]

text \<open>\<open>std::to_string\<close> on a signed integer: decimal digits, a minus sign when negative.\<close>

definition to_string :: "int \<Rightarrow> string" where
  "to_string i = (if i < 0 then CHR ''-'' # to_string_nat (nat (- i)) else to_string_nat (nat i))"

text \<open>The value of a digit string, most significant digit first.\<close>

definition digits_value :: "string \<Rightarrow> nat" where
  "digits_value ds = foldl (\<lambda>acc c. 10 * acc + digit_value c) 0 ds"

text \<open>
  The common part of \<open>std::stoi\<close> and \<open>std::stoll\<close> (both call \<open>strtol\<close>/\<open>strtoll\<close>
  with base 10): leading white space is skipped, an optional sign is read, then the longest
  run of digits. The result is the value and the number of characters consumed; \<open>None\<close>
  when there is no digit to convert.
\<close>

definition strtol_prefix :: "string \<Rightarrow> (int \<times> nat) option" where
  "strtol_prefix s =
     (let ws = takeWhile isspace s;
          s1 = dropWhile isspace s;
          neg = (s1 \<noteq> [] \<and> hd s1 = CHR ''-'');
          signed = (s1 \<noteq> [] \<and> (hd s1 = CHR ''-'' \<or> hd s1 = CHR ''+''));
          s2 = (if signed then tl s1 else s1);
          ds = takeWhile isdigit s2
      in if ds = [] then None
         else Some (if neg then - int (digits_value ds) else int (digits_value ds),
                    length ws + (if signed then 1 else 0) + length ds))"

text \<open>\<open>std::stoi\<close>: the value must fit a 32-bit \<open>int\<close>.\<close>

definition stoi :: "string \<Rightarrow> std_exception + int" where
  "stoi s =
     (case strtol_prefix s of
        None \<Rightarrow> Inl invalid_argument
      | Some (v, n) \<Rightarrow> if v < - (2 ^ 31) \<or> 2 ^ 31 \<le> v then Inl out_of_range else Inr v)"

text \<open>
  The result of \<open>+\<close>, \<open>-\<close> and \<open>*\<close> on C++ \<open>int\<close>s: the mathematical value reduced
  to 32 bits in two's complement, which is what the compiled code computes when the value
  does not fit.
\<close>

definition int32 :: "int \<Rightarrow> int" where
  "int32 x = sint (word_of_int x :: 32 word)"

text \<open>
  The one division of two \<open>int\<close>s whose quotient does not fit an \<open>int\<close>. The division
  does not wrap around there: \<open>/\<close> and \<open>%\<close> are undefined, and the processor's division
  instruction traps.
\<close>

definition division_overflows :: "int \<Rightarrow> int \<Rightarrow> bool" where
  "division_overflows leftVal rightVal = (leftVal = - (2 ^ 31) \<and> rightVal = - 1)"

section \<open>Three-address code (codegen.h)\<close>

record ThreeAddressCode =
  op :: string
  arg1 :: string
  arg2 :: string
  result :: string
  line :: int

section \<open>The optimizer (optimizer.cpp)\<close>

fun isConstant :: "string \<Rightarrow> bool" where
  "isConstant [] = False"
| "isConstant (c # cs) =
     (if c = CHR ''-'' \<or> c = CHR ''+'' then cs \<noteq> [] \<and> list_all isdigit cs
      else list_all isdigit (c # cs))"

definition evaluateConstant :: "string \<Rightarrow> string \<Rightarrow> string \<Rightarrow> failure + int" where
  "evaluateConstant opr left right =
     (case stoi left of
        Inl e \<Rightarrow> Inl (Throws e)
      | Inr leftVal \<Rightarrow>
          (case stoi right of
             Inl e \<Rightarrow> Inl (Throws e)
           | Inr rightVal \<Rightarrow>
               if opr = ''+'' then Inr (int32 (leftVal + rightVal))
               else if opr = ''-'' then Inr (int32 (leftVal - rightVal))
               else if opr = ''*'' then Inr (int32 (leftVal * rightVal))
               else if opr = ''/'' \<and> rightVal \<noteq> 0 then
                 (if division_overflows leftVal rightVal then Inl Undefined
                  else Inr (leftVal sdiv rightVal))
               else if opr = ''%'' \<and> rightVal \<noteq> 0 then
                 (if division_overflows leftVal rightVal then Inl Undefined
                  else Inr (leftVal smod rightVal))
               else Inr 0))"

text \<open>The body of the loop of \<open>constantFolding\<close>, on one instruction.\<close>

definition foldable :: "ThreeAddressCode \<Rightarrow> bool" where
  "foldable instr =
     ((op instr = ''+'' \<or> op instr = ''-'' \<or> op instr = ''*'' \<or> op instr = ''/'') \<and>
      isConstant (arg1 instr) \<and> isConstant (arg2 instr))"

definition constantFolding_instr :: "ThreeAddressCode \<Rightarrow> failure + ThreeAddressCode" where
  "constantFolding_instr instr =
     (if foldable instr then
        (case evaluateConstant (op instr) (arg1 instr) (arg2 instr) of
           Inl e \<Rightarrow> Inl e
         | Inr r \<Rightarrow> Inr (instr\<lparr>op := ''ASSIGN'', arg1 := to_string r, arg2 := ''''\<rparr>))
      else Inr instr)"

text \<open>
  \<open>constantFolding\<close>: the loop over the instructions. An exception of \<open>std::stoi\<close> is
  caught nowhere in the optimizer, so it ends the pass (and \<open>optimize\<close>), as does a
  division that traps.
\<close>

fun constantFolding :: "ThreeAddressCode list \<Rightarrow> failure + ThreeAddressCode list" where
  "constantFolding [] = Inr []"
| "constantFolding (instr # rest) =
     (case constantFolding_instr instr of
        Inl e \<Rightarrow> Inl e
      | Inr instr' \<Rightarrow>
          (case constantFolding rest of
             Inl e \<Rightarrow> Inl e
           | Inr rest' \<Rightarrow> Inr (instr' # rest')))"

text \<open>
  \<open>constantPropagation\<close>: the loop, with the local \<open>constantMap\<close> as its state.
  The operands are substituted first; then the map is updated from the instruction
  as substituted.
\<close>

definition substitute :: "(string \<rightharpoonup> string) \<Rightarrow> string \<Rightarrow> string" where
  "substitute constantMap a = (case constantMap a of Some v \<Rightarrow> v | None \<Rightarrow> a)"

fun constantPropagation_loop ::
  "(string \<rightharpoonup> string) \<Rightarrow> ThreeAddressCode list \<Rightarrow> ThreeAddressCode list" where
  "constantPropagation_loop constantMap [] = []"
| "constantPropagation_loop constantMap (instr # rest) =
     (let instr' = instr\<lparr>arg1 := substitute constantMap (arg1 instr),
                         arg2 := substitute constantMap (arg2 instr)\<rparr>;
          constantMap' =
            (if op instr' = ''ASSIGN'' \<and> isConstant (arg1 instr')
               then constantMap(result instr' \<mapsto> arg1 instr')
             else if op instr' \<noteq> ''ASSIGN''
               then constantMap(result instr' := None)
             else constantMap)
      in instr' # constantPropagation_loop constantMap' rest)"

definition constantPropagation :: "ThreeAddressCode list \<Rightarrow> ThreeAddressCode list" where
  "constantPropagation code = constantPropagation_loop Map.empty code"

text \<open>The test \<open>!s.empty() && s[0] == 't'\<close> that dead-code elimination uses for temporaries.\<close>

definition starts_with_t :: "string \<Rightarrow> bool" where
  "starts_with_t s = (s \<noteq> [] \<and> hd s = CHR ''t'')"

text \<open>First pass of \<open>deadCodeElimination\<close>: the set \<open>usedTemps\<close>.\<close>

definition usedTemps :: "ThreeAddressCode list \<Rightarrow> string set" where
  "usedTemps code =
     set (filter starts_with_t (map arg1 code)) \<union> set (filter starts_with_t (map arg2 code))"

definition deadCodeElimination :: "ThreeAddressCode list \<Rightarrow> ThreeAddressCode list" where
  "deadCodeElimination code =
     filter (\<lambda>instr. \<not> (op instr = ''ASSIGN'' \<and> starts_with_t (result instr) \<and>
                         result instr \<notin> usedTemps code)) code"

text \<open>
  \<open>removeRedundantAssignments\<close>: the loop with its local \<open>valueMap\<close>, which the code
  writes and clears but never reads.
\<close>

fun removeRedundantAssignments_loop ::
  "(string \<rightharpoonup> string) \<Rightarrow> ThreeAddressCode list \<Rightarrow> ThreeAddressCode list" where
  "removeRedundantAssignments_loop valueMap [] = []"
| "removeRedundantAssignments_loop valueMap (instr # rest) =
     (if op instr = ''ASSIGN'' then
        (if arg1 instr = result instr then removeRedundantAssignments_loop valueMap rest
         else instr # removeRedundantAssignments_loop (valueMap(result instr \<mapsto> arg1 instr)) rest)
      else instr # removeRedundantAssignments_loop Map.empty rest)"

definition removeRedundantAssignments :: "ThreeAddressCode list \<Rightarrow> ThreeAddressCode list" where
  "removeRedundantAssignments code = removeRedundantAssignments_loop Map.empty code"

text \<open>The body of the loop of \<open>algebraicSimplification\<close>: the chain of tests, in order.\<close>

definition algebraicSimplification_instr :: "ThreeAddressCode \<Rightarrow> ThreeAddressCode" where
  "algebraicSimplification_instr instr =
     (if op instr = ''+'' \<and> arg2 instr = ''0'' then instr\<lparr>op := ''ASSIGN'', arg2 := ''''\<rparr>
      else if op instr = ''-'' \<and> arg2 instr = ''0'' then instr\<lparr>op := ''ASSIGN'', arg2 := ''''\<rparr>
      else if op instr = ''*'' \<and> arg2 instr = ''1'' then instr\<lparr>op := ''ASSIGN'', arg2 := ''''\<rparr>
      else if op instr = ''*'' \<and> (arg1 instr = ''0'' \<or> arg2 instr = ''0'')
        then instr\<lparr>op := ''ASSIGN'', arg1 := ''0'', arg2 := ''''\<rparr>
      else if op instr = ''+'' \<and> arg1 instr = ''0''
        then instr\<lparr>op := ''ASSIGN'', arg1 := arg2 instr, arg2 := ''''\<rparr>
      else if op instr = ''*'' \<and> arg1 instr = ''1''
        then instr\<lparr>op := ''ASSIGN'', arg1 := arg2 instr, arg2 := ''''\<rparr>
      else instr)"

definition algebraicSimplification :: "ThreeAddressCode list \<Rightarrow> ThreeAddressCode list" where
  "algebraicSimplification code = map algebraicSimplification_instr code"

text \<open>\<open>optimize\<close>: the five passes, once each, in the order of the source.\<close>

definition optimize :: "ThreeAddressCode list \<Rightarrow> failure + ThreeAddressCode list" where
  "optimize code =
     (case constantFolding code of
        Inl e \<Rightarrow> Inl e
      | Inr folded \<Rightarrow>
          Inr (deadCodeElimination
                (removeRedundantAssignments
                  (algebraicSimplification
                    (constantPropagation folded)))))"

text \<open>Shorthand for writing instructions in examples.\<close>

definition tac :: "string \<Rightarrow> string \<Rightarrow> string \<Rightarrow> string \<Rightarrow> int \<Rightarrow> ThreeAddressCode" where
  "tac opr a1 a2 res lno = \<lparr>op = opr, arg1 = a1, arg2 = a2, result = res, line = lno\<rparr>"


text \<open>Applying \<open>optimize\<close> to its own result.\<close>

definition optimize_twice :: "ThreeAddressCode list \<Rightarrow> failure + ThreeAddressCode list" where
  "optimize_twice code = (case optimize code of Inl e \<Rightarrow> Inl e | Inr once \<Rightarrow> optimize once)"

text \<open>The opcodes that constant folding looks at.\<close>

definition is_arithmetic :: "string \<Rightarrow> bool" where
  "is_arithmetic opr = (opr = ''+'' \<or> opr = ''-'' \<or> opr = ''*'' \<or> opr = ''/'')"

text \<open>The test of \<open>removeRedundantAssignments\<close> for an assignment \<open>x = x\<close>.\<close>

definition self_assign :: "ThreeAddressCode \<Rightarrow> bool" where
  "self_assign instr = (op instr = ''ASSIGN'' \<and> arg1 instr = result instr)"

text \<open>The number of instructions of a list that have an arithmetic opcode.\<close>

definition arithmetic_count :: "ThreeAddressCode list \<Rightarrow> nat" where
  "arithmetic_count code = length (filter is_arithmetic (map op code))"

section \<open>Tokens and the syntax tree (token.h, ast.h)\<close>

datatype TokenType =
    T_IDENTIFIER | T_NUMBER | T_FLOAT | T_STRING
  | T_FUNC | T_LET | T_IF | T_ELSE | T_WHILE | T_RETURN
  | T_TRUE | T_FALSE | T_AND | T_OR | T_NOT
  | T_INT | T_FLOAT_TYPE | T_BOOL | T_SEQUENCE | T_PATTERN
  | T_PLUS | T_MINUS | T_MULTIPLY | T_DIVIDE | T_MODULO
  | T_ASSIGN | T_EQUALS | T_NOT_EQUALS
  | T_LESS | T_GREATER | T_LESS_EQUAL | T_GREATER_EQUAL
  | T_LPAREN | T_RPAREN | T_LBRACE | T_RBRACE | T_LBRACKET | T_RBRACKET
  | T_COMMA | T_COLON | T_SEMICOLON | T_ARROW
  | T_END_OF_FILE | T_ERROR

datatype Token = Token (tok_type: TokenType) (lexeme: string) (tok_line: int) (column: int)

datatype DataType = DT_INT | DT_FLOAT | DT_BOOL | DT_SEQUENCE | DT_PATTERN | DT_VOID | DT_UNKNOWN

text \<open>
  The expression and statement classes. The \<open>type\<close> annotation of an expression is
  written by the semantic analyzer only and read by neither the code generator nor the
  interpreter; it is left out. The \<open>line\<close> of a node is set by its constructor from its
  parts, so it is a function of the node (\<open>expr_line\<close>, \<open>stmt_line\<close> below).
\<close>

datatype Expr =
    BinaryExpr Expr Token Expr
  | UnaryExpr Token Expr
  | LiteralExpr Token
  | VariableExpr Token
  | CallExpr Token "Expr list"
  | SequenceExpr "Expr list"

datatype Stmt =
    BlockStmt "Stmt list"
  | DeclarationStmt Token DataType "Expr option"
  | AssignmentStmt Token Expr
  | IfStmt Expr "Stmt list" "Stmt list"
  | WhileStmt Expr "Stmt list"
  | ReturnStmt "Expr option"
  | ExpressionStmt Expr

record FunctionDecl =
  name :: Token
  parameters :: "(Token \<times> DataType) list"
  returnType :: DataType
  body :: "Stmt list"

type_synonym Program = "FunctionDecl list"

text \<open>
  The constructors of \<open>SequenceExpr\<close>, \<open>BlockStmt\<close>, \<open>ReturnStmt\<close> and \<open>ExpressionStmt\<close>
  test their parameter after it has been moved into the member, so the test sees an empty
  vector or a null pointer and \<open>line\<close> keeps its default \<open>-1\<close>.
\<close>

fun expr_line :: "Expr \<Rightarrow> int" where
  "expr_line (BinaryExpr l opr r) = tok_line opr"
| "expr_line (UnaryExpr opr r) = tok_line opr"
| "expr_line (LiteralExpr v) = tok_line v"
| "expr_line (VariableExpr n) = tok_line n"
| "expr_line (CallExpr callee args) = tok_line callee"
| "expr_line (SequenceExpr elements) = - 1"

fun stmt_line :: "Stmt \<Rightarrow> int" where
  "stmt_line (BlockStmt stmts) = - 1"
| "stmt_line (DeclarationStmt n t init) = tok_line n"
| "stmt_line (AssignmentStmt n v) = tok_line n"
| "stmt_line (IfStmt c t e) = expr_line c"
| "stmt_line (WhileStmt c b) = expr_line c"
| "stmt_line (ReturnStmt v) = - 1"
| "stmt_line (ExpressionStmt e) = - 1"

section \<open>The symbol tables (symbol_table.h)\<close>

record Symbol =
  symbol_name :: string
  symbol_type :: DataType
  isInitialized :: bool
  symbol_isConstant :: bool
  symbol_scopeDepth :: "32 word"

text \<open>
  A \<open>SymbolTable\<close>: its map \<open>symbols\<close> and its \<open>scopeDepth\<close>. Its \<open>parent\<close> pointer is
  the position of the table in the chain below.
\<close>

record SymbolTable =
  symbols :: "string \<rightharpoonup> Symbol"
  scopeDepth :: "32 word"

text \<open>
  A \<open>SymbolTableManager\<close>. Every table is made by \<open>enterScope\<close>, with the table that is
  \<open>current\<close> at that moment as its parent, and no parent pointer is assigned afterwards;
  so the tables that can be reached from \<open>current\<close> form a chain, held here as the list
  \<open>scope_chain\<close>: the table \<open>current\<close> points to first, then its parent, and so on. The
  last table of the chain is the global one, made in the constructor: its parent is the
  value \<open>current\<close> had then, and the constructor gives \<open>current\<close> no initial value. The
  tables that \<open>exitScope\<close> has left stay in the vector \<open>tables\<close>, which owns them, and
  can no longer be reached. No operation empties the chain; on an empty chain, which
  stands for a \<open>current\<close> that points to no table, the operations are undefined.
\<close>

record SymbolTableManager =
  scope_chain :: "SymbolTable list"
  currentDepth :: "32 word"

text \<open>The constructor: \<open>currentDepth(0)\<close>, then \<open>enterScope()\<close> for the global scope.\<close>

definition SymbolTableManager_constructed :: SymbolTableManager where
  "SymbolTableManager_constructed =
     \<lparr>scope_chain = [\<lparr>symbols = Map.empty, scopeDepth = 0\<rparr>], currentDepth = 1\<rparr>"

definition enterScope :: "SymbolTableManager \<Rightarrow> SymbolTableManager" where
  "enterScope m =
     m\<lparr>scope_chain := \<lparr>symbols = Map.empty, scopeDepth = currentDepth m\<rparr> # scope_chain m,
       currentDepth := currentDepth m + 1\<rparr>"

text \<open>
  \<open>exitScope\<close> tests \<open>current && current->getParent()\<close>. In the global table the parent
  pointer was never initialised, and reading it is undefined.
\<close>

definition exitScope :: "SymbolTableManager \<Rightarrow> failure + SymbolTableManager" where
  "exitScope m =
     (case scope_chain m of
        [] \<Rightarrow> Inl Undefined
      | [global] \<Rightarrow> Inl Undefined
      | table # parent # rest \<Rightarrow>
          Inr (m\<lparr>scope_chain := parent # rest, currentDepth := currentDepth m - 1\<rparr>))"

text \<open>\<open>SymbolTable::insert\<close>: nothing is changed when the name is in the table already.\<close>

definition insert_symbol :: "string \<Rightarrow> DataType \<Rightarrow> bool \<Rightarrow> bool \<Rightarrow> SymbolTable \<Rightarrow> SymbolTable" where
  "insert_symbol nm type initialized constant table =
     (case symbols table nm of
        Some s \<Rightarrow> table
      | None \<Rightarrow>
          table\<lparr>symbols := (symbols table)(nm \<mapsto>
            \<lparr>symbol_name = nm, symbol_type = type, isInitialized = initialized,
             symbol_isConstant = constant, symbol_scopeDepth = scopeDepth table\<rparr>)\<rparr>)"

definition declareSymbol ::
  "string \<Rightarrow> DataType \<Rightarrow> bool \<Rightarrow> SymbolTableManager \<Rightarrow> failure + SymbolTableManager" where
  "declareSymbol nm type initialized m =
     (case scope_chain m of
        [] \<Rightarrow> Inl Undefined
      | table # rest \<Rightarrow>
          Inr (m\<lparr>scope_chain := insert_symbol nm type initialized False table # rest\<rparr>))"

text \<open>
  \<open>SymbolTable::updateInitialization\<close>, from a table along the parent pointers: the first
  table that has the name marks it. When no table of the chain has it, the global table
  goes on to its parent pointer, which was never initialised.
\<close>

fun updateInitialization :: "string \<Rightarrow> SymbolTable list \<Rightarrow> failure + SymbolTable list" where
  "updateInitialization nm [] = Inl Undefined"
| "updateInitialization nm (table # parents) =
     (case symbols table nm of
        Some s \<Rightarrow> Inr (table\<lparr>symbols := (symbols table)(nm \<mapsto> s\<lparr>isInitialized := True\<rparr>)\<rparr> # parents)
      | None \<Rightarrow>
          (case updateInitialization nm parents of
             Inl e \<Rightarrow> Inl e
           | Inr parents' \<Rightarrow> Inr (table # parents')))"

definition markSymbolInitialized :: "string \<Rightarrow> SymbolTableManager \<Rightarrow> failure + SymbolTableManager" where
  "markSymbolInitialized nm m =
     (case updateInitialization nm (scope_chain m) of
        Inl e \<Rightarrow> Inl e
      | Inr chain \<Rightarrow> Inr (m\<lparr>scope_chain := chain\<rparr>))"

section \<open>The code generator (codegen.cpp)\<close>

text \<open>
  The state of a \<open>CodeGenerator\<close>. The counters are C++ \<open>int\<close>s, held as 32-bit words:
  \<open>++\<close> is the addition of the word type, and \<open>std::to_string\<close> prints the signed value.
\<close>

record CodeGenerator =
  intermediateCode :: "ThreeAddressCode list"
  symbolManager :: SymbolTableManager
  tempCounter :: "32 word"
  labelCounter :: "32 word"

text \<open>The constructor \<open>CodeGenerator() : tempCounter(0), labelCounter(0)\<close>.\<close>

definition CodeGenerator_constructed :: CodeGenerator where
  "CodeGenerator_constructed =
     \<lparr>intermediateCode = [], symbolManager = SymbolTableManager_constructed,
      tempCounter = 0, labelCounter = 0\<rparr>"

definition newTemp :: "CodeGenerator \<Rightarrow> string \<times> CodeGenerator" where
  "newTemp g = (''t'' @ to_string (sint (tempCounter g)), g\<lparr>tempCounter := tempCounter g + 1\<rparr>)"

definition newLabel :: "CodeGenerator \<Rightarrow> string \<times> CodeGenerator" where
  "newLabel g = (''L'' @ to_string (sint (labelCounter g)), g\<lparr>labelCounter := labelCounter g + 1\<rparr>)"

text \<open>\<open>intermediateCode.push_back(ThreeAddressCode(op, arg1, arg2, result, line))\<close>.\<close>

definition push_back :: "ThreeAddressCode \<Rightarrow> CodeGenerator \<Rightarrow> CodeGenerator" where
  "push_back instr g = g\<lparr>intermediateCode := intermediateCode g @ [instr]\<rparr>"

text \<open>A call of a member function of \<open>symbolManager\<close>.\<close>

definition on_symbolManager ::
  "(SymbolTableManager \<Rightarrow> failure + SymbolTableManager) \<Rightarrow> CodeGenerator \<Rightarrow> failure + CodeGenerator" where
  "on_symbolManager f g =
     (case f (symbolManager g) of
        Inl e \<Rightarrow> Inl e
      | Inr m \<Rightarrow> Inr (g\<lparr>symbolManager := m\<rparr>))"

fun getOperatorTAC :: "TokenType \<Rightarrow> string" where
  "getOperatorTAC T_PLUS = ''+''"
| "getOperatorTAC T_MINUS = ''-''"
| "getOperatorTAC T_MULTIPLY = ''*''"
| "getOperatorTAC T_DIVIDE = ''/''"
| "getOperatorTAC T_MODULO = ''%''"
| "getOperatorTAC T_EQUALS = ''==''"
| "getOperatorTAC T_NOT_EQUALS = ''!=''"
| "getOperatorTAC T_LESS = ''<''"
| "getOperatorTAC T_LESS_EQUAL = ''<=''"
| "getOperatorTAC T_GREATER = ''>''"
| "getOperatorTAC T_GREATER_EQUAL = ''>=''"
| "getOperatorTAC T_AND = ''&&''"
| "getOperatorTAC T_OR = ''||''"
| "getOperatorTAC T_NOT = ''!''"
| "getOperatorTAC _ = ''?''"

text \<open>
  \<open>generateExpression\<close> with the loops of \<open>generateCallExpression\<close> (over the arguments,
  building the comma-joined text \<open>args\<close>) and \<open>generateSequenceExpression\<close> (over the
  elements, with the index \<open>i\<close>). No expression touches \<open>symbolManager\<close>.
\<close>

fun generateExpression :: "Expr \<Rightarrow> CodeGenerator \<Rightarrow> string \<times> CodeGenerator"
  and generateCallArguments ::
    "Expr list \<Rightarrow> string \<Rightarrow> int \<Rightarrow> CodeGenerator \<Rightarrow> string \<times> CodeGenerator"
  and generateSequenceElements ::
    "Expr list \<Rightarrow> nat \<Rightarrow> string \<Rightarrow> CodeGenerator \<Rightarrow> CodeGenerator"
where
  "generateExpression (BinaryExpr l opr r) g =
     (let (left, g1) = generateExpression l g;
          (right, g2) = generateExpression r g1;
          (res, g3) = newTemp g2
      in (res, push_back (tac (getOperatorTAC (tok_type opr)) left right res (tok_line opr)) g3))"
| "generateExpression (UnaryExpr opr r) g =
     (let (e, g1) = generateExpression r g;
          (res, g2) = newTemp g1
      in (res, push_back (tac (getOperatorTAC (tok_type opr)) e '''' res (tok_line opr)) g2))"
| "generateExpression (LiteralExpr v) g = (lexeme v, g)"
| "generateExpression (VariableExpr n) g = (lexeme n, g)"
| "generateExpression (CallExpr callee arguments) g =
     (let (res, g1) = newTemp g;
          (args, g2) = generateCallArguments arguments '''' (tok_line callee) g1
      in (res, push_back (tac ''CALL'' (lexeme callee) args res (tok_line callee)) g2))"
| "generateExpression (SequenceExpr elements) g =
     (let (res, g1) = newTemp g;
          g2 = push_back (tac ''ASSIGN'' ''[]'' '''' res (- 1)) g1
      in (res, generateSequenceElements elements 0 res g2))"
| "generateCallArguments [] args lno g = (args, g)"
| "generateCallArguments (a # rest) args lno g =
     (let (arg, g1) = generateExpression a g;
          g2 = push_back (tac ''PARAM'' arg '''' '''' lno) g1;
          args' = (if args \<noteq> [] then args @ '', '' else args) @ arg
      in generateCallArguments rest args' lno g2)"
| "generateSequenceElements [] i res g = g"
| "generateSequenceElements (e # rest) i res g =
     (let (element, g1) = generateExpression e g;
          g2 = push_back (tac ''STORE'' element (to_string (int i)) res (- 1)) g1
      in generateSequenceElements rest (Suc i) res g2)"

text \<open>
  The statements between \<open>symbolManager.enterScope()\<close> and \<open>symbolManager.exitScope()\<close>
  in \<open>generateIfStatement\<close> and \<open>generateWhileStatement\<close>: \<open>statements\<close> is the loop over
  the statements of the branch or body.
\<close>

definition in_new_scope ::
  "(CodeGenerator \<Rightarrow> failure + CodeGenerator) \<Rightarrow> CodeGenerator \<Rightarrow> failure + CodeGenerator" where
  "in_new_scope statements g =
     (case statements (g\<lparr>symbolManager := enterScope (symbolManager g)\<rparr>) of
        Inl e \<Rightarrow> Inl e
      | Inr g1 \<Rightarrow> on_symbolManager exitScope g1)"

text \<open>
  \<open>generateStatement\<close> and the loops over statement lists. A \<open>BlockStmt\<close> matches none
  of the casts of \<open>generateStatement\<close>, which then emits nothing for it.
\<close>

fun generateStatement :: "Stmt \<Rightarrow> CodeGenerator \<Rightarrow> failure + CodeGenerator"
  and generateStatements :: "Stmt list \<Rightarrow> CodeGenerator \<Rightarrow> failure + CodeGenerator"
where
  "generateStatement (DeclarationStmt n t init) g =
     (case on_symbolManager (declareSymbol (lexeme n) t False) g of
        Inl e \<Rightarrow> Inl e
      | Inr g0 \<Rightarrow>
          (case init of
             None \<Rightarrow> Inr g0
           | Some e \<Rightarrow>
               (let (v, g1) = generateExpression e g0;
                    g2 = push_back (tac ''ASSIGN'' v '''' (lexeme n) (tok_line n)) g1
                in on_symbolManager (markSymbolInitialized (lexeme n)) g2)))"
| "generateStatement (AssignmentStmt n e) g =
     (let (v, g1) = generateExpression e g;
          g2 = push_back (tac ''ASSIGN'' v '''' (lexeme n) (tok_line n)) g1
      in on_symbolManager (markSymbolInitialized (lexeme n)) g2)"
| "generateStatement (IfStmt c thenBranch elseBranch) g =
     (let (condition, g1) = generateExpression c g;
          (elseLabel, g2) = newLabel g1;
          (endLabel, g3) = newLabel g2;
          g4 = push_back (tac ''IF_FALSE'' condition '''' elseLabel (expr_line c)) g3
      in case in_new_scope (generateStatements thenBranch) g4 of
           Inl e \<Rightarrow> Inl e
         | Inr g5 \<Rightarrow>
             (let g6 = push_back (tac ''GOTO'' '''' '''' endLabel (expr_line c)) g5;
                  g7 = push_back (tac ''LABEL'' '''' '''' elseLabel (expr_line c)) g6
              in case in_new_scope (generateStatements elseBranch) g7 of
                   Inl e \<Rightarrow> Inl e
                 | Inr g8 \<Rightarrow> Inr (push_back (tac ''LABEL'' '''' '''' endLabel (expr_line c)) g8)))"
| "generateStatement (WhileStmt c loopBody) g =
     (let (startLabel, g1) = newLabel g;
          (conditionLabel, g2) = newLabel g1;
          (endLabel, g3) = newLabel g2;
          g4 = push_back (tac ''GOTO'' '''' '''' conditionLabel (expr_line c)) g3;
          g5 = push_back (tac ''LABEL'' '''' '''' startLabel (expr_line c)) g4
      in case in_new_scope (generateStatements loopBody) g5 of
           Inl e \<Rightarrow> Inl e
         | Inr g6 \<Rightarrow>
             (let g7 = push_back (tac ''LABEL'' '''' '''' conditionLabel (expr_line c)) g6;
                  (condition, g8) = generateExpression c g7;
                  g9 = push_back (tac ''IF'' condition '''' startLabel (expr_line c)) g8
              in Inr (push_back (tac ''LABEL'' '''' '''' endLabel (expr_line c)) g9)))"
| "generateStatement (ReturnStmt v) g =
     (case v of
        Some e \<Rightarrow>
          (let (value, g1) = generateExpression e g
           in Inr (push_back (tac ''RETURN'' value '''' '''' (- 1)) g1))
      | None \<Rightarrow> Inr (push_back (tac ''RETURN'' '''' '''' '''' (- 1)) g))"
| "generateStatement (ExpressionStmt e) g = Inr (snd (generateExpression e g))"
| "generateStatement (BlockStmt stmts) g = Inr g"
| "generateStatements [] g = Inr g"
| "generateStatements (s # rest) g =
     (case generateStatement s g of
        Inl e \<Rightarrow> Inl e
      | Inr g1 \<Rightarrow> generateStatements rest g1)"

text \<open>The loop of \<open>generateFunction\<close> over the parameters.\<close>

fun generateParameters :: "(Token \<times> DataType) list \<Rightarrow> CodeGenerator \<Rightarrow> failure + CodeGenerator" where
  "generateParameters [] g = Inr g"
| "generateParameters (p # rest) g =
     (case on_symbolManager (declareSymbol (lexeme (fst p)) (snd p) True) g of
        Inl e \<Rightarrow> Inl e
      | Inr g1 \<Rightarrow>
          generateParameters rest
            (push_back (tac ''ASSIGN'' (''param_'' @ lexeme (fst p)) '''' (lexeme (fst p))
                         (tok_line (fst p))) g1))"

definition generateFunction :: "FunctionDecl \<Rightarrow> CodeGenerator \<Rightarrow> failure + CodeGenerator" where
  "generateFunction function g =
     (let g1 = push_back (tac ''LABEL'' '''' '''' (lexeme (name function)) (tok_line (name function))) g;
          g2 = g1\<lparr>symbolManager := enterScope (symbolManager g1)\<rparr>
      in case generateParameters (parameters function) g2 of
           Inl e \<Rightarrow> Inl e
         | Inr g3 \<Rightarrow>
             (case generateStatements (body function) g3 of
                Inl e \<Rightarrow> Inl e
              | Inr g4 \<Rightarrow>
                  on_symbolManager exitScope
                    (if returnType function = DT_VOID
                       then push_back (tac ''RETURN'' '''' '''' '''' (tok_line (name function))) g4
                     else g4)))"

fun generateProgram :: "Program \<Rightarrow> CodeGenerator \<Rightarrow> failure + CodeGenerator" where
  "generateProgram [] g = Inr g"
| "generateProgram (f # rest) g =
     (case generateFunction f g of
        Inl e \<Rightarrow> Inl e
      | Inr g1 \<Rightarrow> generateProgram rest g1)"

text \<open>
  \<open>generate\<close>, called on the generator \<open>g\<close>: it clears the instructions and the counters
  (not the symbol tables) and returns a copy of the instructions.
\<close>

definition generate :: "Program \<Rightarrow> CodeGenerator \<Rightarrow> failure + ThreeAddressCode list" where
  "generate program g =
     (case generateProgram program (g\<lparr>intermediateCode := [], tempCounter := 0, labelCounter := 0\<rparr>) of
        Inl e \<Rightarrow> Inl e
      | Inr g1 \<Rightarrow> Inr (intermediateCode g1))"

text \<open>
  The instructions an expression lowers to when generation starts with the counters of
  \<open>g\<close>: what the generator appends to an empty instruction list.
\<close>

definition lowered_expression :: "Expr \<Rightarrow> CodeGenerator \<Rightarrow> ThreeAddressCode list" where
  "lowered_expression e g = intermediateCode (snd (generateExpression e (g\<lparr>intermediateCode := []\<rparr>)))"

text \<open>The generator state \<open>g\<close> with the instructions \<open>p\<close> put in front of its own.\<close>

definition prepend :: "ThreeAddressCode list \<Rightarrow> CodeGenerator \<Rightarrow> CodeGenerator" where
  "prepend p g = g\<lparr>intermediateCode := p @ intermediateCode g\<rparr>"

text \<open>\<open>prepend\<close> on the result of a step that may fail.\<close>

definition prepended :: "ThreeAddressCode list \<Rightarrow> failure + CodeGenerator \<Rightarrow> failure + CodeGenerator" where
  "prepended p r = (case r of Inl e \<Rightarrow> Inl e | Inr g \<Rightarrow> Inr (prepend p g))"

text \<open>The number of tables on the scope chain of the generator.\<close>

definition scope_depth :: "CodeGenerator \<Rightarrow> nat" where
  "scope_depth g = length (scope_chain (symbolManager g))"

section \<open>Runtime values of the interpreter (interpreter.h, interpreter.cpp)\<close>

text \<open>
  The interpreter computes with C++ \<open>double\<close>s. Their arithmetic, conversions and printing
  are taken as parameters: \<open>'d\<close> is the type of doubles and a \<open>double_ops\<close> record gives the
  operations the interpreter uses. Theorems stated for an arbitrary record hold for
  IEEE 754 in particular.
\<close>

record 'd double_ops =
  d_of_ll :: "64 word \<Rightarrow> 'd"            \<comment> \<open>\<open>static_cast<double>(long long)\<close>\<close>
  d_to_ll :: "'d \<Rightarrow> 64 word"            \<comment> \<open>\<open>static_cast<long long>(double)\<close>, truncation toward zero\<close>
  d_add :: "'d \<Rightarrow> 'd \<Rightarrow> 'd"
  d_sub :: "'d \<Rightarrow> 'd \<Rightarrow> 'd"
  d_mul :: "'d \<Rightarrow> 'd \<Rightarrow> 'd"
  d_div :: "'d \<Rightarrow> 'd \<Rightarrow> 'd"
  d_neg :: "'d \<Rightarrow> 'd"
  d_abs :: "'d \<Rightarrow> 'd"                    \<comment> \<open>\<open>std::abs\<close>\<close>
  d_less :: "'d \<Rightarrow> 'd \<Rightarrow> bool"
  d_less_eq :: "'d \<Rightarrow> 'd \<Rightarrow> bool"
  d_eq :: "'d \<Rightarrow> 'd \<Rightarrow> bool"
  d_zero :: "'d"                          \<comment> \<open>the literal \<open>0.0\<close>\<close>
  d_one :: "'d"                           \<comment> \<open>the literal \<open>1.0\<close>\<close>
  d_epsilon :: "'d"                       \<comment> \<open>the literal \<open>1e-9\<close>\<close>
  d_print :: "'d \<Rightarrow> string"              \<comment> \<open>\<open>std::ostringstream << double\<close>\<close>
  stod :: "string \<Rightarrow> std_exception + 'd"  \<comment> \<open>\<open>std::stod\<close>\<close>

text \<open>The single quote character, as a string (for the texts of error messages).\<close>

definition squote :: string where
  "squote = [CHR 0x27]"

text \<open>
  \<open>RuntimeValue\<close>: the struct has a \<open>kind\<close> tag and one field per kind; every read in the
  interpreter goes to the field of the value's own kind, so a value is modelled by its tag
  and that field. The constructors are the factory functions of the struct.
\<close>

datatype 'd RuntimeValue =
    Void
  | FromInt "64 word"
  | FromFloat 'd
  | FromBool bool
  | FromString string
  | FromSequence "'d RuntimeValue list"

text \<open>
  C++ exceptions in flight inside the interpreter: a \<open>std::exception\<close> with its \<open>what()\<close>
  text (the interpreter's own are \<open>std::runtime_error\<close>s), or the \<open>ReturnSignal\<close> of a
  return statement.
\<close>

datatype 'd signal = Exception string | ReturnSignal "'d RuntimeValue"

fun is_FLOAT :: "'d RuntimeValue \<Rightarrow> bool" where
  "is_FLOAT (FromFloat f) = True"
| "is_FLOAT _ = False"

fun is_SEQUENCE :: "'d RuntimeValue \<Rightarrow> bool" where
  "is_SEQUENCE (FromSequence vs) = True"
| "is_SEQUENCE _ = False"

fun sequenceValue :: "'d RuntimeValue \<Rightarrow> 'd RuntimeValue list" where
  "sequenceValue (FromSequence vs) = vs"
| "sequenceValue _ = []"

fun isNumeric :: "'d RuntimeValue \<Rightarrow> bool" where
  "isNumeric (FromInt i) = True"
| "isNumeric (FromFloat f) = True"
| "isNumeric _ = False"

fun asFloat :: "'d double_ops \<Rightarrow> 'd RuntimeValue \<Rightarrow> 'd signal + 'd" where
  "asFloat ops (FromFloat f) = Inr f"
| "asFloat ops (FromInt i) = Inr (d_of_ll ops i)"
| "asFloat ops (FromBool b) = Inr (if b then d_one ops else d_zero ops)"
| "asFloat ops _ = Inl (Exception ''Runtime error: value is not numeric'')"

fun asInt :: "'d double_ops \<Rightarrow> 'd RuntimeValue \<Rightarrow> 'd signal + 64 word" where
  "asInt ops (FromInt i) = Inr i"
| "asInt ops (FromFloat f) = Inr (d_to_ll ops f)"
| "asInt ops (FromBool b) = Inr (if b then 1 else 0)"
| "asInt ops _ = Inl (Exception ''Runtime error: value is not an integer'')"

fun isTruthy :: "'d double_ops \<Rightarrow> 'd RuntimeValue \<Rightarrow> bool" where
  "isTruthy ops Void = False"
| "isTruthy ops (FromBool b) = b"
| "isTruthy ops (FromInt i) = (i \<noteq> 0)"
| "isTruthy ops (FromFloat f) = d_less ops (d_epsilon ops) (d_abs ops f)"
| "isTruthy ops (FromString s) = (s \<noteq> [])"
| "isTruthy ops (FromSequence vs) = (vs \<noteq> [])"

fun asBool :: "'d double_ops \<Rightarrow> 'd RuntimeValue \<Rightarrow> bool" where
  "asBool ops (FromBool b) = b"
| "asBool ops (FromInt i) = (\<not> d_eq ops (d_of_ll ops i) (d_zero ops))"
| "asBool ops (FromFloat f) = (\<not> d_eq ops f (d_zero ops))"
| "asBool ops v = isTruthy ops v"

text \<open>The texts of a list joined with a separator between neighbours.\<close>

fun join :: "string \<Rightarrow> string list \<Rightarrow> string" where
  "join sep [] = []"
| "join sep [x] = x"
| "join sep (x # y # rest) = x @ sep @ join sep (y # rest)"

fun toString :: "'d double_ops \<Rightarrow> 'd RuntimeValue \<Rightarrow> string" where
  "toString ops Void = ''void''"
| "toString ops (FromInt i) = to_string (sint i)"
| "toString ops (FromFloat f) = d_print ops f"
| "toString ops (FromBool b) = (if b then ''true'' else ''false'')"
| "toString ops (FromString s) = s"
| "toString ops (FromSequence vs) = ''['' @ join '', '' (map (toString ops) vs) @ '']''"

text \<open>\<open>std::stoll\<close>: as \<open>std::stoi\<close>, for a 64-bit \<open>long long\<close>.\<close>

definition stoll :: "string \<Rightarrow> std_exception + 64 word" where
  "stoll s =
     (case strtol_prefix s of
        None \<Rightarrow> Inl invalid_argument
      | Some (v, n) \<Rightarrow> if v < - (2 ^ 63) \<or> 2 ^ 63 \<le> v then Inl out_of_range else Inr (word_of_int v))"

text \<open>
  The remainder of \<open>long long\<close> operands, truncated like the C++ \<open>%\<close>.
  (\<open>LLONG_MIN % -1\<close> is undefined in C++; here it is 0.)
\<close>

definition ll_rem :: "64 word \<Rightarrow> 64 word \<Rightarrow> 64 word" where
  "ll_rem l r = word_of_int (sint l smod sint r)"

text \<open>
  The lambda \<open>performNumeric\<close> of \<open>evaluateBinary\<close>, applied to the evaluated operands.
\<close>

definition performNumeric ::
  "'d double_ops \<Rightarrow> ('d \<Rightarrow> 'd \<Rightarrow> 'd) \<Rightarrow> 'd RuntimeValue \<Rightarrow> 'd RuntimeValue \<Rightarrow> 'd signal + 'd RuntimeValue"
where
  "performNumeric ops func left right =
     (let useFloat = (is_FLOAT left \<or> is_FLOAT right)
      in case asFloat ops left of
           Inl e \<Rightarrow> Inl e
         | Inr leftVal \<Rightarrow>
             (case asFloat ops right of
                Inl e \<Rightarrow> Inl e
              | Inr rightVal \<Rightarrow>
                  (let v = func leftVal rightVal
                   in if useFloat then Inr (FromFloat v) else Inr (FromInt (d_to_ll ops v)))))"

text \<open>A comparison of \<open>left.asFloat()\<close> with \<open>right.asFloat()\<close>.\<close>

definition compareFloats ::
  "'d double_ops \<Rightarrow> ('d \<Rightarrow> 'd \<Rightarrow> bool) \<Rightarrow> 'd RuntimeValue \<Rightarrow> 'd RuntimeValue \<Rightarrow> 'd signal + 'd RuntimeValue"
where
  "compareFloats ops rel left right =
     (case asFloat ops left of
        Inl e \<Rightarrow> Inl e
      | Inr l \<Rightarrow>
          (case asFloat ops right of
             Inl e \<Rightarrow> Inl e
           | Inr r \<Rightarrow> Inr (FromBool (rel l r))))"

text \<open>
  The \<open>switch\<close> of \<open>evaluateBinary\<close>, on the operator and the two operand values (both
  operands have been evaluated before it).
\<close>

fun evaluateBinary_switch ::
  "'d double_ops \<Rightarrow> TokenType \<Rightarrow> 'd RuntimeValue \<Rightarrow> 'd RuntimeValue \<Rightarrow> 'd signal + 'd RuntimeValue"
where
  "evaluateBinary_switch ops T_PLUS left right =
     (if is_SEQUENCE left \<and> is_SEQUENCE right
        then Inr (FromSequence (sequenceValue left @ sequenceValue right))
      else performNumeric ops (d_add ops) left right)"
| "evaluateBinary_switch ops T_MINUS left right = performNumeric ops (d_sub ops) left right"
| "evaluateBinary_switch ops T_MULTIPLY left right = performNumeric ops (d_mul ops) left right"
| "evaluateBinary_switch ops T_DIVIDE left right = performNumeric ops (d_div ops) left right"
| "evaluateBinary_switch ops T_MODULO left right =
     (case asInt ops left of
        Inl e \<Rightarrow> Inl e
      | Inr l \<Rightarrow>
          (case asInt ops right of
             Inl e \<Rightarrow> Inl e
           | Inr r \<Rightarrow>
               if r = 0 then Inl (Exception ''Runtime error: division by zero'')
               else Inr (FromInt (ll_rem l r))))"
| "evaluateBinary_switch ops T_EQUALS left right =
     Inr (FromBool (toString ops left = toString ops right))"
| "evaluateBinary_switch ops T_NOT_EQUALS left right =
     Inr (FromBool (toString ops left \<noteq> toString ops right))"
| "evaluateBinary_switch ops T_LESS left right = compareFloats ops (d_less ops) left right"
| "evaluateBinary_switch ops T_LESS_EQUAL left right = compareFloats ops (d_less_eq ops) left right"
| "evaluateBinary_switch ops T_GREATER left right =
     compareFloats ops (\<lambda>l r. d_less ops r l) left right"
| "evaluateBinary_switch ops T_GREATER_EQUAL left right =
     compareFloats ops (\<lambda>l r. d_less_eq ops r l) left right"
| "evaluateBinary_switch ops T_AND left right = Inr (FromBool (asBool ops left \<and> asBool ops right))"
| "evaluateBinary_switch ops T_OR left right = Inr (FromBool (asBool ops left \<or> asBool ops right))"
| "evaluateBinary_switch ops _ left right = Inr Void"

text \<open>The \<open>switch\<close> of \<open>evaluateUnary\<close>, on the operator and the operand value.\<close>

fun evaluateUnary_switch ::
  "'d double_ops \<Rightarrow> TokenType \<Rightarrow> 'd RuntimeValue \<Rightarrow> 'd signal + 'd RuntimeValue"
where
  "evaluateUnary_switch ops T_MINUS v =
     (if \<not> isNumeric v
        then Inl (Exception (''Runtime error: operator '' @ squote @ ''-'' @ squote @
                             '' requires numeric operands''))
      else (case v of FromFloat f \<Rightarrow> Inr (FromFloat (d_neg ops f))
                    | FromInt i \<Rightarrow> Inr (FromInt (- i))
                    | _ \<Rightarrow> Inr Void))"
| "evaluateUnary_switch ops T_NOT v = Inr (FromBool (\<not> asBool ops v))"
| "evaluateUnary_switch ops _ v = Inr Void"

text \<open>
  \<open>evaluateLiteral\<close>. The conversions throw standard exceptions whose \<open>what()\<close> is the
  name of the conversion function (libstdc++).
\<close>

definition evaluateLiteral :: "'d double_ops \<Rightarrow> Token \<Rightarrow> 'd signal + 'd RuntimeValue" where
  "evaluateLiteral ops v =
     (case tok_type v of
        T_NUMBER \<Rightarrow> (case stoll (lexeme v) of Inl e \<Rightarrow> Inl (Exception ''stoll'') | Inr i \<Rightarrow> Inr (FromInt i))
      | T_FLOAT \<Rightarrow> (case stod ops (lexeme v) of Inl e \<Rightarrow> Inl (Exception ''stod'') | Inr f \<Rightarrow> Inr (FromFloat f))
      | T_TRUE \<Rightarrow> Inr (FromBool True)
      | T_FALSE \<Rightarrow> Inr (FromBool False)
      | T_STRING \<Rightarrow> Inr (FromString (lexeme v))
      | _ \<Rightarrow> Inr Void)"

section \<open>The interpreter (interpreter.cpp)\<close>

text \<open>
  The mutable members of an \<open>Interpreter\<close>: the vector \<open>scopes\<close> (its back is the
  innermost frame) and \<open>outputLog\<close>; with them the two streams the \<open>input\<close> built-in
  uses: the lines still to be read from \<open>std::cin\<close> and the text written to \<open>std::cout\<close>.
\<close>

type_synonym 'd frame = "string \<rightharpoonup> 'd RuntimeValue"

record 'd Interpreter =
  scopes :: "'d frame list"
  outputLog :: "string list"
  cin :: "string list"
  cout :: string

record ExecutionResult =
  success :: bool
  exitCode :: "32 word"
  res_outputLog :: "string list"
  errorMessage :: string

definition pushScope :: "'d frame list \<Rightarrow> 'd frame list" where
  "pushScope frames = frames @ [Map.empty]"

definition popScope :: "'d frame list \<Rightarrow> 'd frame list" where
  "popScope frames = (if frames \<noteq> [] then butlast frames else frames)"

text \<open>\<open>define\<close>: \<open>scopes.back()[name] = value\<close>, after pushing a frame when there is none.\<close>

definition define_name :: "string \<Rightarrow> 'd RuntimeValue \<Rightarrow> 'd frame list \<Rightarrow> 'd frame list" where
  "define_name nm v frames =
     (let frames1 = (if frames = [] then pushScope frames else frames)
      in butlast frames1 @ [(last frames1)(nm \<mapsto> v)])"

text \<open>
  The loops of \<open>assign\<close> and \<open>get\<close> run from \<open>rbegin\<close> to \<open>rend\<close>: over the reversed
  vector, innermost frame first.
\<close>

fun assign_found :: "string \<Rightarrow> 'd RuntimeValue \<Rightarrow> 'd frame list \<Rightarrow> 'd frame list option" where
  "assign_found nm v [] = None"
| "assign_found nm v (f # outer) =
     (if f nm \<noteq> None then Some (f(nm \<mapsto> v) # outer)
      else map_option (\<lambda>outer'. f # outer') (assign_found nm v outer))"

definition assign :: "string \<Rightarrow> 'd RuntimeValue \<Rightarrow> 'd frame list \<Rightarrow> 'd frame list" where
  "assign nm v frames =
     (case assign_found nm v (rev frames) of
        Some updated \<Rightarrow> rev updated
      | None \<Rightarrow> define_name nm v frames)"

fun get_found :: "string \<Rightarrow> 'd frame list \<Rightarrow> 'd RuntimeValue option" where
  "get_found nm [] = None"
| "get_found nm (f # outer) = (case f nm of Some v \<Rightarrow> Some v | None \<Rightarrow> get_found nm outer)"

definition get :: "string \<Rightarrow> 'd frame list \<Rightarrow> 'd signal + 'd RuntimeValue" where
  "get nm frames =
     (case get_found nm (rev frames) of
        Some v \<Rightarrow> Inr v
      | None \<Rightarrow> Inl (Exception (''Runtime error: Undefined variable '' @ squote @ nm @ squote)))"

text \<open>
  The result of running a piece of the interpreter with some fuel: \<open>None\<close> when the fuel
  runs out (the C++ code would still be running); otherwise the interpreter state left
  behind, with either the value returned (\<open>Inr\<close>) or the exception thrown (\<open>Inl\<close>).
\<close>

type_synonym ('d, 'a) outcome = "(('d signal + 'a) \<times> 'd Interpreter) option"

text \<open>Sequencing: the continuation runs when the first part returned normally.\<close>

definition andThen ::
  "('d, 'a) outcome \<Rightarrow> ('a \<Rightarrow> 'd Interpreter \<Rightarrow> ('d, 'b) outcome) \<Rightarrow> ('d, 'b) outcome" where
  "andThen r k =
     (case r of
        None \<Rightarrow> None
      | Some (Inl sig, st) \<Rightarrow> Some (Inl sig, st)
      | Some (Inr v, st) \<Rightarrow> k v st)"

definition throw :: "string \<Rightarrow> 'd Interpreter \<Rightarrow> ('d, 'a) outcome" where
  "throw msg st = Some (Inl (Exception msg), st)"

text \<open>The loop of \<open>executeFunction\<close> that binds the parameters, \<open>i\<close> being its index.\<close>

fun bindParameters ::
  "(Token \<times> DataType) list \<Rightarrow> 'd RuntimeValue list \<Rightarrow> nat \<Rightarrow> 'd frame list \<Rightarrow> 'd frame list" where
  "bindParameters [] args i frames = frames"
| "bindParameters (p # rest) args i frames =
     bindParameters rest args (Suc i)
       (define_name (lexeme (fst p)) (if i < length args then args ! i else Void) frames)"

text \<open>The lambda \<open>trim\<close> of \<open>handleInput\<close>.\<close>

definition trim :: "string \<Rightarrow> string" where
  "trim s =
     (let blank = (\<lambda>c. c \<in> {CHR '' '', CHR 0x09, CHR 0x0D, CHR 0x0A})
      in rev (dropWhile blank (rev (dropWhile blank s))))"

text \<open>
  The end of \<open>handleInput\<close>: the value for a line read from \<open>std::cin\<close>. An exception of
  \<open>std::stoll\<close> or an unconsumed rest falls through to \<open>std::stod\<close>; an exception there
  gives 0.
\<close>

definition parseInputLine :: "'d double_ops \<Rightarrow> string \<Rightarrow> 'd RuntimeValue" where
  "parseInputLine ops lno =
     (let text = trim lno;
          viaDouble = (case stod ops text of Inr d \<Rightarrow> FromInt (d_to_ll ops d) | Inl e \<Rightarrow> FromInt 0)
      in if text = [] then FromInt 0
         else (case strtol_prefix text of
                 None \<Rightarrow> viaDouble
               | Some (v, idx) \<Rightarrow>
                   if - (2 ^ 63) \<le> v \<and> v < 2 ^ 63 \<and> idx = length text then FromInt (word_of_int v)
                   else viaDouble))"

text \<open>
  The evaluator. Its member functions call one another, and a program may loop or recurse
  for ever, so they are defined with fuel: \<open>interpreter ops functions n\<close> is the collection
  of the member functions that may still make calls nested \<open>n\<close> deep, each member is
  defined from the members with one unit less (\<open>rec\<close> in the definitions below, where a
  call \<open>f rec x st\<close> stands for the C++ call \<open>f(x)\<close>), and with no fuel left every member
  answers \<open>None\<close>.
\<close>

record 'd evaluator =
  evaluateExpression :: "Expr \<Rightarrow> 'd Interpreter \<Rightarrow> ('d, 'd RuntimeValue) outcome"
  evaluateArguments :: "Expr list \<Rightarrow> 'd Interpreter \<Rightarrow> ('d, 'd RuntimeValue list) outcome"
  evaluateCall :: "string \<Rightarrow> Expr list \<Rightarrow> 'd Interpreter \<Rightarrow> ('d, 'd RuntimeValue) outcome"
  handleMap_loop :: "string \<Rightarrow> 'd RuntimeValue list \<Rightarrow> 'd Interpreter \<Rightarrow> ('d, 'd RuntimeValue list) outcome"
  handleFilter_loop :: "string \<Rightarrow> 'd RuntimeValue list \<Rightarrow> 'd Interpreter \<Rightarrow> ('d, 'd RuntimeValue list) outcome"
  callUserFunction :: "string \<Rightarrow> 'd RuntimeValue list \<Rightarrow> 'd Interpreter \<Rightarrow> ('d, 'd RuntimeValue) outcome"
  executeFunction :: "FunctionDecl \<Rightarrow> 'd RuntimeValue list \<Rightarrow> 'd Interpreter \<Rightarrow> ('d, 'd RuntimeValue) outcome"
  executeStatement :: "Stmt \<Rightarrow> 'd Interpreter \<Rightarrow> ('d, unit) outcome"
  executeStatements :: "Stmt list \<Rightarrow> 'd Interpreter \<Rightarrow> ('d, unit) outcome"
  executeWhile :: "Expr \<Rightarrow> Stmt list \<Rightarrow> 'd Interpreter \<Rightarrow> ('d, unit) outcome"

text \<open>\<open>evaluateExpression\<close>, with \<open>evaluateBinary\<close>, \<open>evaluateUnary\<close>, \<open>evaluateVariable\<close> and
  \<open>evaluateSequence\<close> in its branches.\<close>

definition evaluateExpression_body ::
  "'d double_ops \<Rightarrow> 'd evaluator \<Rightarrow> Expr \<Rightarrow> 'd Interpreter \<Rightarrow> ('d, 'd RuntimeValue) outcome" where
  "evaluateExpression_body ops rec e st =
     (case e of
        BinaryExpr l opr r \<Rightarrow>
          andThen (evaluateExpression rec l st) (\<lambda>left st1.
          andThen (evaluateExpression rec r st1) (\<lambda>right st2.
            Some (evaluateBinary_switch ops (tok_type opr) left right, st2)))
      | UnaryExpr opr r \<Rightarrow>
          andThen (evaluateExpression rec r st) (\<lambda>v st1.
            Some (evaluateUnary_switch ops (tok_type opr) v, st1))
      | LiteralExpr v \<Rightarrow> Some (evaluateLiteral ops v, st)
      | VariableExpr nm \<Rightarrow> Some (get (lexeme nm) (scopes st), st)
      | CallExpr callee arguments \<Rightarrow> evaluateCall rec (lexeme callee) arguments st
      | SequenceExpr elements \<Rightarrow>
          andThen (evaluateArguments rec elements st) (\<lambda>values st1.
            Some (Inr (FromSequence values), st1)))"

text \<open>The loops that evaluate a list of expressions from left to right.\<close>

definition evaluateArguments_body ::
  "'d evaluator \<Rightarrow> Expr list \<Rightarrow> 'd Interpreter \<Rightarrow> ('d, 'd RuntimeValue list) outcome" where
  "evaluateArguments_body rec es st =
     (case es of
        [] \<Rightarrow> Some (Inr [], st)
      | e # rest \<Rightarrow>
          andThen (evaluateExpression rec e st) (\<lambda>v st1.
          andThen (evaluateArguments rec rest st1) (\<lambda>vs st2.
            Some (Inr (v # vs), st2))))"

text \<open>
  \<open>evaluateCall\<close>, containing the built-in handlers \<open>handlePrint\<close>, \<open>handleLength\<close>,
  \<open>handleGet\<close>, \<open>handleMap\<close>, \<open>handleFilter\<close>, \<open>handleGenerate\<close> and \<open>handleInput\<close> in the
  order of its tests.
\<close>

definition evaluateCall_body ::
  "'d double_ops \<Rightarrow> 'd evaluator \<Rightarrow> string \<Rightarrow> Expr list \<Rightarrow> 'd Interpreter \<Rightarrow>
   ('d, 'd RuntimeValue) outcome" where
  "evaluateCall_body ops rec funcName arguments st =
     (if funcName = ''print'' then
        andThen (evaluateArguments rec arguments st) (\<lambda>values st1.
          Some (Inr Void, st1\<lparr>outputLog := outputLog st1 @ [join '' '' (map (toString ops) values)]\<rparr>))
      else if funcName = ''length'' then
        (if length arguments \<noteq> 1 then throw ''Runtime error: length expects 1 argument'' st
         else
           andThen (evaluateExpression rec (arguments ! 0) st) (\<lambda>sequence st1.
             if \<not> is_SEQUENCE sequence then throw ''Runtime error: length expects a sequence'' st1
             else Some (Inr (FromInt (of_nat (length (sequenceValue sequence)))), st1)))
      else if funcName = ''get'' then
        (if length arguments \<noteq> 2 then throw ''Runtime error: get expects 2 arguments'' st
         else
           andThen (evaluateExpression rec (arguments ! 0) st) (\<lambda>sequence st1.
           andThen (evaluateExpression rec (arguments ! 1) st1) (\<lambda>index st2.
             if \<not> is_SEQUENCE sequence
               then throw ''Runtime error: get expects a sequence as the first argument'' st2
             else
               (case asInt ops index of
                  Inl sig \<Rightarrow> Some (Inl sig, st2)
                | Inr idx \<Rightarrow>
                    if sint idx < 0 \<or> length (sequenceValue sequence) \<le> nat (sint idx)
                      then throw ''Runtime error: sequence index out of range'' st2
                    else Some (Inr (sequenceValue sequence ! nat (sint idx)), st2)))))
      else if funcName = ''map'' then
        (if length arguments \<noteq> 2 then throw ''Runtime error: map expects 2 arguments'' st
         else
           andThen (evaluateExpression rec (arguments ! 0) st) (\<lambda>sequence st1.
             if \<not> is_SEQUENCE sequence
               then throw ''Runtime error: map expects a sequence as the first argument'' st1
             else
               (case arguments ! 1 of
                  VariableExpr mapper \<Rightarrow>
                    andThen (handleMap_loop rec (lexeme mapper) (sequenceValue sequence) st1)
                      (\<lambda>mapped st2. Some (Inr (FromSequence mapped), st2))
                | _ \<Rightarrow> throw ''Runtime error: expected function identifier'' st1)))
      else if funcName = ''filter'' then
        (if length arguments \<noteq> 2 then throw ''Runtime error: filter expects 2 arguments'' st
         else
           andThen (evaluateExpression rec (arguments ! 0) st) (\<lambda>sequence st1.
             if \<not> is_SEQUENCE sequence
               then throw ''Runtime error: filter expects a sequence as the first argument'' st1
             else
               (case arguments ! 1 of
                  VariableExpr predicate \<Rightarrow>
                    andThen (handleFilter_loop rec (lexeme predicate) (sequenceValue sequence) st1)
                      (\<lambda>kept st2. Some (Inr (FromSequence kept), st2))
                | _ \<Rightarrow> throw ''Runtime error: expected function identifier'' st1)))
      else if funcName = ''generate'' then
        andThen (evaluateArguments rec arguments st) (\<lambda>args st1.
          Some (Inr (FromSequence []), st1))
      else if funcName = ''input'' then
        (if 1 < length arguments then throw ''Runtime error: input expects at most 1 argument'' st
         else
           andThen
             (if arguments = [] then Some (Inr (), st)
              else
                andThen (evaluateExpression rec (arguments ! 0) st) (\<lambda>prompt st1.
                  Some (Inr (),
                        if toString ops prompt \<noteq> []
                          then st1\<lparr>cout := cout st1 @ toString ops prompt @ '' ''\<rparr>
                        else st1)))
             (\<lambda>u st2.
                (case cin st2 of
                   [] \<Rightarrow> Some (Inr (FromInt 0), st2\<lparr>cout := cout st2 @ ''> ''\<rparr>)
                 | lno # rest \<Rightarrow>
                     Some (Inr (parseInputLine ops lno),
                           st2\<lparr>cout := cout st2 @ ''> '', cin := rest\<rparr>))))
      else
        andThen (evaluateArguments rec arguments st) (\<lambda>args st1.
          callUserFunction rec funcName args st1))"

text \<open>The loops of \<open>handleMap\<close> and \<open>handleFilter\<close> over the items of the sequence.\<close>

definition handleMap_loop_body ::
  "'d evaluator \<Rightarrow> string \<Rightarrow> 'd RuntimeValue list \<Rightarrow> 'd Interpreter \<Rightarrow>
   ('d, 'd RuntimeValue list) outcome" where
  "handleMap_loop_body rec mapperName items st =
     (case items of
        [] \<Rightarrow> Some (Inr [], st)
      | item # rest \<Rightarrow>
          andThen (callUserFunction rec mapperName [item] st) (\<lambda>v st1.
          andThen (handleMap_loop rec mapperName rest st1) (\<lambda>vs st2.
            Some (Inr (v # vs), st2))))"

definition handleFilter_loop_body ::
  "'d double_ops \<Rightarrow> 'd evaluator \<Rightarrow> string \<Rightarrow> 'd RuntimeValue list \<Rightarrow> 'd Interpreter \<Rightarrow>
   ('d, 'd RuntimeValue list) outcome" where
  "handleFilter_loop_body ops rec predicateName items st =
     (case items of
        [] \<Rightarrow> Some (Inr [], st)
      | item # rest \<Rightarrow>
          andThen (callUserFunction rec predicateName [item] st) (\<lambda>keep st1.
          andThen (handleFilter_loop rec predicateName rest st1) (\<lambda>kept st2.
            Some (Inr (if asBool ops keep then item # kept else kept), st2))))"

definition callUserFunction_body ::
  "(string \<rightharpoonup> FunctionDecl) \<Rightarrow> 'd evaluator \<Rightarrow> string \<Rightarrow> 'd RuntimeValue list \<Rightarrow> 'd Interpreter \<Rightarrow>
   ('d, 'd RuntimeValue) outcome" where
  "callUserFunction_body functions rec nm args st =
     (case functions nm of
        None \<Rightarrow> throw (''Runtime error: Undefined function '' @ squote @ nm @ squote) st
      | Some function \<Rightarrow> executeFunction rec function args st)"

text \<open>
  \<open>executeFunction\<close>: the scope pushed on entry is popped on every way out, and a
  \<open>ReturnSignal\<close> becomes the value returned.
\<close>

definition executeFunction_body ::
  "'d evaluator \<Rightarrow> FunctionDecl \<Rightarrow> 'd RuntimeValue list \<Rightarrow> 'd Interpreter \<Rightarrow>
   ('d, 'd RuntimeValue) outcome" where
  "executeFunction_body rec function args st =
     (case executeStatements rec (body function)
             (st\<lparr>scopes := bindParameters (parameters function) args 0 (pushScope (scopes st))\<rparr>) of
        None \<Rightarrow> None
      | Some (Inl (ReturnSignal v), st1) \<Rightarrow> Some (Inr v, st1\<lparr>scopes := popScope (scopes st1)\<rparr>)
      | Some (Inl (Exception msg), st1) \<Rightarrow>
          Some (Inl (Exception msg), st1\<lparr>scopes := popScope (scopes st1)\<rparr>)
      | Some (Inr u, st1) \<Rightarrow> Some (Inr Void, st1\<lparr>scopes := popScope (scopes st1)\<rparr>))"

text \<open>
  \<open>executeStatement\<close>. Only the block statement (\<open>executeBlock\<close>) pops its scope when an
  exception passes; the branches of \<open>if\<close> and the body of \<open>while\<close> pop it on normal
  completion only.
\<close>

definition executeStatement_body ::
  "'d double_ops \<Rightarrow> 'd evaluator \<Rightarrow> Stmt \<Rightarrow> 'd Interpreter \<Rightarrow> ('d, unit) outcome" where
  "executeStatement_body ops rec stmt st =
     (case stmt of
        DeclarationStmt nm t init \<Rightarrow>
          (case init of
             None \<Rightarrow> Some (Inr (), st\<lparr>scopes := define_name (lexeme nm) Void (scopes st)\<rparr>)
           | Some e \<Rightarrow>
               andThen (evaluateExpression rec e st) (\<lambda>v st1.
                 Some (Inr (), st1\<lparr>scopes := define_name (lexeme nm) v (scopes st1)\<rparr>)))
      | AssignmentStmt nm e \<Rightarrow>
          andThen (evaluateExpression rec e st) (\<lambda>v st1.
            Some (Inr (), st1\<lparr>scopes := assign (lexeme nm) v (scopes st1)\<rparr>))
      | IfStmt c thenBranch elseBranch \<Rightarrow>
          andThen (evaluateExpression rec c st) (\<lambda>condition st1.
            if asBool ops condition then
              andThen (executeStatements rec thenBranch (st1\<lparr>scopes := pushScope (scopes st1)\<rparr>))
                (\<lambda>u st2. Some (Inr (), st2\<lparr>scopes := popScope (scopes st2)\<rparr>))
            else if elseBranch \<noteq> [] then
              andThen (executeStatements rec elseBranch (st1\<lparr>scopes := pushScope (scopes st1)\<rparr>))
                (\<lambda>u st2. Some (Inr (), st2\<lparr>scopes := popScope (scopes st2)\<rparr>))
            else Some (Inr (), st1))
      | WhileStmt c loopBody \<Rightarrow> executeWhile rec c loopBody st
      | ReturnStmt v \<Rightarrow>
          (case v of
             None \<Rightarrow> Some (Inl (ReturnSignal Void), st)
           | Some e \<Rightarrow>
               andThen (evaluateExpression rec e st) (\<lambda>value st1.
                 Some (Inl (ReturnSignal value), st1)))
      | ExpressionStmt e \<Rightarrow>
          andThen (evaluateExpression rec e st) (\<lambda>v st1. Some (Inr (), st1))
      | BlockStmt stmts \<Rightarrow>
          (case executeStatements rec stmts (st\<lparr>scopes := pushScope (scopes st)\<rparr>) of
             None \<Rightarrow> None
           | Some (Inl sig, st1) \<Rightarrow> Some (Inl sig, st1\<lparr>scopes := popScope (scopes st1)\<rparr>)
           | Some (Inr u, st1) \<Rightarrow> Some (Inr (), st1\<lparr>scopes := popScope (scopes st1)\<rparr>)))"

text \<open>The loops \<open>for (auto& stmt : ...) executeStatement(stmt.get())\<close>.\<close>

definition executeStatements_body ::
  "'d evaluator \<Rightarrow> Stmt list \<Rightarrow> 'd Interpreter \<Rightarrow> ('d, unit) outcome" where
  "executeStatements_body rec stmts st =
     (case stmts of
        [] \<Rightarrow> Some (Inr (), st)
      | stmt # rest \<Rightarrow>
          andThen (executeStatement rec stmt st) (\<lambda>u st1.
            executeStatements rec rest st1))"

text \<open>The \<open>while\<close> loop of \<open>executeStatement\<close>.\<close>

definition executeWhile_body ::
  "'d double_ops \<Rightarrow> 'd evaluator \<Rightarrow> Expr \<Rightarrow> Stmt list \<Rightarrow> 'd Interpreter \<Rightarrow> ('d, unit) outcome" where
  "executeWhile_body ops rec c loopBody st =
     andThen (evaluateExpression rec c st) (\<lambda>condition st1.
       if asBool ops condition then
         andThen (executeStatements rec loopBody (st1\<lparr>scopes := pushScope (scopes st1)\<rparr>))
           (\<lambda>u st2. executeWhile rec c loopBody (st2\<lparr>scopes := popScope (scopes st2)\<rparr>))
       else Some (Inr (), st1))"

primrec interpreter :: "'d double_ops \<Rightarrow> (string \<rightharpoonup> FunctionDecl) \<Rightarrow> nat \<Rightarrow> 'd evaluator" where
  "interpreter ops functions 0 =
     \<lparr>evaluateExpression = (\<lambda>e st. None),
      evaluateArguments = (\<lambda>es st. None),
      evaluateCall = (\<lambda>nm es st. None),
      handleMap_loop = (\<lambda>nm items st. None),
      handleFilter_loop = (\<lambda>nm items st. None),
      callUserFunction = (\<lambda>nm args st. None),
      executeFunction = (\<lambda>f args st. None),
      executeStatement = (\<lambda>s st. None),
      executeStatements = (\<lambda>ss st. None),
      executeWhile = (\<lambda>c b st. None)\<rparr>"
| "interpreter ops functions (Suc n) =
     \<lparr>evaluateExpression = evaluateExpression_body ops (interpreter ops functions n),
      evaluateArguments = evaluateArguments_body (interpreter ops functions n),
      evaluateCall = evaluateCall_body ops (interpreter ops functions n),
      handleMap_loop = handleMap_loop_body (interpreter ops functions n),
      handleFilter_loop = handleFilter_loop_body ops (interpreter ops functions n),
      callUserFunction = callUserFunction_body functions (interpreter ops functions n),
      executeFunction = executeFunction_body (interpreter ops functions n),
      executeStatement = executeStatement_body ops (interpreter ops functions n),
      executeStatements = executeStatements_body (interpreter ops functions n),
      executeWhile = executeWhile_body ops (interpreter ops functions n)\<rparr>"

declare interpreter.simps [simp del]

text \<open>\<open>initializeFunctionTable\<close>: a later function of the same name replaces an earlier one.\<close>

definition initializeFunctionTable :: "Program \<Rightarrow> (string \<rightharpoonup> FunctionDecl)" where
  "initializeFunctionTable program = foldl (\<lambda>functions func. functions(lexeme (name func) \<mapsto> func)) Map.empty program"

text \<open>
  \<open>run\<close>, for an interpreter constructed on \<open>program\<close> (\<open>None\<close> is the null pointer), with
  the lines \<open>stdin\<close> waiting on \<open>std::cin\<close>. A default-constructed \<open>ExecutionResult\<close> has
  \<open>success = false\<close>, \<open>exitCode = 0\<close> and empty texts. \<open>success\<close> is set before the exit code
  is converted, so an exception of \<open>asInt\<close> leaves it set.
\<close>

definition run ::
  "'d double_ops \<Rightarrow> nat \<Rightarrow> Program option \<Rightarrow> string list \<Rightarrow> ExecutionResult option" where
  "run ops fuel program stdin =
     (case program of
        None \<Rightarrow>
          Some \<lparr>success = False, exitCode = 0, res_outputLog = [], errorMessage = ''No program loaded''\<rparr>
      | Some prog \<Rightarrow>
          (case initializeFunctionTable prog ''main'' of
             None \<Rightarrow>
               Some \<lparr>success = False, exitCode = 0, res_outputLog = [],
                     errorMessage = ''No '' @ squote @ ''main'' @ squote @ '' function found''\<rparr>
           | Some mainFunction \<Rightarrow>
               (case executeFunction (interpreter ops (initializeFunctionTable prog) fuel) mainFunction []
                       \<lparr>scopes = [], outputLog = [], cin = stdin, cout = []\<rparr> of
                  None \<Rightarrow> None
                | Some (Inl (Exception msg), st) \<Rightarrow>
                    Some \<lparr>success = False, exitCode = 0, res_outputLog = outputLog st,
                          errorMessage = msg\<rparr>
                | Some (Inl (ReturnSignal v), st) \<Rightarrow>
                    Some \<lparr>success = False, exitCode = 0, res_outputLog = outputLog st,
                          errorMessage = ''std::exception''\<rparr>
                | Some (Inr returnValue, st) \<Rightarrow>
                    (if returnValue = Void then
                       Some \<lparr>success = True, exitCode = 0, res_outputLog = outputLog st,
                             errorMessage = []\<rparr>
                     else
                       (case asInt ops returnValue of
                          Inr i \<Rightarrow>
                            Some \<lparr>success = True, exitCode = ucast i, res_outputLog = outputLog st,
                                  errorMessage = []\<rparr>
                        | Inl (Exception msg) \<Rightarrow>
                            Some \<lparr>success = True, exitCode = 0, res_outputLog = outputLog st,
                                  errorMessage = msg\<rparr>
                        | Inl (ReturnSignal v) \<Rightarrow> None)))))"

section \<open>An instance of the double operations\<close>

text \<open>
  Closed examples need one concrete \<open>double_ops\<close>. \<open>exact_double\<close> takes the real numbers
  with exact arithmetic. It gives what IEEE 754 binary64 gives wherever operands and
  results are integers of magnitude below \<open>2^53\<close>, or halves, quarters, ... of such
  integers, and no division by zero or overflow occurs, which covers every value in the
  examples below. Printing follows \<open>operator<<\<close> (default precision 6) for integer values of
  magnitude below \<open>10^6\<close>, which print without a decimal point; \<open>exact_print\<close> gives other
  values their integer part only, and \<open>exact_stod\<close> reads plain decimal numbers only; the
  examples use neither of them outside that range.
\<close>

definition truncate_real :: "real \<Rightarrow> int" where
  "truncate_real q = (if 0 \<le> q then \<lfloor>q\<rfloor> else \<lceil>q\<rceil>)"

definition exact_print :: "real \<Rightarrow> string" where
  "exact_print q = to_string (truncate_real q)"

definition exact_stod :: "string \<Rightarrow> std_exception + real" where
  "exact_stod s =
     (let s1 = dropWhile isspace s;
          neg = (s1 \<noteq> [] \<and> hd s1 = CHR ''-'');
          signed = (s1 \<noteq> [] \<and> (hd s1 = CHR ''-'' \<or> hd s1 = CHR ''+''));
          s2 = (if signed then tl s1 else s1);
          whole = takeWhile isdigit s2;
          s3 = dropWhile isdigit s2;
          frac = (if s3 \<noteq> [] \<and> hd s3 = CHR ''.'' then takeWhile isdigit (tl s3) else []);
          magnitude = of_nat (digits_value whole) + of_nat (digits_value frac) / 10 ^ length frac
      in if whole = [] \<and> frac = [] then Inl invalid_argument
         else Inr (if neg then - magnitude else magnitude))"

definition exact_double :: "real double_ops" where
  "exact_double =
     \<lparr>d_of_ll = (\<lambda>i. of_int (sint i)),
      d_to_ll = (\<lambda>q. word_of_int (truncate_real q)),
      d_add = (\<lambda>a b. a + b),
      d_sub = (\<lambda>a b. a - b),
      d_mul = (\<lambda>a b. a * b),
      d_div = (\<lambda>a b. a / b),
      d_neg = (\<lambda>a. - a),
      d_abs = (\<lambda>a. \<bar>a\<bar>),
      d_less = (\<lambda>a b. a < b),
      d_less_eq = (\<lambda>a b. a \<le> b),
      d_eq = (\<lambda>a b. a = b),
      d_zero = 0,
      d_one = 1,
      d_epsilon = 1 / 10 ^ 9,
      d_print = exact_print,
      stod = exact_stod\<rparr>"

section \<open>Example programs\<close>

text \<open>
  \<open>func main() -> int { let x: int = 1 / 0; print "after"; return 0; }\<close> as the
  parser builds it.
\<close>

definition program_divide_by_zero :: Program where
  "program_divide_by_zero =
     [\<lparr>name = Token T_IDENTIFIER ''main'' 1 10, parameters = [], returnType = DT_INT,
       body = [DeclarationStmt (Token T_IDENTIFIER ''x'' 1 27) DT_INT
                 (Some (BinaryExpr (LiteralExpr (Token T_NUMBER ''1'' 1 36))
                          (Token T_DIVIDE ''/'' 1 38)
                          (LiteralExpr (Token T_NUMBER ''0'' 1 40)))),
               ExpressionStmt (CallExpr (Token T_IDENTIFIER ''print'' 1 47)
                 [LiteralExpr (Token T_STRING ''after'' 1 55)]),
               ReturnStmt (Some (LiteralExpr (Token T_NUMBER ''0'' 1 65)))]\<rparr>]"

text \<open>\<open>func main(x: int) -> int { print x; return 0; }\<close>: a \<open>main\<close> with one parameter.\<close>

definition program_main_with_parameter :: Program where
  "program_main_with_parameter =
     [\<lparr>name = Token T_IDENTIFIER ''main'' 1 10,
       parameters = [(Token T_IDENTIFIER ''x'' 1 12, DT_INT)], returnType = DT_INT,
       body = [ExpressionStmt (CallExpr (Token T_IDENTIFIER ''print'' 1 33)
                 [VariableExpr (Token T_IDENTIFIER ''x'' 1 35)]),
               ReturnStmt (Some (LiteralExpr (Token T_NUMBER ''0'' 1 45)))]\<rparr>]"

text \<open>\<open>func helper() -> int { return 1; }\<close>: a program without \<open>main\<close>.\<close>

definition program_without_main :: Program where
  "program_without_main =
     [\<lparr>name = Token T_IDENTIFIER ''helper'' 1 12, parameters = [], returnType = DT_INT,
       body = [ReturnStmt (Some (LiteralExpr (Token T_NUMBER ''1'' 1 32)))]\<rparr>]"

text \<open>An interpreter state with one frame, in which only \<open>y\<close> is bound.\<close>

definition state_with_y :: "real Interpreter" where
  "state_with_y = \<lparr>scopes = [[''y'' \<mapsto> FromInt 1]], outputLog = [], cin = [], cout = []\<rparr>"


text \<open>Scenario C of the specification, as source text.\<close>

definition scenario_C_source :: string where
  "scenario_C_source = ''func main() -> int { print 1==1; return 0; }''"

text \<open>
  The same program with the comparison in parentheses, as source text and as the parser
  builds it.
\<close>

definition parenthesised_source :: string where
  "parenthesised_source = ''func main() -> int { print (1==1); return 0; }''"

definition parenthesised_program :: Program where
  "parenthesised_program =
     [\<lparr>name = Token T_IDENTIFIER ''main'' 1 10, parameters = [], returnType = DT_INT,
       body = [ExpressionStmt (CallExpr (Token T_IDENTIFIER ''print'' 1 27)
                 [BinaryExpr (LiteralExpr (Token T_NUMBER ''1'' 1 30))
                    (Token T_EQUALS ''=='' 1 32)
                    (LiteralExpr (Token T_NUMBER ''1'' 1 33))]),
               ReturnStmt (Some (LiteralExpr (Token T_NUMBER ''0'' 1 44)))]\<rparr>]"

section \<open>The lexer (lexer.cpp)\<close>

text \<open>
  The lexer keeps the source, the indices \<open>start\<close> and \<open>current\<close>, and the position
  \<open>line\<close>, \<open>column\<close>. Here the text from \<open>current\<close> on is passed along in place of the
  indices, and the text between \<open>start\<close> and \<open>current\<close> is the text a scan has consumed.
  The classification functions are those of the C locale.
\<close>

definition isalpha :: "char \<Rightarrow> bool" where
  "isalpha c = (c \<in> set ''abcdefghijklmnopqrstuvwxyzABCDEFGHIJKLMNOPQRSTUVWXYZ'')"

definition isalnum :: "char \<Rightarrow> bool" where
  "isalnum c = (isalpha c \<or> isdigit c)"

definition lexer_keywords :: "string \<rightharpoonup> TokenType" where
  "lexer_keywords =
     [''func'' \<mapsto> T_FUNC, ''let'' \<mapsto> T_LET, ''if'' \<mapsto> T_IF, ''else'' \<mapsto> T_ELSE,
      ''while'' \<mapsto> T_WHILE, ''return'' \<mapsto> T_RETURN, ''true'' \<mapsto> T_TRUE, ''false'' \<mapsto> T_FALSE,
      ''and'' \<mapsto> T_AND, ''or'' \<mapsto> T_OR, ''not'' \<mapsto> T_NOT, ''int'' \<mapsto> T_INT,
      ''float'' \<mapsto> T_FLOAT_TYPE, ''bool'' \<mapsto> T_BOOL, ''sequence'' \<mapsto> T_SEQUENCE,
      ''pattern'' \<mapsto> T_PATTERN]"

text \<open>
  \<open>skipWhitespace\<close>: the flag says whether the scan is inside the inner loop that skips a
  comment up to (not including) the end of its line. The result is the text left, the
  line and the column.
\<close>

fun skipWhitespace :: "bool \<Rightarrow> string \<Rightarrow> int \<Rightarrow> int \<Rightarrow> string \<times> int \<times> int" where
  "skipWhitespace inComment [] lno col = ([], lno, col)"
| "skipWhitespace inComment (c # cs) lno col =
     (if c = CHR 0x0A then skipWhitespace False cs (lno + 1) 2
      else if inComment then skipWhitespace True cs lno (col + 1)
      else if c = CHR '' '' \<or> c = CHR 0x09 \<or> c = CHR 0x0D then skipWhitespace False cs lno (col + 1)
      else if c = CHR ''#'' then skipWhitespace True cs lno (col + 1)
      else (c # cs, lno, col))"

text \<open>
  The loop of \<open>stringLiteral\<close>, after the opening quote: whether a closing quote was
  found, the text before it, the text left, the line and the column.
\<close>

fun stringLiteral_scan :: "string \<Rightarrow> int \<Rightarrow> int \<Rightarrow> bool \<times> string \<times> string \<times> int \<times> int" where
  "stringLiteral_scan [] lno col = (False, [], [], lno, col)"
| "stringLiteral_scan (c # cs) lno col =
     (if c = CHR 0x22 then (True, [], cs, lno, col + 1)
      else
        (case stringLiteral_scan cs (if c = CHR 0x0A then lno + 1 else lno)
                (if c = CHR 0x0A then 2 else col + 1) of
           (terminated, content, rest, lno', col') \<Rightarrow> (terminated, c # content, rest, lno', col')))"

text \<open>
  The loop of \<open>number\<close>: digits, and one decimal point at most. The result is the text
  consumed, the text left and \<open>isFloat\<close>.
\<close>

fun number_scan :: "bool \<Rightarrow> string \<Rightarrow> string \<times> string \<times> bool" where
  "number_scan isFloat [] = ([], [], isFloat)"
| "number_scan isFloat (c # cs) =
     (if c = CHR ''.'' then
        (if isFloat then ([], c # cs, isFloat)
         else (case number_scan True cs of (consumed, rest, f) \<Rightarrow> (c # consumed, rest, f)))
      else if isdigit c then
        (case number_scan isFloat cs of (consumed, rest, f) \<Rightarrow> (c # consumed, rest, f))
      else ([], c # cs, isFloat))"

text \<open>
  \<open>nextToken\<close>: the token, and the text, line and column after it. A token carries the
  line and the column reached when it is made.
\<close>

definition nextToken :: "string \<Rightarrow> int \<Rightarrow> int \<Rightarrow> Token \<times> string \<times> int \<times> int" where
  "nextToken source lno0 col0 =
     (case skipWhitespace False source lno0 col0 of
        ([], lno, col) \<Rightarrow> (Token T_END_OF_FILE [] lno col, [], lno, col)
      | (c # cs, lno, col0') \<Rightarrow>
          (let col = col0' + 1;
               single = (\<lambda>t. (Token t [c] lno col, cs, lno, col));
               double = (\<lambda>t second. (Token t [c, second] lno (col + 1), tl cs, lno, col + 1));
               followed = (\<lambda>second. cs \<noteq> [] \<and> hd cs = second)
           in if isalpha c \<or> c = CHR ''_'' then
                (let further = takeWhile (\<lambda>x. isalnum x \<or> x = CHR ''_'') cs;
                     rest = dropWhile (\<lambda>x. isalnum x \<or> x = CHR ''_'') cs;
                     text = c # further;
                     col' = col + int (length further)
                 in (Token (case lexer_keywords text of Some t \<Rightarrow> t | None \<Rightarrow> T_IDENTIFIER) text lno col',
                     rest, lno, col'))
              else if isdigit c then
                (case number_scan False cs of
                   (further, rest, isFloat) \<Rightarrow>
                     (let col' = col + int (length further)
                      in (Token (if isFloat then T_FLOAT else T_NUMBER) (c # further) lno col',
                          rest, lno, col')))
              else if c = CHR 0x22 then
                (case stringLiteral_scan cs lno col of
                   (terminated, content, rest, lno', col') \<Rightarrow>
                     if terminated then (Token T_STRING content lno' col', rest, lno', col')
                     else (Token T_ERROR ''Unterminated string'' lno' col', rest, lno', col'))
              else if c = CHR ''('' then single T_LPAREN
              else if c = CHR '')'' then single T_RPAREN
              else if c = CHR ''{'' then single T_LBRACE
              else if c = CHR ''}'' then single T_RBRACE
              else if c = CHR ''['' then single T_LBRACKET
              else if c = CHR '']'' then single T_RBRACKET
              else if c = CHR '','' then single T_COMMA
              else if c = CHR '':'' then single T_COLON
              else if c = CHR '';'' then single T_SEMICOLON
              else if c = CHR ''+'' then single T_PLUS
              else if c = CHR ''-'' then (if followed CHR ''>'' then double T_ARROW CHR ''>'' else single T_MINUS)
              else if c = CHR ''*'' then single T_MULTIPLY
              else if c = CHR ''/'' then single T_DIVIDE
              else if c = CHR ''%'' then single T_MODULO
              else if c = CHR ''='' then (if followed CHR ''='' then double T_EQUALS CHR ''='' else single T_ASSIGN)
              else if c = CHR ''!'' then (if followed CHR ''='' then double T_NOT_EQUALS CHR ''='' else single T_ERROR)
              else if c = CHR ''<'' then (if followed CHR ''='' then double T_LESS_EQUAL CHR ''='' else single T_LESS)
              else if c = CHR ''>'' then (if followed CHR ''='' then double T_GREATER_EQUAL CHR ''='' else single T_GREATER)
              else single T_ERROR))"

text \<open>
  The loop of \<open>tokenize\<close>. Every token but the last takes at least one character, so the
  length of the source, plus one, is fuel enough; the result is \<open>None\<close> with less.
\<close>

fun tokenize_loop :: "nat \<Rightarrow> string \<Rightarrow> int \<Rightarrow> int \<Rightarrow> Token list option" where
  "tokenize_loop 0 source lno col = None"
| "tokenize_loop (Suc fuel) source lno col =
     (case nextToken source lno col of
        (token, rest, lno', col') \<Rightarrow>
          if tok_type token = T_END_OF_FILE \<or> tok_type token = T_ERROR then Some [token]
          else map_option (\<lambda>tokens. token # tokens) (tokenize_loop fuel rest lno' col'))"

definition tokenize :: "string \<Rightarrow> Token list option" where
  "tokenize source = tokenize_loop (Suc (length source)) source 1 1"

section \<open>The parser (parser.cpp)\<close>

text \<open>
  The parser holds the vector \<open>tokens\<close> and the index \<open>current\<close>. The token the parser
  makes up beyond the end of the vector is \<open>Token(END_OF_FILE, "")\<close>, at line 1, column 1.
\<close>

definition eof_token :: Token where
  "eof_token = Token T_END_OF_FILE [] 1 1"

definition peek :: "Token list \<Rightarrow> nat \<Rightarrow> Token" where
  "peek tokens current = (if length tokens \<le> current then eof_token else tokens ! current)"

definition peekNext :: "Token list \<Rightarrow> nat \<Rightarrow> Token" where
  "peekNext tokens current =
     (if length tokens \<le> current + 1 then eof_token else tokens ! (current + 1))"

definition previous :: "Token list \<Rightarrow> nat \<Rightarrow> Token" where
  "previous tokens current = (if current = 0 then eof_token else tokens ! (current - 1))"

definition isAtEnd :: "Token list \<Rightarrow> nat \<Rightarrow> bool" where
  "isAtEnd tokens current = (tok_type (peek tokens current) = T_END_OF_FILE)"

definition check :: "Token list \<Rightarrow> TokenType \<Rightarrow> nat \<Rightarrow> bool" where
  "check tokens t current = (\<not> isAtEnd tokens current \<and> tok_type (peek tokens current) = t)"

text \<open>\<open>advance\<close>: the new value of \<open>current\<close> (the token returned is \<open>previous\<close> at it).\<close>

definition advance :: "Token list \<Rightarrow> nat \<Rightarrow> nat" where
  "advance tokens current = (if \<not> isAtEnd tokens current then current + 1 else current)"

text \<open>
  \<open>match\<close>, for one type and for a vector of types: whether the current token has one of
  the types; the parser then advances over it.
\<close>

definition match_types :: "Token list \<Rightarrow> TokenType list \<Rightarrow> nat \<Rightarrow> bool" where
  "match_types tokens types current = (\<exists>t \<in> set types. check tokens t current)"

text \<open>\<open>match(SEMICOLON)\<close> with its result unused: the value of \<open>current\<close> after it.\<close>

definition skip_semicolon :: "Token list \<Rightarrow> nat \<Rightarrow> nat" where
  "skip_semicolon tokens current =
     (if check tokens T_SEMICOLON current then advance tokens current else current)"

text \<open>
  The result of a parsing function with some fuel: \<open>None\<close> when the fuel runs out;
  otherwise the value of \<open>current\<close> left behind, with either the result (\<open>Inr\<close>) or the
  message of the \<open>ParseError\<close> thrown (\<open>Inl\<close>).
\<close>

type_synonym 'a parsed = "((string + 'a) \<times> nat) option"

definition parsed_then :: "'a parsed \<Rightarrow> ('a \<Rightarrow> nat \<Rightarrow> 'b parsed) \<Rightarrow> 'b parsed" where
  "parsed_then r k =
     (case r of
        None \<Rightarrow> None
      | Some (Inl msg, current) \<Rightarrow> Some (Inl msg, current)
      | Some (Inr x, current) \<Rightarrow> k x current)"

definition ParseError :: "string \<Rightarrow> nat \<Rightarrow> 'a parsed" where
  "ParseError msg current = Some (Inl msg, current)"

definition parsed :: "'a \<Rightarrow> nat \<Rightarrow> 'a parsed" where
  "parsed x current = Some (Inr x, current)"

definition consume :: "Token list \<Rightarrow> TokenType \<Rightarrow> string \<Rightarrow> nat \<Rightarrow> Token parsed" where
  "consume tokens t message current =
     (if check tokens t current then parsed (tokens ! current) (advance tokens current)
      else ParseError (message @ '' at line '' @ to_string (tok_line (peek tokens current))) current)"

definition tokenToDataType :: "Token \<Rightarrow> DataType" where
  "tokenToDataType token =
     (if tok_type token = T_INT \<or> lexeme token = ''int'' then DT_INT
      else if tok_type token = T_FLOAT_TYPE \<or> lexeme token = ''float'' then DT_FLOAT
      else if tok_type token = T_BOOL \<or> lexeme token = ''bool'' then DT_BOOL
      else if tok_type token = T_SEQUENCE \<or> lexeme token = ''sequence'' then DT_SEQUENCE
      else if tok_type token = T_PATTERN \<or> lexeme token = ''pattern'' then DT_PATTERN
      else DT_UNKNOWN)"

text \<open>The test \<open>isValidType\<close> of \<open>parseFunction\<close>, \<open>parseParameters\<close> and \<open>parseDeclaration\<close>.\<close>

definition isValidType :: "Token list \<Rightarrow> nat \<Rightarrow> bool" where
  "isValidType tokens current =
     match_types tokens [T_INT, T_FLOAT_TYPE, T_BOOL, T_SEQUENCE, T_PATTERN, T_IDENTIFIER] current"

text \<open>
  The parsing functions call one another, so they are defined with fuel, like the
  evaluator: a \<open>parser\<close> record holds the functions (and the loops) that recursion goes
  through, at one level of fuel; \<open>rec\<close> below is the record with one unit less. The other
  parsing functions are defined from \<open>rec\<close> directly.
\<close>

record parser =
  parseProgram_loop :: "FunctionDecl list \<Rightarrow> nat \<Rightarrow> Program parsed"
  parseFunction :: "nat \<Rightarrow> FunctionDecl parsed"
  parseParameters_loop :: "(Token \<times> DataType) list \<Rightarrow> nat \<Rightarrow> (Token \<times> DataType) list parsed"
  parseStatement :: "nat \<Rightarrow> Stmt parsed"
  parsePrintStatement_loop :: "Expr list \<Rightarrow> nat \<Rightarrow> Expr list parsed"
  parseBlock :: "nat \<Rightarrow> Stmt list parsed"
  parseBlock_loop :: "Stmt list \<Rightarrow> nat \<Rightarrow> Stmt list parsed"
  parseExpression :: "nat \<Rightarrow> Expr parsed"
  parseLogicalOr :: "nat \<Rightarrow> Expr parsed"
  parseLogicalOr_loop :: "Expr \<Rightarrow> nat \<Rightarrow> Expr parsed"
  parseLogicalAnd :: "nat \<Rightarrow> Expr parsed"
  parseLogicalAnd_loop :: "Expr \<Rightarrow> nat \<Rightarrow> Expr parsed"
  parseEquality :: "nat \<Rightarrow> Expr parsed"
  parseEquality_loop :: "Expr \<Rightarrow> nat \<Rightarrow> Expr parsed"
  parseComparison :: "nat \<Rightarrow> Expr parsed"
  parseComparison_loop :: "Expr \<Rightarrow> nat \<Rightarrow> Expr parsed"
  parseTerm :: "nat \<Rightarrow> Expr parsed"
  parseTerm_loop :: "Expr \<Rightarrow> nat \<Rightarrow> Expr parsed"
  parseFactor :: "nat \<Rightarrow> Expr parsed"
  parseFactor_loop :: "Expr \<Rightarrow> nat \<Rightarrow> Expr parsed"
  parseUnary :: "nat \<Rightarrow> Expr parsed"
  parsePrimary :: "nat \<Rightarrow> Expr parsed"
  parseSequence_loop :: "Expr list \<Rightarrow> nat \<Rightarrow> Expr list parsed"
  parseArguments_loop :: "Expr list \<Rightarrow> nat \<Rightarrow> Expr list parsed"

text \<open>
  The six binary levels (\<open>parseLogicalOr\<close> down to \<open>parseFactor\<close>) have one shape: parse
  an operand of the next level, then, while the current token is one of the level's
  operators, take it (\<open>previous()\<close> after the match), parse another operand and build a
  \<open>BinaryExpr\<close>.
\<close>

definition binary_level :: "(nat \<Rightarrow> Expr parsed) \<Rightarrow> (Expr \<Rightarrow> nat \<Rightarrow> Expr parsed) \<Rightarrow> nat \<Rightarrow> Expr parsed" where
  "binary_level operand loop current = parsed_then (operand current) loop"

definition binary_level_loop ::
  "Token list \<Rightarrow> TokenType list \<Rightarrow> (nat \<Rightarrow> Expr parsed) \<Rightarrow> (Expr \<Rightarrow> nat \<Rightarrow> Expr parsed) \<Rightarrow>
   Expr \<Rightarrow> nat \<Rightarrow> Expr parsed" where
  "binary_level_loop tokens types operand loop expr current =
     (if match_types tokens types current then
        parsed_then (operand (advance tokens current)) (\<lambda>right current1.
          loop (BinaryExpr expr (tokens ! current) right) current1)
      else parsed expr current)"

definition parseUnary_body :: "Token list \<Rightarrow> parser \<Rightarrow> nat \<Rightarrow> Expr parsed" where
  "parseUnary_body tokens rec current =
     (if match_types tokens [T_MINUS, T_NOT] current then
        parsed_then (parseUnary rec (advance tokens current)) (\<lambda>right current1.
          parsed (UnaryExpr (tokens ! current) right) current1)
      else parsePrimary rec current)"

text \<open>The body of the do-while loops of \<open>parseSequence\<close> and \<open>parseArguments\<close>.\<close>

definition element_loop_body ::
  "Token list \<Rightarrow> TokenType \<Rightarrow> (nat \<Rightarrow> Expr parsed) \<Rightarrow> (Expr list \<Rightarrow> nat \<Rightarrow> Expr list parsed) \<Rightarrow>
   Expr list \<Rightarrow> nat \<Rightarrow> Expr list parsed" where
  "element_loop_body tokens closing expression loop elements current =
     parsed_then (expression current) (\<lambda>e current1.
       if check tokens T_COMMA current1 \<and> \<not> check tokens closing (advance tokens current1)
         then loop (elements @ [e]) (advance tokens current1)
       else parsed (elements @ [e])
              (if check tokens T_COMMA current1 then advance tokens current1 else current1))"

definition parseSequence :: "Token list \<Rightarrow> parser \<Rightarrow> nat \<Rightarrow> Expr parsed" where
  "parseSequence tokens rec current =
     parsed_then
       (if \<not> check tokens T_RBRACKET current then parseSequence_loop rec [] current
        else parsed [] current)
       (\<lambda>elements current1.
          if check tokens T_RBRACKET current1
            then parsed (SequenceExpr elements) (advance tokens current1)
          else ParseError (''Expected '' @ squote @ '']'' @ squote @ '' after sequence elements'') current1)"

definition parseArguments :: "Token list \<Rightarrow> parser \<Rightarrow> nat \<Rightarrow> Expr list parsed" where
  "parseArguments tokens rec current =
     parsed_then
       (if \<not> check tokens T_RPAREN current then parseArguments_loop rec [] current
        else parsed [] current)
       (\<lambda>arguments current1.
          if check tokens T_RPAREN current1 then parsed arguments (advance tokens current1)
          else ParseError (''Expected '' @ squote @ '')'' @ squote @ '' after function arguments'') current1)"

definition parsePrimary_body :: "Token list \<Rightarrow> parser \<Rightarrow> nat \<Rightarrow> Expr parsed" where
  "parsePrimary_body tokens rec current =
     (if check tokens T_TRUE current then parsed (LiteralExpr (tokens ! current)) (advance tokens current)
      else if check tokens T_FALSE current then parsed (LiteralExpr (tokens ! current)) (advance tokens current)
      else if match_types tokens [T_NUMBER, T_FLOAT, T_STRING] current
        then parsed (LiteralExpr (tokens ! current)) (advance tokens current)
      else if check tokens T_IDENTIFIER current then
        (let nm = tokens ! current;
             current1 = advance tokens current
         in if check tokens T_LPAREN current1 then
              parsed_then (parseArguments tokens rec (advance tokens current1)) (\<lambda>arguments current2.
                parsed (CallExpr nm arguments) current2)
            else if check tokens T_LBRACKET current1 then
              parsed_then (parseExpression rec (advance tokens current1)) (\<lambda>index current2.
              parsed_then (consume tokens T_RBRACKET
                             (''Expected '' @ squote @ '']'' @ squote @ '' after index'') current2)
                (\<lambda>bracket current3.
                   parsed (CallExpr (Token T_IDENTIFIER ''get'' (tok_line nm) (column nm))
                             [VariableExpr nm, index]) current3))
            else parsed (VariableExpr nm) current1)
      else if check tokens T_LPAREN current then
        parsed_then (parseExpression rec (advance tokens current)) (\<lambda>expr current1.
        parsed_then (consume tokens T_RPAREN
                       (''Expected '' @ squote @ '')'' @ squote @ '' after expression'') current1)
          (\<lambda>paren current2. parsed expr current2))
      else if check tokens T_LBRACKET current then parseSequence tokens rec (advance tokens current)
      else ParseError ''Expected expression'' current)"

text \<open>The body of the do-while loop of \<open>parseParameters\<close>.\<close>

definition parseParameters_loop_body ::
  "Token list \<Rightarrow> parser \<Rightarrow> (Token \<times> DataType) list \<Rightarrow> nat \<Rightarrow> (Token \<times> DataType) list parsed" where
  "parseParameters_loop_body tokens rec params current =
     (if \<not> check tokens T_IDENTIFIER current
        then ParseError (''Expected parameter name, got: '' @ lexeme (peek tokens current)) current
      else
        (let nm = tokens ! current;
             current1 = advance tokens current
         in if \<not> check tokens T_COLON current1
              then ParseError (''Expected '' @ squote @ '':'' @ squote @ '' after parameter name '' @
                               squote @ lexeme nm @ squote) current1
            else
              (let current2 = advance tokens current1
               in if \<not> isValidType tokens current2
                    then ParseError (''Expected parameter type after '' @ squote @ lexeme nm @ '':'' @
                                     squote @ '', got: '' @ lexeme (peek tokens current2)) current2
                  else
                    (let typeToken = tokens ! current2;
                         current3 = advance tokens current2
                     in if tokenToDataType typeToken = DT_UNKNOWN
                          then ParseError (''Unknown parameter type: '' @ squote @ lexeme typeToken @
                                           squote) current3
                        else if check tokens T_COMMA current3
                          then parseParameters_loop rec (params @ [(nm, tokenToDataType typeToken)])
                                 (advance tokens current3)
                        else parsed (params @ [(nm, tokenToDataType typeToken)]) current3))))"

definition parseParameters :: "Token list \<Rightarrow> parser \<Rightarrow> nat \<Rightarrow> (Token \<times> DataType) list parsed" where
  "parseParameters tokens rec current =
     (if check tokens T_RPAREN current then parsed [] current
      else parseParameters_loop rec [] current)"

definition parseFunction_body :: "Token list \<Rightarrow> parser \<Rightarrow> nat \<Rightarrow> FunctionDecl parsed" where
  "parseFunction_body tokens rec current =
     parsed_then (consume tokens T_IDENTIFIER ''Expected function name'' current) (\<lambda>nm current1.
     parsed_then (consume tokens T_LPAREN
                    (''Expected '' @ squote @ ''('' @ squote @ '' after function name'') current1)
       (\<lambda>paren current2.
     parsed_then (parseParameters tokens rec current2) (\<lambda>params current3.
     parsed_then (consume tokens T_RPAREN
                    (''Expected '' @ squote @ '')'' @ squote @ '' after parameters'') current3)
       (\<lambda>paren current4.
     parsed_then (consume tokens T_ARROW
                    (''Expected '' @ squote @ ''->'' @ squote @ '' after function parameters'') current4)
       (\<lambda>arrow current5.
          if \<not> isValidType tokens current5
            then ParseError (''Expected return type, got: '' @ lexeme (peek tokens current5)) current5
          else
            parsed_then (parseBlock rec (advance tokens current5)) (\<lambda>stmts current6.
              parsed \<lparr>name = nm, parameters = params,
                      returnType = tokenToDataType (tokens ! current5), body = stmts\<rparr> current6))))))"

text \<open>The loop of \<open>parseProgram\<close>.\<close>

definition parseProgram_loop_body ::
  "Token list \<Rightarrow> parser \<Rightarrow> FunctionDecl list \<Rightarrow> nat \<Rightarrow> Program parsed" where
  "parseProgram_loop_body tokens rec functions current =
     (if isAtEnd tokens current then parsed functions current
      else if check tokens T_FUNC current then
        parsed_then (parseFunction rec (advance tokens current)) (\<lambda>func current1.
          parseProgram_loop rec (functions @ [func]) current1)
      else ParseError ''Expected function declaration'' current)"

definition parseBlock_body :: "Token list \<Rightarrow> parser \<Rightarrow> nat \<Rightarrow> Stmt list parsed" where
  "parseBlock_body tokens rec current =
     parsed_then (consume tokens T_LBRACE
                    (''Expected '' @ squote @ ''{'' @ squote @ '' before block'') current)
       (\<lambda>brace current1.
     parsed_then (parseBlock_loop rec [] current1) (\<lambda>statements current2.
     parsed_then (consume tokens T_RBRACE
                    (''Expected '' @ squote @ ''}'' @ squote @ '' after block'') current2)
       (\<lambda>brace current3. parsed statements current3)))"

definition parseBlock_loop_body :: "Token list \<Rightarrow> parser \<Rightarrow> Stmt list \<Rightarrow> nat \<Rightarrow> Stmt list parsed" where
  "parseBlock_loop_body tokens rec statements current =
     (if \<not> check tokens T_RBRACE current \<and> \<not> isAtEnd tokens current then
        parsed_then (parseStatement rec current) (\<lambda>stmt current1.
          parseBlock_loop rec (statements @ [stmt]) current1)
      else parsed statements current)"

definition parseDeclaration :: "Token list \<Rightarrow> parser \<Rightarrow> nat \<Rightarrow> Stmt parsed" where
  "parseDeclaration tokens rec current =
     parsed_then (consume tokens T_IDENTIFIER ''Expected variable name'' current) (\<lambda>nm current1.
     parsed_then (consume tokens T_COLON
                    (''Expected '' @ squote @ '':'' @ squote @ '' after variable name'') current1)
       (\<lambda>colon current2.
          if \<not> isValidType tokens current2
            then ParseError (''Expected variable type after '' @ squote @ lexeme nm @ '':'' @ squote @
                             '', got: '' @ lexeme (peek tokens current2)) current2
          else
            (let current3 = advance tokens current2
             in parsed_then
                  (if check tokens T_ASSIGN current3 then
                     parsed_then (parseExpression rec (advance tokens current3)) (\<lambda>e current4.
                       parsed (Some e) current4)
                   else parsed None current3)
                  (\<lambda>initializer current4.
                     parsed (DeclarationStmt nm (tokenToDataType (tokens ! current2)) initializer)
                       (skip_semicolon tokens current4)))))"

text \<open>\<open>parseAssignment\<close> starts after the identifier has been consumed.\<close>

definition parseAssignment :: "Token list \<Rightarrow> parser \<Rightarrow> nat \<Rightarrow> Stmt parsed" where
  "parseAssignment tokens rec current =
     parsed_then (consume tokens T_ASSIGN
                    (''Expected '' @ squote @ ''='' @ squote @ '' after variable name'') current)
       (\<lambda>eq current1.
     parsed_then (parseExpression rec current1) (\<lambda>v current2.
       parsed (AssignmentStmt (previous tokens current) v) (skip_semicolon tokens current2)))"

definition parseIfStatement :: "Token list \<Rightarrow> parser \<Rightarrow> nat \<Rightarrow> Stmt parsed" where
  "parseIfStatement tokens rec current =
     parsed_then (parseExpression rec current) (\<lambda>condition current1.
     parsed_then (parseBlock rec current1) (\<lambda>thenBranch current2.
     parsed_then
       (if check tokens T_ELSE current2 then parseBlock rec (advance tokens current2)
        else parsed [] current2)
       (\<lambda>elseBranch current3. parsed (IfStmt condition thenBranch elseBranch) current3)))"

definition parseWhileStatement :: "Token list \<Rightarrow> parser \<Rightarrow> nat \<Rightarrow> Stmt parsed" where
  "parseWhileStatement tokens rec current =
     parsed_then (parseExpression rec current) (\<lambda>condition current1.
     parsed_then (parseBlock rec current1) (\<lambda>stmts current2.
       parsed (WhileStmt condition stmts) current2))"

definition parseReturnStatement :: "Token list \<Rightarrow> parser \<Rightarrow> nat \<Rightarrow> Stmt parsed" where
  "parseReturnStatement tokens rec current =
     parsed_then
       (if \<not> check tokens T_SEMICOLON current then
          parsed_then (parseExpression rec current) (\<lambda>e current1. parsed (Some e) current1)
        else parsed None current)
       (\<lambda>v current1. parsed (ReturnStmt v) (skip_semicolon tokens current1))"

definition parseExpressionStatement :: "Token list \<Rightarrow> parser \<Rightarrow> nat \<Rightarrow> Stmt parsed" where
  "parseExpressionStatement tokens rec current =
     parsed_then (parseExpression rec current) (\<lambda>expr current1.
       parsed (ExpressionStmt expr) (skip_semicolon tokens current1))"

text \<open>
  The tokens at which the argument loop of \<open>parsePrintStatement\<close> stops, and those at
  which it goes on to another argument.
\<close>

definition print_terminator :: "TokenType \<Rightarrow> bool" where
  "print_terminator t =
     (t \<in> {T_SEMICOLON, T_RBRACE, T_FUNC, T_LET, T_IF, T_WHILE, T_RETURN, T_ELSE, T_END_OF_FILE})"

definition isPrimaryStart :: "TokenType \<Rightarrow> bool" where
  "isPrimaryStart t =
     (t \<in> {T_IDENTIFIER, T_STRING, T_NUMBER, T_FLOAT, T_TRUE, T_FALSE, T_LPAREN, T_LBRACKET})"

text \<open>
  The loop of \<open>parsePrintStatement\<close>. It parses primary expressions only. A \<open>ParseError\<close>
  inside an argument is caught and ends the loop, with \<open>current\<close> left where the error
  occurred.
\<close>

definition parsePrintStatement_loop_body ::
  "Token list \<Rightarrow> parser \<Rightarrow> Expr list \<Rightarrow> nat \<Rightarrow> Expr list parsed" where
  "parsePrintStatement_loop_body tokens rec arguments current =
     (if isAtEnd tokens current then parsed arguments current
      else if print_terminator (tok_type (peek tokens current)) then parsed arguments current
      else
        (case parsePrimary rec current of
           None \<Rightarrow> None
         | Some (Inl msg, current1) \<Rightarrow> parsed arguments current1
         | Some (Inr expr, current1) \<Rightarrow>
             (let nextType = tok_type (peek tokens current1)
              in if isAtEnd tokens current1 then parsed (arguments @ [expr]) current1
                 else if print_terminator nextType then parsed (arguments @ [expr]) current1
                 else if nextType = T_IDENTIFIER \<and> lexeme (peek tokens current1) = ''print''
                   then parsed (arguments @ [expr]) current1
                 else if nextType = T_ASSIGN then parsed (arguments @ [expr]) current1
                 else if \<not> isPrimaryStart nextType then parsed (arguments @ [expr]) current1
                 else parsePrintStatement_loop rec (arguments @ [expr]) current1)))"

definition parsePrintStatement :: "Token list \<Rightarrow> parser \<Rightarrow> nat \<Rightarrow> Stmt parsed" where
  "parsePrintStatement tokens rec current =
     parsed_then (parsePrintStatement_loop rec [] (advance tokens current)) (\<lambda>arguments current1.
       parsed (ExpressionStmt (CallExpr (tokens ! current) arguments))
         (skip_semicolon tokens current1))"

definition parseStatement_body :: "Token list \<Rightarrow> parser \<Rightarrow> nat \<Rightarrow> Stmt parsed" where
  "parseStatement_body tokens rec current =
     (if check tokens T_LET current then parseDeclaration tokens rec (advance tokens current)
      else if check tokens T_IF current then parseIfStatement tokens rec (advance tokens current)
      else if check tokens T_WHILE current then parseWhileStatement tokens rec (advance tokens current)
      else if check tokens T_RETURN current then parseReturnStatement tokens rec (advance tokens current)
      else if check tokens T_IDENTIFIER current \<and> lexeme (peek tokens current) = ''print''
        then parsePrintStatement tokens rec current
      else if check tokens T_IDENTIFIER current \<and> tok_type (peekNext tokens current) = T_ASSIGN
        then parseAssignment tokens rec (advance tokens current)
      else if check tokens T_LBRACE current then
        parsed_then (parseBlock rec (advance tokens current)) (\<lambda>stmts current1.
          parsed (BlockStmt stmts) current1)
      else parseExpressionStatement tokens rec current)"

primrec parser_at :: "Token list \<Rightarrow> nat \<Rightarrow> parser" where
  "parser_at tokens 0 =
     \<lparr>parseProgram_loop = (\<lambda>fs c. None), parseFunction = (\<lambda>c. None),
      parseParameters_loop = (\<lambda>ps c. None), parseStatement = (\<lambda>c. None),
      parsePrintStatement_loop = (\<lambda>as c. None), parseBlock = (\<lambda>c. None),
      parseBlock_loop = (\<lambda>ss c. None), parseExpression = (\<lambda>c. None),
      parseLogicalOr = (\<lambda>c. None), parseLogicalOr_loop = (\<lambda>e c. None),
      parseLogicalAnd = (\<lambda>c. None), parseLogicalAnd_loop = (\<lambda>e c. None),
      parseEquality = (\<lambda>c. None), parseEquality_loop = (\<lambda>e c. None),
      parseComparison = (\<lambda>c. None), parseComparison_loop = (\<lambda>e c. None),
      parseTerm = (\<lambda>c. None), parseTerm_loop = (\<lambda>e c. None),
      parseFactor = (\<lambda>c. None), parseFactor_loop = (\<lambda>e c. None),
      parseUnary = (\<lambda>c. None), parsePrimary = (\<lambda>c. None),
      parseSequence_loop = (\<lambda>es c. None), parseArguments_loop = (\<lambda>es c. None)\<rparr>"
| "parser_at tokens (Suc n) =
     \<lparr>parseProgram_loop = parseProgram_loop_body tokens (parser_at tokens n),
      parseFunction = parseFunction_body tokens (parser_at tokens n),
      parseParameters_loop = parseParameters_loop_body tokens (parser_at tokens n),
      parseStatement = parseStatement_body tokens (parser_at tokens n),
      parsePrintStatement_loop = parsePrintStatement_loop_body tokens (parser_at tokens n),
      parseBlock = parseBlock_body tokens (parser_at tokens n),
      parseBlock_loop = parseBlock_loop_body tokens (parser_at tokens n),
      parseExpression = parseLogicalOr (parser_at tokens n),
      parseLogicalOr =
        binary_level (parseLogicalAnd (parser_at tokens n)) (parseLogicalOr_loop (parser_at tokens n)),
      parseLogicalOr_loop =
        binary_level_loop tokens [T_OR]
          (parseLogicalAnd (parser_at tokens n)) (parseLogicalOr_loop (parser_at tokens n)),
      parseLogicalAnd =
        binary_level (parseEquality (parser_at tokens n)) (parseLogicalAnd_loop (parser_at tokens n)),
      parseLogicalAnd_loop =
        binary_level_loop tokens [T_AND]
          (parseEquality (parser_at tokens n)) (parseLogicalAnd_loop (parser_at tokens n)),
      parseEquality =
        binary_level (parseComparison (parser_at tokens n)) (parseEquality_loop (parser_at tokens n)),
      parseEquality_loop =
        binary_level_loop tokens [T_EQUALS, T_NOT_EQUALS]
          (parseComparison (parser_at tokens n)) (parseEquality_loop (parser_at tokens n)),
      parseComparison =
        binary_level (parseTerm (parser_at tokens n)) (parseComparison_loop (parser_at tokens n)),
      parseComparison_loop =
        binary_level_loop tokens [T_LESS, T_LESS_EQUAL, T_GREATER, T_GREATER_EQUAL]
          (parseTerm (parser_at tokens n)) (parseComparison_loop (parser_at tokens n)),
      parseTerm =
        binary_level (parseFactor (parser_at tokens n)) (parseTerm_loop (parser_at tokens n)),
      parseTerm_loop =
        binary_level_loop tokens [T_PLUS, T_MINUS]
          (parseFactor (parser_at tokens n)) (parseTerm_loop (parser_at tokens n)),
      parseFactor =
        binary_level (parseUnary (parser_at tokens n)) (parseFactor_loop (parser_at tokens n)),
      parseFactor_loop =
        binary_level_loop tokens [T_MULTIPLY, T_DIVIDE, T_MODULO]
          (parseUnary (parser_at tokens n)) (parseFactor_loop (parser_at tokens n)),
      parseUnary = parseUnary_body tokens (parser_at tokens n),
      parsePrimary = parsePrimary_body tokens (parser_at tokens n),
      parseSequence_loop =
        element_loop_body tokens T_RBRACKET
          (parseExpression (parser_at tokens n)) (parseSequence_loop (parser_at tokens n)),
      parseArguments_loop =
        element_loop_body tokens T_RPAREN
          (parseExpression (parser_at tokens n)) (parseArguments_loop (parser_at tokens n))\<rparr>"

declare parser_at.simps [simp del]

text \<open>
  \<open>parse\<close>: \<open>parseProgram\<close> from the first token. \<open>Inl\<close> is the message of the \<open>ParseError\<close>
  that \<open>parse\<close> catches and reports; it then returns the null pointer.
\<close>

definition parse :: "nat \<Rightarrow> Token list \<Rightarrow> (string + Program) option" where
  "parse fuel tokens = map_option fst (parseProgram_loop (parser_at tokens fuel) [] 0)"

text \<open>
  The first two phases of \<open>main\<close> (main.cpp): the source is tokenized; a last token of type
  \<open>ERROR\<close> ends the compilation with a lexical error; otherwise the tokens are parsed, and
  a null pointer from \<open>parse\<close> ends the compilation. \<open>Inl\<close> is the message of the error
  that ends it.
\<close>

definition parse_source :: "nat \<Rightarrow> string \<Rightarrow> (string + Program) option" where
  "parse_source fuel source =
     (case tokenize source of
        None \<Rightarrow> None
      | Some tokens \<Rightarrow>
          if tokens \<noteq> [] \<and> tok_type (last tokens) = T_ERROR
            then Some (Inl (''Lexical error: '' @ lexeme (last tokens)))
          else parse fuel tokens)"

section \<open>Properties of the optimizer\<close>

lemmas optimizer_eval =
  stoi_def strtol_prefix_def isspace_def isdigit_def digits_value_def digit_value_def
  tac_def optimize_def optimize_twice_def constantFolding_instr_def foldable_def
  evaluateConstant_def int32_def division_overflows_def constantPropagation_def substitute_def
  deadCodeElimination_def usedTemps_def starts_with_t_def
  removeRedundantAssignments_def algebraicSimplification_def algebraicSimplification_instr_def
  to_string_def to_string_nat.simps digit_char_def Let_def

lemma constantFolding_unchanged:
  "list_all (\<lambda>i. \<not> foldable i) code \<Longrightarrow> constantFolding code = Inr code"
  by (induction code) (simp_all add: constantFolding_instr_def)

lemma algebraicSimplification_instr_cases:
  "algebraicSimplification_instr i = i \<or> op (algebraicSimplification_instr i) = ''ASSIGN''"
  by (simp add: algebraicSimplification_instr_def)

lemma algebraicSimplification_instr_assign:
  "op i = ''ASSIGN'' \<Longrightarrow> algebraicSimplification_instr i = i"
  by (simp add: algebraicSimplification_instr_def)

lemma algebraicSimplification_instr_idem:
  "algebraicSimplification_instr (algebraicSimplification_instr i) = algebraicSimplification_instr i"
  using algebraicSimplification_instr_cases [of i]
  by (auto simp add: algebraicSimplification_instr_assign)

lemma algebraicSimplification_instr_same_op:
  assumes "op (algebraicSimplification_instr i) = op i"
  shows "algebraicSimplification_instr i = i"
proof (cases "op i = ''ASSIGN''")
  case True
  then show ?thesis by (rule algebraicSimplification_instr_assign)
next
  case False
  with assms algebraicSimplification_instr_cases [of i] show ?thesis by auto
qed

lemma removeRedundantAssignments_loop_filter:
  "removeRedundantAssignments_loop valueMap code = filter (\<lambda>i. \<not> self_assign i) code"
  by (induction code arbitrary: valueMap) (simp_all add: self_assign_def)

lemma removeRedundantAssignments_filter:
  "removeRedundantAssignments code = filter (\<lambda>i. \<not> self_assign i) code"
  by (simp add: removeRedundantAssignments_def removeRedundantAssignments_loop_filter)

lemma deadCodeElimination_subset: "set (deadCodeElimination code) \<subseteq> set code"
  by (auto simp add: deadCodeElimination_def)

lemma deadCodeElimination_length: "length (deadCodeElimination code) \<le> length code"
  by (simp add: deadCodeElimination_def)

lemma filter_same_length: "length (filter P xs) = length xs \<Longrightarrow> filter P xs = xs"
  by (metis filter_id_conv length_filter_less less_irrefl)

lemma deadCodeElimination_same_length:
  "length (deadCodeElimination code) = length code \<Longrightarrow> deadCodeElimination code = code"
  unfolding deadCodeElimination_def by (rule filter_same_length)

lemma constantPropagation_loop_ops:
  "map op (constantPropagation_loop constantMap code) = map op code"
  by (induction code arbitrary: constantMap) (simp_all add: Let_def)

lemma constantPropagation_ops: "map op (constantPropagation code) = map op code"
  by (simp add: constantPropagation_def constantPropagation_loop_ops)

lemma constantPropagation_length: "length (constantPropagation code) = length code"
  using constantPropagation_ops [of code] by (metis length_map)

text \<open>
  What the result of one application is made of: every instruction of it has been through
  algebraic simplification and has passed the test of redundant-assignment removal.
\<close>

lemma optimize_result_simplified:
  assumes "optimize code = Inr once" and "i \<in> set once"
  shows "algebraicSimplification_instr i = i" and "\<not> self_assign i"
proof -
  from assms(1) obtain folded where
    once: "once = deadCodeElimination (removeRedundantAssignments
             (algebraicSimplification (constantPropagation folded)))"
    by (auto simp add: optimize_def split: sum.splits)
  from assms(2) have "i \<in> set (removeRedundantAssignments
      (algebraicSimplification (constantPropagation folded)))"
    unfolding once using deadCodeElimination_subset by blast
  then have i: "i \<in> set (algebraicSimplification (constantPropagation folded))" "\<not> self_assign i"
    by (simp_all add: removeRedundantAssignments_filter)
  from i(1) show "algebraicSimplification_instr i = i"
    by (auto simp add: algebraicSimplification_def algebraicSimplification_instr_idem)
  from i(2) show "\<not> self_assign i" .
qed

text \<open>No pass adds an instruction with an arithmetic opcode, and folding removes one.\<close>

lemma constantFolding_instr_count:
  assumes "constantFolding_instr j = Inr j'"
  shows "(foldable j \<and> is_arithmetic (op j) \<and> \<not> is_arithmetic (op j')) \<or> (\<not> foldable j \<and> j' = j)"
proof (cases "foldable j")
  case True
  with assms have "op j' = ''ASSIGN''"
    by (auto simp add: constantFolding_instr_def split: sum.splits)
  with True show ?thesis
    by (auto simp add: foldable_def is_arithmetic_def)
next
  case False
  with assms show ?thesis
    by (simp add: constantFolding_instr_def)
qed

lemma constantFolding_count:
  assumes "constantFolding code = Inr folded"
  shows "length folded = length code \<and> arithmetic_count folded \<le> arithmetic_count code \<and>
         (arithmetic_count folded = arithmetic_count code \<longrightarrow> list_all (\<lambda>i. \<not> foldable i) code)"
  using assms
proof (induction code arbitrary: folded)
  case Nil
  then show ?case by (simp add: arithmetic_count_def)
next
  case (Cons j rest)
  from Cons.prems obtain j' rest' where
    j': "constantFolding_instr j = Inr j'" and rest': "constantFolding rest = Inr rest'" and
    folded: "folded = j' # rest'"
    by (auto split: sum.splits)
  from Cons.IH [OF rest'] have ih: "length rest' = length rest"
    "arithmetic_count rest' \<le> arithmetic_count rest"
    "arithmetic_count rest' = arithmetic_count rest \<longrightarrow> list_all (\<lambda>i. \<not> foldable i) rest"
    by simp_all
  from constantFolding_instr_count [OF j'] ih show ?case
    unfolding folded by (auto simp add: arithmetic_count_def)
qed

lemma algebraicSimplification_count:
  "arithmetic_count (algebraicSimplification code) \<le> arithmetic_count code"
proof (induction code)
  case Nil
  then show ?case by (simp add: arithmetic_count_def algebraicSimplification_def)
next
  case (Cons i rest)
  have "is_arithmetic (op (algebraicSimplification_instr i)) \<longrightarrow> is_arithmetic (op i)"
    using algebraicSimplification_instr_cases [of i] by (auto simp add: is_arithmetic_def)
  with Cons show ?case
    by (auto simp add: arithmetic_count_def algebraicSimplification_def)
qed

lemma filter_count: "arithmetic_count (filter P code) \<le> arithmetic_count code"
  by (induction code) (auto simp add: arithmetic_count_def)

lemma constantPropagation_count:
  "arithmetic_count (constantPropagation code) = arithmetic_count code"
  by (simp add: arithmetic_count_def constantPropagation_ops)

lemma simplified_same_ops:
  "map algebraicSimplification_instr xs = ys \<Longrightarrow> map op xs = map op ys \<Longrightarrow> xs = ys"
proof (induction xs arbitrary: ys)
  case Nil
  then show ?case by simp
next
  case (Cons x xs)
  then obtain y ys' where ys: "ys = y # ys'"
    by (cases ys) auto
  with Cons.prems have xy: "algebraicSimplification_instr x = y" and ops: "op x = op y"
    by simp_all
  have "op (algebraicSimplification_instr x) = op x"
    unfolding xy ops ..
  then have "algebraicSimplification_instr x = x"
    by (rule algebraicSimplification_instr_same_op)
  then have "x = y"
    unfolding xy ..
  moreover have "xs = ys'"
  proof (rule Cons.IH)
    show "map algebraicSimplification_instr xs = ys'"
      using Cons.prems(1) ys by simp
    show "map op xs = map op ys'"
      using Cons.prems(2) ys by simp
  qed
  ultimately show ?case using ys by simp
qed

text \<open>
  A list that one application has produced and that leaves folding, propagation and
  dead-code elimination nothing to do is left as it is by a further application.
\<close>

lemma optimize_fixed:
  assumes first: "optimize code = Inr once"
    and nofold: "list_all (\<lambda>i. \<not> foldable i) once"
    and noprop: "constantPropagation once = once"
    and nodead: "deadCodeElimination once = once"
  shows "optimize once = Inr once"
proof -
  have "map algebraicSimplification_instr once = once"
    using optimize_result_simplified(1) [OF first] by (simp add: map_idI)
  then have a: "algebraicSimplification once = once"
    by (simp add: algebraicSimplification_def)
  have r: "removeRedundantAssignments once = once"
    using optimize_result_simplified(2) [OF first] by (simp add: removeRedundantAssignments_filter)
  show ?thesis
    by (simp add: optimize_def constantFolding_unchanged [OF nofold] noprop a r nodead)
qed

text \<open>
  Conversely, a list that a further application leaves as it is has nothing left to
  fold, to propagate or to eliminate.
\<close>

lemma optimize_fixed_converse:
  assumes fixed: "optimize once = Inr once"
  shows "list_all (\<lambda>i. \<not> foldable i) once \<and> constantPropagation once = once \<and>
         deadCodeElimination once = once"
proof -
  from fixed obtain folded where folded: "constantFolding once = Inr folded" and
    result: "deadCodeElimination (removeRedundantAssignments
               (algebraicSimplification (constantPropagation folded))) = once"
    by (auto simp add: optimize_def split: sum.splits)
  from constantFolding_count [OF folded] have f: "length folded = length once"
    "arithmetic_count folded \<le> arithmetic_count once"
    "arithmetic_count folded = arithmetic_count once \<longrightarrow> list_all (\<lambda>i. \<not> foldable i) once"
    by simp_all
  have "arithmetic_count (deadCodeElimination (removeRedundantAssignments
          (algebraicSimplification (constantPropagation folded)))) \<le>
        arithmetic_count (removeRedundantAssignments
          (algebraicSimplification (constantPropagation folded)))"
    unfolding deadCodeElimination_def by (rule filter_count)
  also have "\<dots> \<le> arithmetic_count (algebraicSimplification (constantPropagation folded))"
    unfolding removeRedundantAssignments_filter by (rule filter_count)
  also have "\<dots> \<le> arithmetic_count (constantPropagation folded)"
    by (rule algebraicSimplification_count)
  also have "\<dots> = arithmetic_count folded"
    by (rule constantPropagation_count)
  finally have "arithmetic_count once \<le> arithmetic_count folded"
    unfolding result .
  with f have nofold: "list_all (\<lambda>i. \<not> foldable i) once"
    by simp
  then have "folded = once"
    using folded constantFolding_unchanged by simp
  then have result': "deadCodeElimination (removeRedundantAssignments
      (algebraicSimplification (constantPropagation once))) = once"
    using result by simp
  let ?p = "constantPropagation once"
  let ?a = "algebraicSimplification ?p"
  let ?r = "removeRedundantAssignments ?a"
  have la: "length ?a = length once"
    by (simp add: algebraicSimplification_def constantPropagation_length)
  have lr: "length ?r \<le> length ?a"
    by (simp add: removeRedundantAssignments_filter)
  have ld: "length (deadCodeElimination ?r) \<le> length ?r"
    by (rule deadCodeElimination_length)
  from result' have "length (deadCodeElimination ?r) = length once"
    by simp
  with la lr ld have eq: "length ?r = length ?a" "length (deadCodeElimination ?r) = length ?r"
    by simp_all
  from eq(1) have ra: "?r = ?a"
    unfolding removeRedundantAssignments_filter by (rule filter_same_length)
  from eq(2) have "deadCodeElimination ?r = ?r"
    by (rule deadCodeElimination_same_length)
  with result' ra have a_once: "?a = once"
    by simp
  with result' ra have dead: "deadCodeElimination once = once"
    by simp
  from a_once have "map algebraicSimplification_instr ?p = once"
    by (simp add: algebraicSimplification_def)
  moreover have "map op ?p = map op once"
    by (rule constantPropagation_ops)
  ultimately have "?p = once"
    by (rule simplified_same_ops)
  with nofold dead show ?thesis
    by simp
qed

text \<open>
  Claim C1, as stated: \<open>optimize (optimize c) = optimize c\<close> for every instruction list.
  It fails on the code generated for \<open>let x: int = 5; let z: int = x + 3;\<close>. The first
  application propagates \<open>5\<close> into \<open>t0 = x + 3\<close>, after folding has already run; only the
  second application folds \<open>t0 = 5 + 3\<close>, propagates \<open>8\<close> into \<open>z = t0\<close> and drops
  \<open>t0\<close>.
\<close>

theorem optimize_not_idempotent:
  "optimize
     [tac ''ASSIGN'' ''5'' '''' ''x'' 1, tac ''+'' ''x'' ''3'' ''t0'' 2, tac ''ASSIGN'' ''t0'' '''' ''z'' 2] =
   Inr [tac ''ASSIGN'' ''5'' '''' ''x'' 1, tac ''+'' ''5'' ''3'' ''t0'' 2, tac ''ASSIGN'' ''t0'' '''' ''z'' 2] \<and>
   optimize_twice
     [tac ''ASSIGN'' ''5'' '''' ''x'' 1, tac ''+'' ''x'' ''3'' ''t0'' 2, tac ''ASSIGN'' ''t0'' '''' ''z'' 2] =
   Inr [tac ''ASSIGN'' ''5'' '''' ''x'' 1, tac ''ASSIGN'' ''8'' '''' ''z'' 2] \<and>
   optimize_twice
     [tac ''ASSIGN'' ''5'' '''' ''x'' 1, tac ''+'' ''x'' ''3'' ''t0'' 2, tac ''ASSIGN'' ''t0'' '''' ''z'' 2] \<noteq>
   optimize
     [tac ''ASSIGN'' ''5'' '''' ''x'' 1, tac ''+'' ''x'' ''3'' ''t0'' 2, tac ''ASSIGN'' ''t0'' '''' ''z'' 2]"
  by (simp add: optimizer_eval)

text \<open>
  Claim C1, amended: applying the five passes twice yields the same list as applying them
  once exactly when the list that the first application returns has no arithmetic
  instruction with two integer-literal operands (nothing to fold), is left unchanged by
  constant propagation and is left unchanged by dead-code elimination. Algebraic
  simplification and redundant-assignment removal never change the result of a first
  application. (When the first application ends with an exception, so does the second.)
\<close>

theorem optimize_idempotent_iff:
  assumes "optimize code = Inr once"
  shows "optimize_twice code = optimize code \<longleftrightarrow>
         list_all (\<lambda>i. \<not> foldable i) once \<and> constantPropagation once = once \<and>
         deadCodeElimination once = once"
proof
  assume "optimize_twice code = optimize code"
  with assms have "optimize once = Inr once"
    by (simp add: optimize_twice_def)
  then show "list_all (\<lambda>i. \<not> foldable i) once \<and> constantPropagation once = once \<and>
             deadCodeElimination once = once"
    by (rule optimize_fixed_converse)
next
  assume "list_all (\<lambda>i. \<not> foldable i) once \<and> constantPropagation once = once \<and>
          deadCodeElimination once = once"
  with assms have "optimize once = Inr once"
    by (intro optimize_fixed) simp_all
  with assms show "optimize_twice code = optimize code"
    by (simp add: optimize_twice_def)
qed

text \<open>
  Witness for C1 (amended): the code generated for \<open>let x: int = 5; print x; return 0;\<close>
  in \<open>main\<close>. The first application substitutes \<open>5\<close> for \<open>x\<close>; its result has nothing
  left to fold, to propagate or to eliminate, and a second application returns it as it is.
\<close>

theorem optimize_idempotent_iff_witness:
  "optimize
     [tac ''LABEL'' '''' '''' ''main'' 1, tac ''ASSIGN'' ''5'' '''' ''x'' 1,
      tac ''PARAM'' ''x'' '''' '''' 1, tac ''CALL'' ''print'' ''x'' ''t0'' 1,
      tac ''RETURN'' ''0'' '''' '''' (- 1)] =
   Inr [tac ''LABEL'' '''' '''' ''main'' 1, tac ''ASSIGN'' ''5'' '''' ''x'' 1,
      tac ''PARAM'' ''5'' '''' '''' 1, tac ''CALL'' ''print'' ''5'' ''t0'' 1,
      tac ''RETURN'' ''0'' '''' '''' (- 1)] \<and>
   list_all (\<lambda>i. \<not> foldable i)
     [tac ''LABEL'' '''' '''' ''main'' 1, tac ''ASSIGN'' ''5'' '''' ''x'' 1,
      tac ''PARAM'' ''5'' '''' '''' 1, tac ''CALL'' ''print'' ''5'' ''t0'' 1,
      tac ''RETURN'' ''0'' '''' '''' (- 1)] \<and>
   constantPropagation
     [tac ''LABEL'' '''' '''' ''main'' 1, tac ''ASSIGN'' ''5'' '''' ''x'' 1,
      tac ''PARAM'' ''5'' '''' '''' 1, tac ''CALL'' ''print'' ''5'' ''t0'' 1,
      tac ''RETURN'' ''0'' '''' '''' (- 1)] =
     [tac ''LABEL'' '''' '''' ''main'' 1, tac ''ASSIGN'' ''5'' '''' ''x'' 1,
      tac ''PARAM'' ''5'' '''' '''' 1, tac ''CALL'' ''print'' ''5'' ''t0'' 1,
      tac ''RETURN'' ''0'' '''' '''' (- 1)] \<and>
   deadCodeElimination
     [tac ''LABEL'' '''' '''' ''main'' 1, tac ''ASSIGN'' ''5'' '''' ''x'' 1,
      tac ''PARAM'' ''5'' '''' '''' 1, tac ''CALL'' ''print'' ''5'' ''t0'' 1,
      tac ''RETURN'' ''0'' '''' '''' (- 1)] =
     [tac ''LABEL'' '''' '''' ''main'' 1, tac ''ASSIGN'' ''5'' '''' ''x'' 1,
      tac ''PARAM'' ''5'' '''' '''' 1, tac ''CALL'' ''print'' ''5'' ''t0'' 1,
      tac ''RETURN'' ''0'' '''' '''' (- 1)] \<and>
   optimize_twice
     [tac ''LABEL'' '''' '''' ''main'' 1, tac ''ASSIGN'' ''5'' '''' ''x'' 1,
      tac ''PARAM'' ''x'' '''' '''' 1, tac ''CALL'' ''print'' ''x'' ''t0'' 1,
      tac ''RETURN'' ''0'' '''' '''' (- 1)] =
   optimize
     [tac ''LABEL'' '''' '''' ''main'' 1, tac ''ASSIGN'' ''5'' '''' ''x'' 1,
      tac ''PARAM'' ''x'' '''' '''' 1, tac ''CALL'' ''print'' ''x'' ''t0'' 1,
      tac ''RETURN'' ''0'' '''' '''' (- 1)]"
  using optimize_idempotent_iff
    [of "[tac ''LABEL'' '''' '''' ''main'' 1, tac ''ASSIGN'' ''5'' '''' ''x'' 1,
      tac ''PARAM'' ''x'' '''' '''' 1, tac ''CALL'' ''print'' ''x'' ''t0'' 1,
      tac ''RETURN'' ''0'' '''' '''' (- 1)]"
     "[tac ''LABEL'' '''' '''' ''main'' 1, tac ''ASSIGN'' ''5'' '''' ''x'' 1,
      tac ''PARAM'' ''5'' '''' '''' 1, tac ''CALL'' ''print'' ''5'' ''t0'' 1,
      tac ''RETURN'' ''0'' '''' '''' (- 1)]"]
  by (simp add: optimizer_eval)

text \<open>
  Further lists on which two applications give what one gives: a single Assign of a
  literal, and an addition with one literal operand whose result is assigned.
\<close>

lemma optimize_idempotent_instances:
  "optimize_twice [tac ''ASSIGN'' ''5'' '''' ''x'' 1] = optimize [tac ''ASSIGN'' ''5'' '''' ''x'' 1]"
  "optimize_twice [tac ''+'' ''a'' ''1'' ''t0'' 1, tac ''ASSIGN'' ''t0'' '''' ''z'' 1] =
   optimize [tac ''+'' ''a'' ''1'' ''t0'' 1, tac ''ASSIGN'' ''t0'' '''' ''z'' 1]"
  by (simp_all add: optimizer_eval)

text \<open>
  Claim C3: in constant propagation, every instruction other than an Assign of a constant
  that writes a name, an Assign of a non-constant included, removes the name from the
  mapping. The code removes the name only when the opcode is not \<open>ASSIGN\<close>: on
  \<open>x = 5; x = y; z = x\<close> the entry \<open>x \<mapsto> 5\<close> survives \<open>x = y\<close>, and \<open>z = x\<close> is rewritten
  to \<open>z = 5\<close>.
\<close>

theorem constantPropagation_keeps_overwritten_constant:
  "constantPropagation
     [tac ''ASSIGN'' ''5'' '''' ''x'' 1, tac ''ASSIGN'' ''y'' '''' ''x'' 2, tac ''ASSIGN'' ''x'' '''' ''z'' 3] =
     [tac ''ASSIGN'' ''5'' '''' ''x'' 1, tac ''ASSIGN'' ''y'' '''' ''x'' 2, tac ''ASSIGN'' ''5'' '''' ''z'' 3]"
  by (simp add: optimizer_eval)

lemma isConstant_strtol_prefix:
  assumes "isConstant s"
  shows "strtol_prefix s \<noteq> None"
proof (cases s)
  case Nil
  with assms show ?thesis by simp
next
  case (Cons c cs)
  show ?thesis
  proof (cases "c = CHR ''-'' \<or> c = CHR ''+''")
    case True
    with assms Cons obtain d ds where cs: "cs = d # ds" and d: "isdigit d"
      by (cases cs) auto
    from True have "\<not> isspace c"
      by (auto simp add: isspace_def)
    with True cs d Cons show ?thesis
      by (auto simp add: strtol_prefix_def Let_def)
  next
    case False
    with assms Cons have d: "isdigit c"
      by simp
    then have "\<not> isspace c"
      by (auto simp add: isspace_def isdigit_def)
    with False d Cons show ?thesis
      by (auto simp add: strtol_prefix_def Let_def)
  qed
qed

lemma constantFolding_instr_total:
  assumes "foldable j \<longrightarrow>
             stoi (arg1 j) \<noteq> Inl out_of_range \<and> stoi (arg2 j) \<noteq> Inl out_of_range \<and>
             \<not> (op j = ''/'' \<and> stoi (arg1 j) = Inr (- (2 ^ 31)) \<and> stoi (arg2 j) = Inr (- 1))"
  shows "\<exists>j'. constantFolding_instr j = Inr j'"
proof (cases "foldable j")
  case False
  then show ?thesis by (simp add: constantFolding_instr_def)
next
  case True
  then have "strtol_prefix (arg1 j) \<noteq> None" "strtol_prefix (arg2 j) \<noteq> None"
    by (simp_all add: foldable_def isConstant_strtol_prefix)
  with True assms obtain l r where lr: "stoi (arg1 j) = Inr l" "stoi (arg2 j) = Inr r"
    by (auto simp add: stoi_def split: option.splits if_splits)
  with True assms have "op j = ''/'' \<longrightarrow> \<not> division_overflows l r"
    by (simp add: division_overflows_def)
  with True lr show ?thesis
    by (auto simp add: constantFolding_instr_def evaluateConstant_def foldable_def)
qed

lemma constantFolding_total:
  assumes "list_all (\<lambda>j. foldable j \<longrightarrow>
             stoi (arg1 j) \<noteq> Inl out_of_range \<and> stoi (arg2 j) \<noteq> Inl out_of_range \<and>
             \<not> (op j = ''/'' \<and> stoi (arg1 j) = Inr (- (2 ^ 31)) \<and> stoi (arg2 j) = Inr (- 1))) code"
  shows "\<exists>folded. constantFolding code = Inr folded \<and> length folded = length code \<and>
           (\<forall>i < length code. constantFolding_instr (code ! i) = Inr (folded ! i))"
  using assms
proof (induction code)
  case Nil
  then show ?case by simp
next
  case (Cons j rest)
  from Cons.prems obtain j' where j': "constantFolding_instr j = Inr j'"
    using constantFolding_instr_total [of j] by auto
  from Cons obtain rest' where rest': "constantFolding rest = Inr rest'"
    "length rest' = length rest"
    "\<forall>i < length rest. constantFolding_instr (rest ! i) = Inr (rest' ! i)"
    by auto
  have "\<forall>i < length (j # rest). constantFolding_instr ((j # rest) ! i) = Inr ((j' # rest') ! i)"
    using j' rest'(3) by (auto simp add: nth_Cons split: nat.splits)
  with j' rest' show ?case by simp
qed

text \<open>
  Claim C10, as stated: every \<open>/\<close> instruction with two integer-literal operands and a
  right operand equal to 0 is replaced by an Assign of \<open>0\<close>, without an error. It fails
  when the left literal does not fit a 32-bit \<open>int\<close>: \<open>std::stoi\<close> throws
  \<open>std::out_of_range\<close> before the divisor is looked at.
\<close>

theorem constantFolding_division_by_zero_raises:
  "isConstant ''99999999999'' \<and> isConstant ''0'' \<and> stoi ''0'' = Inr 0 \<and>
   constantFolding [tac ''/'' ''99999999999'' ''0'' ''t0'' 1] = Inl (Throws out_of_range)"
  by (simp add: optimizer_eval)

text \<open>
  Claim C10, amended: when every instruction of the list that folding applies to has
  operands that fit a 32-bit \<open>int\<close> and is not the division of \<open>-2147483648\<close> by \<open>-1\<close>
  (on which the pass is killed by the division trap), the pass returns, and it replaces
  each \<open>/\<close> instruction whose operands are integer literals, the right one equal to 0, by
  an Assign of the literal \<open>0\<close>.
\<close>

theorem constantFolding_division_by_zero:
  assumes "list_all (\<lambda>j. foldable j \<longrightarrow>
             stoi (arg1 j) \<noteq> Inl out_of_range \<and> stoi (arg2 j) \<noteq> Inl out_of_range \<and>
             \<not> (op j = ''/'' \<and> stoi (arg1 j) = Inr (- (2 ^ 31)) \<and> stoi (arg2 j) = Inr (- 1))) code"
    and "i < length code"
    and "op (code ! i) = ''/''"
    and "isConstant (arg1 (code ! i))"
    and "isConstant (arg2 (code ! i))"
    and "stoi (arg2 (code ! i)) = Inr 0"
  shows "\<exists>folded. constantFolding code = Inr folded \<and> length folded = length code \<and>
           folded ! i = (code ! i)\<lparr>op := ''ASSIGN'', arg1 := ''0'', arg2 := ''''\<rparr>"
proof -
  from constantFolding_total [OF assms(1)] obtain folded where
    folded: "constantFolding code = Inr folded" "length folded = length code"
    "\<forall>k < length code. constantFolding_instr (code ! k) = Inr (folded ! k)"
    by blast
  let ?j = "code ! i"
  have fj: "foldable ?j"
    using assms(3,4,5) by (simp add: foldable_def)
  with assms(1,2) have "stoi (arg1 ?j) \<noteq> Inl out_of_range"
    by (auto simp add: list_all_length)
  moreover have "strtol_prefix (arg1 ?j) \<noteq> None"
    using assms(4) by (rule isConstant_strtol_prefix)
  ultimately obtain l where l: "stoi (arg1 ?j) = Inr l"
    by (auto simp add: stoi_def split: option.splits if_splits)
  have "constantFolding_instr ?j = Inr (?j\<lparr>op := ''ASSIGN'', arg1 := ''0'', arg2 := ''''\<rparr>)"
    using fj l assms(3,6)
    by (simp add: constantFolding_instr_def evaluateConstant_def to_string_def
        to_string_nat.simps digit_char_def)
  with folded(3) assms(2) have "folded ! i = ?j\<lparr>op := ''ASSIGN'', arg1 := ''0'', arg2 := ''''\<rparr>"
    by auto
  with folded(1,2) show ?thesis by blast
qed

text \<open>
  Witness for C10 (amended): in \<open>t0 = 7 / 0; t1 = 2 + 3\<close> all literals fit, and the
  division at index 0 becomes \<open>t0 = 0\<close>.
\<close>

theorem constantFolding_division_by_zero_witness:
  "list_all (\<lambda>j. foldable j \<longrightarrow>
       stoi (arg1 j) \<noteq> Inl out_of_range \<and> stoi (arg2 j) \<noteq> Inl out_of_range \<and>
       \<not> (op j = ''/'' \<and> stoi (arg1 j) = Inr (- (2 ^ 31)) \<and> stoi (arg2 j) = Inr (- 1)))
     [tac ''/'' ''7'' ''0'' ''t0'' 1, tac ''+'' ''2'' ''3'' ''t1'' 2] \<and>
   isConstant ''7'' \<and> isConstant ''0'' \<and> stoi ''0'' = Inr 0 \<and>
   constantFolding [tac ''/'' ''7'' ''0'' ''t0'' 1, tac ''+'' ''2'' ''3'' ''t1'' 2] =
     Inr [tac ''ASSIGN'' ''0'' '''' ''t0'' 1, tac ''ASSIGN'' ''5'' '''' ''t1'' 2]"
  using constantFolding_division_by_zero
    [of "[tac ''/'' ''7'' ''0'' ''t0'' 1, tac ''+'' ''2'' ''3'' ''t1'' 2]" 0]
  by (simp add: optimizer_eval)

text \<open>
  The division that the hypothesis above leaves out: on \<open>t0 = -2147483648 / -1\<close> the
  pass does not return.
\<close>

lemma constantFolding_division_traps:
  "constantFolding [tac ''/'' ''-2147483648'' ''-1'' ''t0'' 1] = Inl Undefined"
  by (simp add: optimizer_eval)
section \<open>Properties of the code generator\<close>

lemma prepend_simps [simp]:
  "intermediateCode (prepend p g) = p @ intermediateCode g"
  "symbolManager (prepend p g) = symbolManager g"
  "tempCounter (prepend p g) = tempCounter g"
  "labelCounter (prepend p g) = labelCounter g"
  by (simp_all add: prepend_def)

lemma prepended_simps [simp]:
  "prepended p (Inl e) = Inl e"
  "prepended p (Inr g) = Inr (prepend p g)"
  by (simp_all add: prepended_def)

lemma case_prepended:
  "(case prepended p r of Inl e \<Rightarrow> Inl e | Inr g \<Rightarrow> k g) =
   (case r of Inl e \<Rightarrow> Inl e | Inr g \<Rightarrow> k (prepend p g))"
  by (cases r) simp_all

lemma newTemp_prepend [simp]:
  "newTemp (prepend p g) = (fst (newTemp g), prepend p (snd (newTemp g)))"
  by (simp add: newTemp_def prepend_def)

lemma newLabel_prepend [simp]:
  "newLabel (prepend p g) = (fst (newLabel g), prepend p (snd (newLabel g)))"
  by (simp add: newLabel_def prepend_def)

lemma push_back_prepend [simp]:
  "push_back i (prepend p g) = prepend p (push_back i g)"
  by (simp add: push_back_def prepend_def)

lemma on_symbolManager_prepend [simp]:
  "on_symbolManager f (prepend p g) = prepended p (on_symbolManager f g)"
  by (simp add: on_symbolManager_def prepend_def split: sum.splits)

lemma enter_prepend [simp]:
  "(prepend p g)\<lparr>symbolManager := m\<rparr> = prepend p (g\<lparr>symbolManager := m\<rparr>)"
  by (simp add: prepend_def)

lemma generateExpression_prepend:
  "generateExpression e (prepend p g) =
     (fst (generateExpression e g), prepend p (snd (generateExpression e g)))"
  "generateCallArguments es args lno (prepend p g) =
     (fst (generateCallArguments es args lno g), prepend p (snd (generateCallArguments es args lno g)))"
  "generateSequenceElements es i res (prepend p g) =
     prepend p (generateSequenceElements es i res g)"
  by (induction e g and es args lno g and es i res g
      rule: generateExpression_generateCallArguments_generateSequenceElements.induct)
     (auto simp add: Let_def split: prod.splits)

lemma in_new_scope_prepend:
  assumes "\<And>h. f (prepend p h) = prepended p (f h)"
  shows "in_new_scope f (prepend p g) = prepended p (in_new_scope f g)"
  by (simp add: in_new_scope_def assms case_prepended split: sum.splits)

lemma generateStatements_prepend_from:
  assumes "\<And>s q h. s \<in> set ss \<Longrightarrow> generateStatement s (prepend q h) = prepended q (generateStatement s h)"
  shows "generateStatements ss (prepend p g) = prepended p (generateStatements ss g)"
  using assms
proof (induction ss arbitrary: g)
  case Nil
  then show ?case by simp
next
  case (Cons s rest)
  have head: "generateStatement s (prepend p g) = prepended p (generateStatement s g)"
    using Cons.prems by simp
  have tail: "\<And>h. generateStatements rest (prepend p h) = prepended p (generateStatements rest h)"
    using Cons.IH Cons.prems by simp
  show ?case
    by (simp add: head tail case_prepended split: sum.splits)
qed

lemma generateStatement_prepend:
  "generateStatement s (prepend p g) = prepended p (generateStatement s g)"
proof (induction s arbitrary: p g)
  case (BlockStmt stmts)
  show ?case by simp
next
  case (DeclarationStmt n t init)
  show ?case
    by (cases init)
       (simp_all add: generateExpression_prepend case_prepended split_beta Let_def split: sum.splits)
next
  case (AssignmentStmt n e)
  show ?case
    by (simp add: generateExpression_prepend split_beta Let_def)
next
  case (IfStmt c thenBranch elseBranch)
  have t: "\<And>q h. in_new_scope (generateStatements thenBranch) (prepend q h) =
                  prepended q (in_new_scope (generateStatements thenBranch) h)"
    by (rule in_new_scope_prepend, rule generateStatements_prepend_from) (rule IfStmt.IH(1))
  have e: "\<And>q h. in_new_scope (generateStatements elseBranch) (prepend q h) =
                  prepended q (in_new_scope (generateStatements elseBranch) h)"
    by (rule in_new_scope_prepend, rule generateStatements_prepend_from) (rule IfStmt.IH(2))
  show ?case
    by (simp add: generateExpression_prepend t e case_prepended split_beta Let_def split: sum.splits)
next
  case (WhileStmt c loopBody)
  have b: "\<And>q h. in_new_scope (generateStatements loopBody) (prepend q h) =
                  prepended q (in_new_scope (generateStatements loopBody) h)"
    by (rule in_new_scope_prepend, rule generateStatements_prepend_from) (rule WhileStmt.IH)
  show ?case
    by (simp add: generateExpression_prepend b case_prepended split_beta Let_def split: sum.splits)
next
  case (ReturnStmt v)
  show ?case
    by (cases v) (simp_all add: generateExpression_prepend split_beta Let_def)
next
  case (ExpressionStmt e)
  show ?case
    by (simp add: generateExpression_prepend)
qed

lemma generateStatements_prepend:
  "generateStatements ss (prepend p g) = prepended p (generateStatements ss g)"
  by (rule generateStatements_prepend_from) (rule generateStatement_prepend)

lemma prepend_self: "prepend (intermediateCode g) (g\<lparr>intermediateCode := []\<rparr>) = g"
  by (simp add: prepend_def)

lemma generateExpression_reset:
  "generateExpression e g =
     (fst (generateExpression e (g\<lparr>intermediateCode := []\<rparr>)),
      prepend (intermediateCode g) (snd (generateExpression e (g\<lparr>intermediateCode := []\<rparr>))))"
proof -
  have "generateExpression e (prepend (intermediateCode g) (g\<lparr>intermediateCode := []\<rparr>)) =
        (fst (generateExpression e (g\<lparr>intermediateCode := []\<rparr>)),
         prepend (intermediateCode g) (snd (generateExpression e (g\<lparr>intermediateCode := []\<rparr>))))"
    by (rule generateExpression_prepend)
  then show ?thesis
    by (simp only: prepend_self)
qed

text \<open>Expressions are lowered without a look at the symbol tables.\<close>

lemma newTemp_symbolManager [simp]:
  "newTemp (g\<lparr>symbolManager := m\<rparr>) = (fst (newTemp g), (snd (newTemp g))\<lparr>symbolManager := m\<rparr>)"
  by (simp add: newTemp_def)

lemma push_back_symbolManager [simp]:
  "push_back i (g\<lparr>symbolManager := m\<rparr>) = (push_back i g)\<lparr>symbolManager := m\<rparr>"
  by (simp add: push_back_def)

lemma generateExpression_symbolManager:
  "generateExpression e (g\<lparr>symbolManager := m\<rparr>) =
     (fst (generateExpression e g), (snd (generateExpression e g))\<lparr>symbolManager := m\<rparr>)"
  "generateCallArguments es args lno (g\<lparr>symbolManager := m\<rparr>) =
     (fst (generateCallArguments es args lno g),
      (snd (generateCallArguments es args lno g))\<lparr>symbolManager := m\<rparr>)"
  "generateSequenceElements es i res (g\<lparr>symbolManager := m\<rparr>) =
     (generateSequenceElements es i res g)\<lparr>symbolManager := m\<rparr>"
  by (induction e g and es args lno g and es i res g
      rule: generateExpression_generateCallArguments_generateSequenceElements.induct)
     (auto simp add: Let_def split: prod.splits)

text \<open>
  A statement that the generator gets through leaves the scope chain as long as it found
  it: each scope entered is left again.
\<close>

lemma updateInitialization_length:
  "updateInitialization nm chain = Inr chain' \<Longrightarrow> length chain' = length chain"
  by (induction chain arbitrary: chain') (auto split: option.splits sum.splits)

lemma markSymbolInitialized_depth:
  "on_symbolManager (markSymbolInitialized nm) g = Inr g' \<Longrightarrow> scope_depth g' = scope_depth g"
  by (auto simp add: on_symbolManager_def markSymbolInitialized_def scope_depth_def
      updateInitialization_length split: sum.splits)

lemma declareSymbol_depth:
  "on_symbolManager (declareSymbol nm t b) g = Inr g' \<Longrightarrow> scope_depth g' = scope_depth g"
  by (auto simp add: on_symbolManager_def declareSymbol_def scope_depth_def
      split: sum.splits list.splits)

lemma declareSymbol_counters:
  "on_symbolManager f g = Inr g' \<Longrightarrow>
   intermediateCode g' = intermediateCode g \<and> tempCounter g' = tempCounter g \<and>
   labelCounter g' = labelCounter g"
  by (auto simp add: on_symbolManager_def split: sum.splits)

lemma newTemp_depth [simp]: "scope_depth (snd (newTemp g)) = scope_depth g"
  by (simp add: newTemp_def scope_depth_def)

lemma newLabel_depth [simp]: "scope_depth (snd (newLabel g)) = scope_depth g"
  by (simp add: newLabel_def scope_depth_def)

lemma push_back_depth [simp]: "scope_depth (push_back i g) = scope_depth g"
  by (simp add: push_back_def scope_depth_def)

lemma generateExpression_depth [simp]:
  "scope_depth (snd (generateExpression e g)) = scope_depth g"
proof -
  obtain v h where vh: "generateExpression e g = (v, h)"
    by (cases "generateExpression e g")
  have "g\<lparr>symbolManager := symbolManager g\<rparr> = g"
    by simp
  with generateExpression_symbolManager(1) [where e = e and g = g and m = "symbolManager g"] vh
  have "h = h\<lparr>symbolManager := symbolManager g\<rparr>"
    by simp
  then have "symbolManager h = symbolManager (h\<lparr>symbolManager := symbolManager g\<rparr>)"
    by (rule arg_cong)
  also have "\<dots> = symbolManager g"
    by simp
  finally show ?thesis
    by (simp add: scope_depth_def vh)
qed

lemma in_new_scope_depth:
  assumes "\<And>h h'. f h = Inr h' \<Longrightarrow> scope_depth h' = scope_depth h"
    and "in_new_scope f g = Inr g'"
  shows "scope_depth g' = scope_depth g"
proof -
  from assms(2) obtain g1 where g1: "f (g\<lparr>symbolManager := enterScope (symbolManager g)\<rparr>) = Inr g1"
    and out: "on_symbolManager exitScope g1 = Inr g'"
    by (auto simp add: in_new_scope_def split: sum.splits)
  from assms(1) [OF g1] have "scope_depth g1 = Suc (scope_depth g)"
    by (simp add: scope_depth_def enterScope_def)
  with out show ?thesis
    by (auto simp add: on_symbolManager_def exitScope_def scope_depth_def
        split: sum.splits list.splits)
qed

lemma generateStatements_depth_from:
  assumes "\<And>s h h'. s \<in> set ss \<Longrightarrow> generateStatement s h = Inr h' \<Longrightarrow> scope_depth h' = scope_depth h"
    and "generateStatements ss g = Inr g'"
  shows "scope_depth g' = scope_depth g"
  using assms
proof (induction ss arbitrary: g)
  case Nil
  then show ?case by simp
next
  case (Cons s rest)
  from Cons.prems(2) obtain g1 where g1: "generateStatement s g = Inr g1"
    and rest: "generateStatements rest g1 = Inr g'"
    by (auto split: sum.splits)
  have "scope_depth g1 = scope_depth g"
    by (rule Cons.prems(1) [OF _ g1]) simp
  moreover have "scope_depth g' = scope_depth g1"
  proof (rule Cons.IH [OF _ rest])
    fix s' h h'
    assume "s' \<in> set rest" and "generateStatement s' h = Inr h'"
    then show "scope_depth h' = scope_depth h"
      by (intro Cons.prems(1)) simp_all
  qed
  ultimately show ?case by simp
qed

lemma generateStatement_depth:
  "generateStatement s g = Inr g' \<Longrightarrow> scope_depth g' = scope_depth g"
proof (induction s arbitrary: g g')
  case (BlockStmt stmts)
  then show ?case by simp
next
  case (DeclarationStmt n t init)
  then show ?case
    by (cases init)
       (auto simp add: split_beta Let_def split: sum.splits
          dest!: declareSymbol_depth markSymbolInitialized_depth)
next
  case (AssignmentStmt n e)
  then show ?case
    by (auto simp add: split_beta Let_def dest!: markSymbolInitialized_depth)
next
  case (IfStmt c thenBranch elseBranch)
  have t: "\<And>h h'. in_new_scope (generateStatements thenBranch) h = Inr h' \<Longrightarrow>
                   scope_depth h' = scope_depth h"
    by (rule in_new_scope_depth [rotated], assumption, rule generateStatements_depth_from [rotated],
        assumption) (rule IfStmt.IH(1))
  have e: "\<And>h h'. in_new_scope (generateStatements elseBranch) h = Inr h' \<Longrightarrow>
                   scope_depth h' = scope_depth h"
    by (rule in_new_scope_depth [rotated], assumption, rule generateStatements_depth_from [rotated],
        assumption) (rule IfStmt.IH(2))
  from IfStmt.prems show ?case
    by (auto simp add: split_beta Let_def split: sum.splits dest!: t e)
next
  case (WhileStmt c loopBody)
  have b: "\<And>h h'. in_new_scope (generateStatements loopBody) h = Inr h' \<Longrightarrow>
                   scope_depth h' = scope_depth h"
    by (rule in_new_scope_depth [rotated], assumption, rule generateStatements_depth_from [rotated],
        assumption) (rule WhileStmt.IH)
  from WhileStmt.prems show ?case
    by (auto simp add: split_beta Let_def split: sum.splits dest!: b)
next
  case (ReturnStmt v)
  then show ?case
    by (cases v) (auto simp add: split_beta Let_def)
next
  case (ExpressionStmt e)
  then show ?case by auto
qed

lemma generateStatements_depth:
  "generateStatements ss g = Inr g' \<Longrightarrow> scope_depth g' = scope_depth g"
  by (rule generateStatements_depth_from [rotated], assumption) (rule generateStatement_depth)

text \<open>
  The lowering of a While statement. When the generator has a current scope and gets
  through the body of the loop (lowered in a new scope, with the counters left by the
  allocation of the three labels), it gets through the statement, and what it appends is,
  in this order: \<open>Goto condLabel\<close>, \<open>Label startLabel\<close>, the instructions of the body,
  \<open>Label condLabel\<close>, the instructions of the condition (lowered with the counters left
  by the body), \<open>If cond, startLabel\<close> and \<open>Label endLabel\<close>.
\<close>

lemma while_lowering_shape:
  assumes chain: "scope_chain (symbolManager g) \<noteq> []"
    and body: "generateStatements loopBody
                 (g\<lparr>intermediateCode := [], symbolManager := enterScope (symbolManager g),
                    labelCounter := labelCounter g + 3\<rparr>) = Inr afterBody"
  shows "\<exists>g'. generateStatement (WhileStmt c loopBody) g = Inr g' \<and>
           intermediateCode g' =
             intermediateCode g @
             [tac ''GOTO'' '''' '''' (''L'' @ to_string (sint (labelCounter g + 1))) (expr_line c),
              tac ''LABEL'' '''' '''' (''L'' @ to_string (sint (labelCounter g))) (expr_line c)] @
             intermediateCode afterBody @
             [tac ''LABEL'' '''' '''' (''L'' @ to_string (sint (labelCounter g + 1))) (expr_line c)] @
             lowered_expression c afterBody @
             [tac ''IF'' (fst (generateExpression c afterBody)) ''''
                (''L'' @ to_string (sint (labelCounter g))) (expr_line c),
              tac ''LABEL'' '''' '''' (''L'' @ to_string (sint (labelCounter g + 2))) (expr_line c)]"
proof -
  let ?ln = "expr_line c"
  let ?sl = "''L'' @ to_string (sint (labelCounter g))"
  let ?cl = "''L'' @ to_string (sint (labelCounter g + 1))"
  let ?el = "''L'' @ to_string (sint (labelCounter g + 2))"
  let ?pre = "intermediateCode g @ [tac ''GOTO'' '''' '''' ?cl ?ln, tac ''LABEL'' '''' '''' ?sl ?ln]"
  let ?entered = "g\<lparr>intermediateCode := [], symbolManager := enterScope (symbolManager g),
                    labelCounter := labelCounter g + 3\<rparr>"
  let ?g5 = "g\<lparr>labelCounter := labelCounter g + 3, intermediateCode := ?pre\<rparr>"
  have unfolded: "generateStatement (WhileStmt c loopBody) g =
      (case in_new_scope (generateStatements loopBody) ?g5 of
         Inl e \<Rightarrow> Inl e
       | Inr g6 \<Rightarrow>
           Inr (push_back (tac ''LABEL'' '''' '''' ?el ?ln)
                 (push_back (tac ''IF'' (fst (generateExpression c
                                (push_back (tac ''LABEL'' '''' '''' ?cl ?ln) g6))) '''' ?sl ?ln)
                    (snd (generateExpression c (push_back (tac ''LABEL'' '''' '''' ?cl ?ln) g6))))))"
    by (simp add: newLabel_def push_back_def Let_def split_beta add.commute cong: sum.case_cong)
  have "?g5\<lparr>symbolManager := enterScope (symbolManager ?g5)\<rparr> = prepend ?pre ?entered"
    by (simp add: prepend_def)
  then have inside: "generateStatements loopBody (?g5\<lparr>symbolManager := enterScope (symbolManager ?g5)\<rparr>) =
      Inr (prepend ?pre afterBody)"
    by (simp only: generateStatements_prepend body prepended_simps)
  have "scope_depth afterBody = scope_depth ?entered"
    using body by (rule generateStatements_depth)
  also have "\<dots> = Suc (scope_depth g)"
    by (simp add: scope_depth_def enterScope_def)
  finally have "2 \<le> length (scope_chain (symbolManager afterBody))"
    using chain by (cases "scope_chain (symbolManager g)") (simp_all add: scope_depth_def)
  then obtain m where m: "exitScope (symbolManager afterBody) = Inr m"
    by (cases "scope_chain (symbolManager afterBody)" rule: remdups_adj.cases)
       (simp_all add: exitScope_def)
  let ?g6 = "(prepend ?pre afterBody)\<lparr>symbolManager := m\<rparr>"
  have scoped: "in_new_scope (generateStatements loopBody) ?g5 = Inr ?g6"
    unfolding in_new_scope_def inside by (simp add: on_symbolManager_def m)
  let ?code7 = "?pre @ intermediateCode afterBody @ [tac ''LABEL'' '''' '''' ?cl ?ln]"
  let ?X = "generateExpression c (afterBody\<lparr>intermediateCode := []\<rparr>)"
  have g7: "push_back (tac ''LABEL'' '''' '''' ?cl ?ln) ?g6 =
            (prepend ?code7 (afterBody\<lparr>intermediateCode := []\<rparr>))\<lparr>symbolManager := m\<rparr>"
    by (simp add: push_back_def prepend_def)
  have cond: "generateExpression c (push_back (tac ''LABEL'' '''' '''' ?cl ?ln) ?g6) =
              (fst ?X, (prepend ?code7 (snd ?X))\<lparr>symbolManager := m\<rparr>)"
    unfolding g7 by (simp only: generateExpression_symbolManager generateExpression_prepend fst_conv snd_conv)
  have name: "fst ?X = fst (generateExpression c afterBody)"
    by (subst (2) generateExpression_reset) simp
  have "generateStatement (WhileStmt c loopBody) g =
        Inr (push_back (tac ''LABEL'' '''' '''' ?el ?ln)
              (push_back (tac ''IF'' (fst ?X) '''' ?sl ?ln)
                 ((prepend ?code7 (snd ?X))\<lparr>symbolManager := m\<rparr>)))"
    by (simp only: unfolded scoped cond sum.case fst_conv snd_conv)
  then show ?thesis
    by (simp add: push_back_def lowered_expression_def name)
qed

lemmas codegen_eval =
  generate_def generateFunction_def push_back_def tac_def on_symbolManager_def
  declareSymbol_def insert_symbol_def markSymbolInitialized_def enterScope_def exitScope_def
  in_new_scope_def CodeGenerator_constructed_def SymbolTableManager_constructed_def
  newLabel_def newTemp_def to_string_def to_string_nat.simps digit_char_def Let_def

text \<open>
  An instance of the lemma: for
  \<open>func main() -> int { let i: int = 0; while i < 3 { i = i + 1; } return 0; }\<close> the
  generator returns, with the loop lowered in the shape above.
\<close>

lemma while_lowering_example:
  "generate
     [\<lparr>name = Token T_IDENTIFIER ''main'' 1 10, parameters = [], returnType = DT_INT,
       body = [DeclarationStmt (Token T_IDENTIFIER ''i'' 1 27) DT_INT
                 (Some (LiteralExpr (Token T_NUMBER ''0'' 1 36))),
               WhileStmt
                 (BinaryExpr (VariableExpr (Token T_IDENTIFIER ''i'' 1 45)) (Token T_LESS ''<'' 1 47)
                    (LiteralExpr (Token T_NUMBER ''3'' 1 49)))
                 [AssignmentStmt (Token T_IDENTIFIER ''i'' 1 53)
                    (BinaryExpr (VariableExpr (Token T_IDENTIFIER ''i'' 1 57)) (Token T_PLUS ''+'' 1 59)
                       (LiteralExpr (Token T_NUMBER ''1'' 1 61)))],
               ReturnStmt (Some (LiteralExpr (Token T_NUMBER ''0'' 1 73)))]\<rparr>]
     CodeGenerator_constructed =
   Inr [tac ''LABEL'' '''' '''' ''main'' 1, tac ''ASSIGN'' ''0'' '''' ''i'' 1,
        tac ''GOTO'' '''' '''' ''L1'' 1, tac ''LABEL'' '''' '''' ''L0'' 1,
        tac ''+'' ''i'' ''1'' ''t0'' 1, tac ''ASSIGN'' ''t0'' '''' ''i'' 1,
        tac ''LABEL'' '''' '''' ''L1'' 1, tac ''<'' ''i'' ''3'' ''t1'' 1,
        tac ''IF'' ''t1'' '''' ''L0'' 1, tac ''LABEL'' '''' '''' ''L2'' 1,
        tac ''RETURN'' ''0'' '''' '''' (- 1)]"
  by (simp add: codegen_eval)

text \<open>
  Claim C8: for every While statement the generator emits \<open>Goto condLabel\<close>,
  \<open>Label startLabel\<close>, the body, \<open>Label condLabel\<close>, the condition, \<open>If cond, startLabel\<close>
  and \<open>Label endLabel\<close>. The generator does so when it gets through the body (lemma
  \<open>while_lowering_shape\<close>). It does not get through every body.
  \<open>generateAssignment\<close> ends with \<open>symbolManager.markSymbolInitialized\<close>, which looks
  the assigned name up from the current table along the parent pointers; the generator
  declares parameters and \<open>let\<close> variables only, and for any other name (here the function
  name \<open>main\<close>, which the semantic analyzer accepts as an assignment target) the lookup
  goes past the global table, whose parent pointer the constructor of
  \<open>SymbolTableManager\<close> never initialised. For
  \<open>func main() -> int { while 0 < 1 { main = 1; } return 0; }\<close> the generator has no
  defined behaviour and returns no instruction list.
\<close>

theorem while_body_assignment_undefined:
  "generate
     [\<lparr>name = Token T_IDENTIFIER ''main'' 1 10, parameters = [], returnType = DT_INT,
       body = [WhileStmt
                 (BinaryExpr (LiteralExpr (Token T_NUMBER ''0'' 1 29)) (Token T_LESS ''<'' 1 31)
                    (LiteralExpr (Token T_NUMBER ''1'' 1 33)))
                 [AssignmentStmt (Token T_IDENTIFIER ''main'' 1 40)
                    (LiteralExpr (Token T_NUMBER ''1'' 1 44))],
               ReturnStmt (Some (LiteralExpr (Token T_NUMBER ''0'' 1 56)))]\<rparr>]
     CodeGenerator_constructed =
   Inl Undefined"
  by (simp add: codegen_eval)

lemma to_string_nat_digits:
  "to_string_nat n \<noteq> [] \<and> hd (to_string_nat n) \<in> set ''0123456789''"
proof (induction n rule: to_string_nat.induct)
  case (1 n)
  show ?case
  proof (cases "n < 10")
    case True
    then have "n \<in> {0, 1, 2, 3, 4, 5, 6, 7, 8, 9}"
      by auto
    then show ?thesis
      by (subst (1 2) to_string_nat.simps) (auto simp add: digit_char_def)
  next
    case False
    with "1" show ?thesis
      by (subst (1 2) to_string_nat.simps) simp
  qed
qed

lemma to_string_head:
  "to_string i \<noteq> [] \<and> hd (to_string i) \<in> set ''-0123456789''"
  using to_string_nat_digits [of "nat i"] to_string_nat_digits [of "nat (- i)"]
  by (auto simp add: to_string_def)

text \<open>
  Claim C2: dead-code elimination never removes an Assign to a user-named variable. The
  pass takes every name that starts with \<open>t\<close> for a temporary. For
  \<open>func main() -> int { let total: int = 5; return 0; }\<close> the generator emits
  \<open>main:\<close>, \<open>total = 5\<close>, \<open>return 0\<close>; \<open>total\<close> is the user's variable (no name made by
  \<open>newTemp\<close> equals it) and is read nowhere, and the pass removes \<open>total = 5\<close>.
\<close>

theorem deadCodeElimination_removes_user_variable:
  "generate
     [\<lparr>name = Token T_IDENTIFIER ''main'' 1 10, parameters = [], returnType = DT_INT,
       body = [DeclarationStmt (Token T_IDENTIFIER ''total'' 1 31) DT_INT
                 (Some (LiteralExpr (Token T_NUMBER ''5'' 1 40))),
               ReturnStmt (Some (LiteralExpr (Token T_NUMBER ''0'' 1 50)))]\<rparr>]
     CodeGenerator_constructed =
     Inr [tac ''LABEL'' '''' '''' ''main'' 1, tac ''ASSIGN'' ''5'' '''' ''total'' 1,
          tac ''RETURN'' ''0'' '''' '''' (- 1)] \<and>
   deadCodeElimination
     [tac ''LABEL'' '''' '''' ''main'' 1, tac ''ASSIGN'' ''5'' '''' ''total'' 1,
      tac ''RETURN'' ''0'' '''' '''' (- 1)] =
     [tac ''LABEL'' '''' '''' ''main'' 1, tac ''RETURN'' ''0'' '''' '''' (- 1)] \<and>
   fst (newTemp g) \<noteq> ''total''"
proof -
  have "hd (to_string (sint (tempCounter g))) \<noteq> CHR ''o''"
    using to_string_head [of "sint (tempCounter g)"] by auto
  moreover have "to_string (sint (tempCounter g)) \<noteq> []"
    using to_string_head [of "sint (tempCounter g)"] by simp
  ultimately have "fst (newTemp g) \<noteq> ''total''"
    by (cases "to_string (sint (tempCounter g))") (auto simp add: newTemp_def)
  moreover have "generate
     [\<lparr>name = Token T_IDENTIFIER ''main'' 1 10, parameters = [], returnType = DT_INT,
       body = [DeclarationStmt (Token T_IDENTIFIER ''total'' 1 31) DT_INT
                 (Some (LiteralExpr (Token T_NUMBER ''5'' 1 40))),
               ReturnStmt (Some (LiteralExpr (Token T_NUMBER ''0'' 1 50)))]\<rparr>]
     CodeGenerator_constructed =
     Inr [tac ''LABEL'' '''' '''' ''main'' 1, tac ''ASSIGN'' ''5'' '''' ''total'' 1,
          tac ''RETURN'' ''0'' '''' '''' (- 1)]"
    by (simp add: codegen_eval)
  ultimately show ?thesis
    by (simp add: tac_def deadCodeElimination_def usedTemps_def starts_with_t_def)
qed

section \<open>Properties of the interpreter\<close>

text \<open>The members of the interpreter with no fuel, and with one more unit of fuel.\<close>

lemma interpreter_0 [simp]:
  "evaluateExpression (interpreter ops fs 0) e st = None"
  "evaluateArguments (interpreter ops fs 0) es st = None"
  "evaluateCall (interpreter ops fs 0) nm es st = None"
  "handleMap_loop (interpreter ops fs 0) nm items st = None"
  "handleFilter_loop (interpreter ops fs 0) nm items st = None"
  "callUserFunction (interpreter ops fs 0) nm args st = None"
  "executeFunction (interpreter ops fs 0) f args st = None"
  "executeStatement (interpreter ops fs 0) s st = None"
  "executeStatements (interpreter ops fs 0) ss st = None"
  "executeWhile (interpreter ops fs 0) c b st = None"
  by (simp_all add: interpreter.simps)

lemma interpreter_Suc:
  "evaluateExpression (interpreter ops fs (Suc n)) = evaluateExpression_body ops (interpreter ops fs n)"
  "evaluateArguments (interpreter ops fs (Suc n)) = evaluateArguments_body (interpreter ops fs n)"
  "evaluateCall (interpreter ops fs (Suc n)) = evaluateCall_body ops (interpreter ops fs n)"
  "handleMap_loop (interpreter ops fs (Suc n)) = handleMap_loop_body (interpreter ops fs n)"
  "handleFilter_loop (interpreter ops fs (Suc n)) = handleFilter_loop_body ops (interpreter ops fs n)"
  "callUserFunction (interpreter ops fs (Suc n)) = callUserFunction_body fs (interpreter ops fs n)"
  "executeFunction (interpreter ops fs (Suc n)) = executeFunction_body (interpreter ops fs n)"
  "executeStatement (interpreter ops fs (Suc n)) = executeStatement_body ops (interpreter ops fs n)"
  "executeStatements (interpreter ops fs (Suc n)) = executeStatements_body (interpreter ops fs n)"
  "executeWhile (interpreter ops fs (Suc n)) = executeWhile_body ops (interpreter ops fs n)"
  by (simp_all add: interpreter.simps)

lemma interpreter_numeral:
  "evaluateExpression (interpreter ops fs (numeral k)) = evaluateExpression_body ops (interpreter ops fs (pred_numeral k))"
  "evaluateArguments (interpreter ops fs (numeral k)) = evaluateArguments_body (interpreter ops fs (pred_numeral k))"
  "evaluateCall (interpreter ops fs (numeral k)) = evaluateCall_body ops (interpreter ops fs (pred_numeral k))"
  "handleMap_loop (interpreter ops fs (numeral k)) = handleMap_loop_body (interpreter ops fs (pred_numeral k))"
  "handleFilter_loop (interpreter ops fs (numeral k)) = handleFilter_loop_body ops (interpreter ops fs (pred_numeral k))"
  "callUserFunction (interpreter ops fs (numeral k)) = callUserFunction_body fs (interpreter ops fs (pred_numeral k))"
  "executeFunction (interpreter ops fs (numeral k)) = executeFunction_body (interpreter ops fs (pred_numeral k))"
  "executeStatement (interpreter ops fs (numeral k)) = executeStatement_body ops (interpreter ops fs (pred_numeral k))"
  "executeStatements (interpreter ops fs (numeral k)) = executeStatements_body (interpreter ops fs (pred_numeral k))"
  "executeWhile (interpreter ops fs (numeral k)) = executeWhile_body ops (interpreter ops fs (pred_numeral k))"
  by (simp_all add: numeral_eq_Suc interpreter_Suc)

lemmas interpreter_bodies =
  evaluateExpression_body_def evaluateArguments_body_def evaluateCall_body_def
  handleMap_loop_body_def handleFilter_loop_body_def callUserFunction_body_def
  executeFunction_body_def executeStatement_body_def executeStatements_body_def
  executeWhile_body_def andThen_def throw_def

lemmas interpreter_eval =
  interpreter_numeral interpreter_Suc interpreter_bodies
  run_def initializeFunctionTable_def evaluateLiteral_def stoll_def strtol_prefix_def
  isspace_def isdigit_def digits_value_def digit_value_def
  pushScope_def popScope_def define_name_def assign_def get_def squote_def
  performNumeric_def compareFloats_def ll_rem_def
  to_string_def to_string_nat.simps digit_char_def Let_def

lemmas exact_double_eval =
  exact_double_def exact_print_def exact_stod_def truncate_real_def


text \<open>
  Claim C4: evaluating \<open>/\<close> or \<open>%\<close> with a zero right operand raises a runtime error. The
  \<open>%\<close> case tests its divisor and throws; the \<open>/\<close> case has no test: \<open>1 / 0\<close> is computed in
  doubles, converted back to an integer and returned, whatever the double arithmetic is,
  and the program running it ends successfully.
\<close>

theorem division_by_zero_not_raised:
  "evaluateBinary_switch ops T_DIVIDE (FromInt 1) (FromInt 0) =
     Inr (FromInt (d_to_ll ops (d_div ops (d_of_ll ops 1) (d_of_ll ops 0)))) \<and>
   evaluateBinary_switch ops T_MODULO (FromInt 1) (FromInt 0) =
     Inl (Exception ''Runtime error: division by zero'') \<and>
   run ops 12 (Some program_divide_by_zero) [] =
     Some \<lparr>success = True, exitCode = 0, res_outputLog = [''after''], errorMessage = []\<rparr>"
  by (simp add: program_divide_by_zero_def interpreter_eval)

lemma initializeFunctionTable_dom:
  "dom (foldl (\<lambda>functions func. functions(lexeme (name func) \<mapsto> func)) m prog) =
   dom m \<union> (\<lambda>f. lexeme (name f)) ` set prog"
  by (induction prog arbitrary: m) auto

lemma initializeFunctionTable_None:
  "(initializeFunctionTable prog nm = None) = (\<forall>f \<in> set prog. lexeme (name f) \<noteq> nm)"
proof -
  have "(initializeFunctionTable prog nm = None) = (nm \<notin> dom (initializeFunctionTable prog))"
    by auto
  also have "\<dots> = (nm \<notin> (\<lambda>f. lexeme (name f)) ` set prog)"
    by (simp add: initializeFunctionTable_def initializeFunctionTable_dom)
  also have "\<dots> = (\<forall>f \<in> set prog. lexeme (name f) \<noteq> nm)"
    by auto
  finally show ?thesis .
qed

text \<open>
  Claim C5, as stated: \<open>run\<close> fails without executing anything whenever the program has no
  function named \<open>main\<close> with zero parameters. \<open>run\<close> looks \<open>main\<close> up by name only: the
  program \<open>func main(x: int) -> int { print x; return 0; }\<close> has no zero-parameter
  \<open>main\<close>, and it is executed, with \<open>x\<close> bound to Void, and succeeds.
\<close>

theorem run_executes_main_with_parameter:
  "parameters (hd program_main_with_parameter) \<noteq> [] \<and>
   run exact_double 12 (Some program_main_with_parameter) [] =
     Some \<lparr>success = True, exitCode = 0, res_outputLog = [''void''], errorMessage = []\<rparr>"
  by (simp add: program_main_with_parameter_def interpreter_eval)

text \<open>
  Claim C5, amended: whenever the program has no function named \<open>main\<close>, whatever the
  parameters, \<open>run\<close> returns the failure result \<open>No 'main' function found\<close> with an empty
  output log, and it does so with any fuel, none included: nothing is executed.
\<close>

theorem run_without_main:
  assumes "\<forall>f \<in> set prog. lexeme (name f) \<noteq> ''main''"
  shows "run ops fuel (Some prog) stdin =
     Some \<lparr>success = False, exitCode = 0, res_outputLog = [],
           errorMessage = ''No '' @ squote @ ''main'' @ squote @ '' function found''\<rparr>"
proof -
  have "initializeFunctionTable prog ''main'' = None"
    using assms by (simp only: initializeFunctionTable_None)
  then show ?thesis
    by (simp add: run_def)
qed

text \<open>Witness for C5 (amended): a program whose only function is \<open>helper\<close>, run with no fuel.\<close>

theorem run_without_main_witness:
  "list_all (\<lambda>f. lexeme (name f) \<noteq> ''main'') program_without_main \<and>
   run exact_double 0 (Some program_without_main) [] =
     Some \<lparr>success = False, exitCode = 0, res_outputLog = [],
           errorMessage = ''No '' @ squote @ ''main'' @ squote @ '' function found''\<rparr>"
  using run_without_main [of program_without_main exact_double 0 "[]"]
  by (simp add: program_without_main_def)



lemma assign_found_unbound:
  "\<forall>frame \<in> set frames. frame nm = None \<Longrightarrow> assign_found nm v frames = None"
  by (induction frames) simp_all

lemma get_found_unbound:
  "\<forall>frame \<in> set frames. frame nm = None \<Longrightarrow> get_found nm frames = None"
  by (induction frames) simp_all

text \<open>
  Claim C9: an Assignment whose target is bound in no scope frame raises no error: once
  the value is evaluated, the name is defined with it in the innermost frame (a frame is
  pushed first when there is none). Reading such a name raises \<open>Undefined variable\<close>.
\<close>

theorem assignment_to_unbound_name_defines_it:
  assumes "evaluateExpression (interpreter ops fs n) e st = Some (Inr v, st1)"
    and "\<forall>frame \<in> set (scopes st1). frame (lexeme nm) = None"
  shows "executeStatement (interpreter ops fs (Suc n)) (AssignmentStmt nm e) st =
           Some (Inr (),
                 st1\<lparr>scopes :=
                       (if scopes st1 = [] then [[lexeme nm \<mapsto> v]]
                        else butlast (scopes st1) @ [(last (scopes st1))(lexeme nm \<mapsto> v)])\<rparr>) \<and>
         evaluateExpression (interpreter ops fs (Suc n)) (VariableExpr nm) st1 =
           Some (Inl (Exception (''Runtime error: Undefined variable '' @ squote @ lexeme nm @ squote)),
                 st1)"
proof -
  have "\<forall>frame \<in> set (rev (scopes st1)). frame (lexeme nm) = None"
    using assms(2) by simp
  then have a: "assign_found (lexeme nm) v (rev (scopes st1)) = None"
    and g: "get_found (lexeme nm) (rev (scopes st1)) = None"
    by (rule assign_found_unbound, rule get_found_unbound)
  have "assign (lexeme nm) v (scopes st1) =
          (if scopes st1 = [] then [[lexeme nm \<mapsto> v]]
           else butlast (scopes st1) @ [(last (scopes st1))(lexeme nm \<mapsto> v)])"
    using a by (simp add: assign_def define_name_def pushScope_def Let_def)
  then show ?thesis
    using assms(1) g
    by (simp add: interpreter_Suc executeStatement_body_def evaluateExpression_body_def
        andThen_def get_def)
qed

text \<open>
  Witness for C9: in a state whose only frame binds \<open>y\<close>, the statement \<open>x = 5\<close> succeeds
  and binds \<open>x\<close> in that frame; reading \<open>x\<close> in the state before it is an error.
\<close>

theorem assignment_to_unbound_name_defines_it_witness:
  "evaluateExpression (interpreter exact_double Map.empty 1)
     (LiteralExpr (Token T_NUMBER ''5'' 1 5)) state_with_y = Some (Inr (FromInt 5), state_with_y) \<and>
   list_all (\<lambda>frame. frame (lexeme (Token T_IDENTIFIER ''x'' 1 1)) = None) (scopes state_with_y) \<and>
   executeStatement (interpreter exact_double Map.empty (Suc 1))
     (AssignmentStmt (Token T_IDENTIFIER ''x'' 1 1) (LiteralExpr (Token T_NUMBER ''5'' 1 5)))
     state_with_y =
     Some (Inr (), state_with_y\<lparr>scopes := [[''y'' \<mapsto> FromInt 1, ''x'' \<mapsto> FromInt 5]]\<rparr>) \<and>
   evaluateExpression (interpreter exact_double Map.empty (Suc 1))
     (VariableExpr (Token T_IDENTIFIER ''x'' 1 1)) state_with_y =
     Some (Inl (Exception (''Runtime error: Undefined variable '' @ squote @ ''x'' @ squote)),
           state_with_y)"
  using assignment_to_unbound_name_defines_it
    [of exact_double Map.empty 1 "LiteralExpr (Token T_NUMBER ''5'' 1 5)" state_with_y
        "FromInt 5" state_with_y "Token T_IDENTIFIER ''x'' 1 1"]
  by (simp add: interpreter_eval state_with_y_def)

section \<open>Properties of the lexer and the parser\<close>

text \<open>The parsing functions with one more unit of fuel.\<close>

lemma parser_at_Suc:
  "parseProgram_loop (parser_at tokens (Suc n)) functions current = parseProgram_loop_body tokens (parser_at tokens n) functions current"
  "parseFunction (parser_at tokens (Suc n)) current = parseFunction_body tokens (parser_at tokens n) current"
  "parseParameters_loop (parser_at tokens (Suc n)) params current = parseParameters_loop_body tokens (parser_at tokens n) params current"
  "parseStatement (parser_at tokens (Suc n)) current = parseStatement_body tokens (parser_at tokens n) current"
  "parsePrintStatement_loop (parser_at tokens (Suc n)) arguments current = parsePrintStatement_loop_body tokens (parser_at tokens n) arguments current"
  "parseBlock (parser_at tokens (Suc n)) current = parseBlock_body tokens (parser_at tokens n) current"
  "parseBlock_loop (parser_at tokens (Suc n)) statements current = parseBlock_loop_body tokens (parser_at tokens n) statements current"
  "parseExpression (parser_at tokens (Suc n)) current = parseLogicalOr (parser_at tokens n) current"
  "parseLogicalOr (parser_at tokens (Suc n)) current = binary_level (parseLogicalAnd (parser_at tokens n)) (parseLogicalOr_loop (parser_at tokens n)) current"
  "parseLogicalOr_loop (parser_at tokens (Suc n)) expr current = binary_level_loop tokens [T_OR] (parseLogicalAnd (parser_at tokens n)) (parseLogicalOr_loop (parser_at tokens n)) expr current"
  "parseLogicalAnd (parser_at tokens (Suc n)) current = binary_level (parseEquality (parser_at tokens n)) (parseLogicalAnd_loop (parser_at tokens n)) current"
  "parseLogicalAnd_loop (parser_at tokens (Suc n)) expr current = binary_level_loop tokens [T_AND] (parseEquality (parser_at tokens n)) (parseLogicalAnd_loop (parser_at tokens n)) expr current"
  "parseEquality (parser_at tokens (Suc n)) current = binary_level (parseComparison (parser_at tokens n)) (parseEquality_loop (parser_at tokens n)) current"
  "parseEquality_loop (parser_at tokens (Suc n)) expr current = binary_level_loop tokens [T_EQUALS, T_NOT_EQUALS] (parseComparison (parser_at tokens n)) (parseEquality_loop (parser_at tokens n)) expr current"
  "parseComparison (parser_at tokens (Suc n)) current = binary_level (parseTerm (parser_at tokens n)) (parseComparison_loop (parser_at tokens n)) current"
  "parseComparison_loop (parser_at tokens (Suc n)) expr current = binary_level_loop tokens [T_LESS, T_LESS_EQUAL, T_GREATER, T_GREATER_EQUAL] (parseTerm (parser_at tokens n)) (parseComparison_loop (parser_at tokens n)) expr current"
  "parseTerm (parser_at tokens (Suc n)) current = binary_level (parseFactor (parser_at tokens n)) (parseTerm_loop (parser_at tokens n)) current"
  "parseTerm_loop (parser_at tokens (Suc n)) expr current = binary_level_loop tokens [T_PLUS, T_MINUS] (parseFactor (parser_at tokens n)) (parseTerm_loop (parser_at tokens n)) expr current"
  "parseFactor (parser_at tokens (Suc n)) current = binary_level (parseUnary (parser_at tokens n)) (parseFactor_loop (parser_at tokens n)) current"
  "parseFactor_loop (parser_at tokens (Suc n)) expr current = binary_level_loop tokens [T_MULTIPLY, T_DIVIDE, T_MODULO] (parseUnary (parser_at tokens n)) (parseFactor_loop (parser_at tokens n)) expr current"
  "parseUnary (parser_at tokens (Suc n)) current = parseUnary_body tokens (parser_at tokens n) current"
  "parsePrimary (parser_at tokens (Suc n)) current = parsePrimary_body tokens (parser_at tokens n) current"
  "parseSequence_loop (parser_at tokens (Suc n)) elements current = element_loop_body tokens T_RBRACKET (parseExpression (parser_at tokens n)) (parseSequence_loop (parser_at tokens n)) elements current"
  "parseArguments_loop (parser_at tokens (Suc n)) args current = element_loop_body tokens T_RPAREN (parseExpression (parser_at tokens n)) (parseArguments_loop (parser_at tokens n)) args current"
  by (simp_all add: parser_at.simps)

lemma parser_at_numeral:
  "parseProgram_loop (parser_at tokens (numeral k)) functions current = parseProgram_loop_body tokens (parser_at tokens (pred_numeral k)) functions current"
  "parseFunction (parser_at tokens (numeral k)) current = parseFunction_body tokens (parser_at tokens (pred_numeral k)) current"
  "parseParameters_loop (parser_at tokens (numeral k)) params current = parseParameters_loop_body tokens (parser_at tokens (pred_numeral k)) params current"
  "parseStatement (parser_at tokens (numeral k)) current = parseStatement_body tokens (parser_at tokens (pred_numeral k)) current"
  "parsePrintStatement_loop (parser_at tokens (numeral k)) arguments current = parsePrintStatement_loop_body tokens (parser_at tokens (pred_numeral k)) arguments current"
  "parseBlock (parser_at tokens (numeral k)) current = parseBlock_body tokens (parser_at tokens (pred_numeral k)) current"
  "parseBlock_loop (parser_at tokens (numeral k)) statements current = parseBlock_loop_body tokens (parser_at tokens (pred_numeral k)) statements current"
  "parseExpression (parser_at tokens (numeral k)) current = parseLogicalOr (parser_at tokens (pred_numeral k)) current"
  "parseLogicalOr (parser_at tokens (numeral k)) current = binary_level (parseLogicalAnd (parser_at tokens (pred_numeral k))) (parseLogicalOr_loop (parser_at tokens (pred_numeral k))) current"
  "parseLogicalOr_loop (parser_at tokens (numeral k)) expr current = binary_level_loop tokens [T_OR] (parseLogicalAnd (parser_at tokens (pred_numeral k))) (parseLogicalOr_loop (parser_at tokens (pred_numeral k))) expr current"
  "parseLogicalAnd (parser_at tokens (numeral k)) current = binary_level (parseEquality (parser_at tokens (pred_numeral k))) (parseLogicalAnd_loop (parser_at tokens (pred_numeral k))) current"
  "parseLogicalAnd_loop (parser_at tokens (numeral k)) expr current = binary_level_loop tokens [T_AND] (parseEquality (parser_at tokens (pred_numeral k))) (parseLogicalAnd_loop (parser_at tokens (pred_numeral k))) expr current"
  "parseEquality (parser_at tokens (numeral k)) current = binary_level (parseComparison (parser_at tokens (pred_numeral k))) (parseEquality_loop (parser_at tokens (pred_numeral k))) current"
  "parseEquality_loop (parser_at tokens (numeral k)) expr current = binary_level_loop tokens [T_EQUALS, T_NOT_EQUALS] (parseComparison (parser_at tokens (pred_numeral k))) (parseEquality_loop (parser_at tokens (pred_numeral k))) expr current"
  "parseComparison (parser_at tokens (numeral k)) current = binary_level (parseTerm (parser_at tokens (pred_numeral k))) (parseComparison_loop (parser_at tokens (pred_numeral k))) current"
  "parseComparison_loop (parser_at tokens (numeral k)) expr current = binary_level_loop tokens [T_LESS, T_LESS_EQUAL, T_GREATER, T_GREATER_EQUAL] (parseTerm (parser_at tokens (pred_numeral k))) (parseComparison_loop (parser_at tokens (pred_numeral k))) expr current"
  "parseTerm (parser_at tokens (numeral k)) current = binary_level (parseFactor (parser_at tokens (pred_numeral k))) (parseTerm_loop (parser_at tokens (pred_numeral k))) current"
  "parseTerm_loop (parser_at tokens (numeral k)) expr current = binary_level_loop tokens [T_PLUS, T_MINUS] (parseFactor (parser_at tokens (pred_numeral k))) (parseTerm_loop (parser_at tokens (pred_numeral k))) expr current"
  "parseFactor (parser_at tokens (numeral k)) current = binary_level (parseUnary (parser_at tokens (pred_numeral k))) (parseFactor_loop (parser_at tokens (pred_numeral k))) current"
  "parseFactor_loop (parser_at tokens (numeral k)) expr current = binary_level_loop tokens [T_MULTIPLY, T_DIVIDE, T_MODULO] (parseUnary (parser_at tokens (pred_numeral k))) (parseFactor_loop (parser_at tokens (pred_numeral k))) expr current"
  "parseUnary (parser_at tokens (numeral k)) current = parseUnary_body tokens (parser_at tokens (pred_numeral k)) current"
  "parsePrimary (parser_at tokens (numeral k)) current = parsePrimary_body tokens (parser_at tokens (pred_numeral k)) current"
  "parseSequence_loop (parser_at tokens (numeral k)) elements current = element_loop_body tokens T_RBRACKET (parseExpression (parser_at tokens (pred_numeral k))) (parseSequence_loop (parser_at tokens (pred_numeral k))) elements current"
  "parseArguments_loop (parser_at tokens (numeral k)) args current = element_loop_body tokens T_RPAREN (parseExpression (parser_at tokens (pred_numeral k))) (parseArguments_loop (parser_at tokens (pred_numeral k))) args current"
  by (simp_all add: numeral_eq_Suc parser_at_Suc)

text \<open>
  Rules for running the parser on a given token list: a continuation is looked at only
  once the part before it has produced its result.
\<close>

lemma parsed_then_simps:
  "parsed_then None k = None"
  "parsed_then (Some (Inl msg, current)) k = Some (Inl msg, current)"
  "parsed_then (Some (Inr x, current)) k = k x current"
  by (simp_all add: parsed_then_def)

lemma parsed_then_weak_cong: "r = r' \<Longrightarrow> parsed_then r k = parsed_then r' k"
  by simp

lemmas parser_eval =
  parser_at_numeral parser_at_Suc parse_def parsed_then_simps
  parseProgram_loop_body_def parseFunction_body_def parseParameters_loop_body_def
  parseParameters_def parseStatement_body_def parsePrintStatement_loop_body_def
  parsePrintStatement_def parseBlock_body_def parseBlock_loop_body_def
  parseDeclaration_def parseAssignment_def parseIfStatement_def parseWhileStatement_def
  parseReturnStatement_def parseExpressionStatement_def
  binary_level_def binary_level_loop_def parseUnary_body_def parsePrimary_body_def
  element_loop_body_def parseSequence_def parseArguments_def
  ParseError_def parsed_def consume_def
  peek_def peekNext_def previous_def isAtEnd_def check_def advance_def match_types_def
  skip_semicolon_def eof_token_def tokenToDataType_def isValidType_def
  print_terminator_def isPrimaryStart_def squote_def
  to_string_def to_string_nat.simps digit_char_def Let_def

lemmas lexer_eval =
  parse_source_def tokenize_def nextToken_def isalpha_def isalnum_def isdigit_def
  lexer_keywords_def Let_def


text \<open>The example programs of the other sections are what the parser builds from their source text.\<close>

lemma program_divide_by_zero_parsed:
  "parse_source 40
     (''func main() -> int { let x: int = 1 / 0; print '' @ [CHR 0x22] @ ''after'' @ [CHR 0x22] @
      ''; return 0; }'') =
   Some (Inr program_divide_by_zero)"
  by (simp add: program_divide_by_zero_def lexer_eval parser_eval cong: parsed_then_weak_cong)

lemma program_main_with_parameter_parsed:
  "parse_source 40 ''func main(x: int) -> int { print x; return 0; }'' =
   Some (Inr program_main_with_parameter)"
  by (simp add: program_main_with_parameter_def lexer_eval parser_eval cong: parsed_then_weak_cong)

lemma program_with_unread_variable_parsed:
  "parse_source 40 ''func main() -> int { let total: int = 5; return 0; }'' =
   Some (Inr
     [\<lparr>name = Token T_IDENTIFIER ''main'' 1 10, parameters = [], returnType = DT_INT,
       body = [DeclarationStmt (Token T_IDENTIFIER ''total'' 1 31) DT_INT
                 (Some (LiteralExpr (Token T_NUMBER ''5'' 1 40))),
               ReturnStmt (Some (LiteralExpr (Token T_NUMBER ''0'' 1 50)))]\<rparr>])"
  by (simp add: lexer_eval parser_eval cong: parsed_then_weak_cong)

lemma program_with_while_parsed:
  "parse_source 40 ''func main() -> int { while 0 < 1 { main = 1; } return 0; }'' =
   Some (Inr
     [\<lparr>name = Token T_IDENTIFIER ''main'' 1 10, parameters = [], returnType = DT_INT,
       body = [WhileStmt
                 (BinaryExpr (LiteralExpr (Token T_NUMBER ''0'' 1 29)) (Token T_LESS ''<'' 1 31)
                    (LiteralExpr (Token T_NUMBER ''1'' 1 33)))
                 [AssignmentStmt (Token T_IDENTIFIER ''main'' 1 40)
                    (LiteralExpr (Token T_NUMBER ''1'' 1 44))],
               ReturnStmt (Some (LiteralExpr (Token T_NUMBER ''0'' 1 56)))]\<rparr>])"
  by (simp add: lexer_eval parser_eval cong: parsed_then_weak_cong)

text \<open>
  Claim C7, as stated: \<open>==\<close> compares the printed texts of its operands, \<open>!=\<close> is its
  negation, and the program of Scenario C,
  \<open>func main() -> int { print 1==1; return 0; }\<close>, produces the output log \<open>["true"]\<close>.
  The program is not executed at all. \<open>parsePrintStatement\<close> takes primary expressions
  only as arguments (its comments say so), so the print statement ends before \<open>==\<close>; the
  next statement then starts at \<open>==\<close>, \<open>parsePrimary\<close> throws \<open>Expected expression\<close>,
  \<open>parse\<close> returns the null pointer and \<open>main\<close> stops before the interpreter is made.
\<close>

theorem scenario_C_rejected_by_parser:
  "parse_source 40 scenario_C_source = Some (Inl ''Expected expression'')"
  by (simp add: scenario_C_source_def lexer_eval parser_eval cong: parsed_then_weak_cong)

text \<open>
  Claim C7, amended: when the operands of \<open>==\<close> evaluate to the values \<open>left\<close> and
  \<open>right\<close>, the result is the Bool that says whether the printed texts of \<open>left\<close> and
  \<open>right\<close> are equal strings, and the result of \<open>!=\<close> is its negation; Int 1 and a Float
  have equal printed texts exactly when the Float prints as \<open>1\<close> (as 1.0 does); and the
  program with the comparison in parentheses,
  \<open>func main() -> int { print (1==1); return 0; }\<close>, is parsed, and \<open>run\<close> on it
  succeeds with the output log \<open>["true"]\<close>.
\<close>

theorem equality_compares_printed_text:
  assumes "evaluateExpression (interpreter ops functions n) l st = Some (Inr left, st1)"
    and "evaluateExpression (interpreter ops functions n) r st1 = Some (Inr right, st2)"
  shows "evaluateExpression (interpreter ops functions (Suc n))
           (BinaryExpr l (Token T_EQUALS lx lno col) r) st =
           Some (Inr (FromBool (toString ops left = toString ops right)), st2) \<and>
         evaluateExpression (interpreter ops functions (Suc n))
           (BinaryExpr l (Token T_NOT_EQUALS lx' lno' col') r) st =
           Some (Inr (FromBool (toString ops left \<noteq> toString ops right)), st2) \<and>
         (toString ops (FromInt 1) = toString ops (FromFloat f)) = (d_print ops f = ''1'') \<and>
         parse_source 40 parenthesised_source = Some (Inr parenthesised_program) \<and>
         run ops 40 (Some parenthesised_program) [] =
           Some \<lparr>success = True, exitCode = 0, res_outputLog = [''true''], errorMessage = []\<rparr>"
proof (intro conjI)
  show "evaluateExpression (interpreter ops functions (Suc n))
          (BinaryExpr l (Token T_EQUALS lx lno col) r) st =
        Some (Inr (FromBool (toString ops left = toString ops right)), st2)"
    by (simp add: interpreter_Suc evaluateExpression_body_def andThen_def assms)
  show "evaluateExpression (interpreter ops functions (Suc n))
          (BinaryExpr l (Token T_NOT_EQUALS lx' lno' col') r) st =
        Some (Inr (FromBool (toString ops left \<noteq> toString ops right)), st2)"
    by (simp add: interpreter_Suc evaluateExpression_body_def andThen_def assms)
  show "(toString ops (FromInt 1) = toString ops (FromFloat f)) = (d_print ops f = ''1'')"
    by (auto simp add: to_string_def to_string_nat.simps digit_char_def)
  show "parse_source 40 parenthesised_source = Some (Inr parenthesised_program)"
    by (simp add: parenthesised_source_def parenthesised_program_def lexer_eval parser_eval
        cong: parsed_then_weak_cong)
  show "run ops 40 (Some parenthesised_program) [] =
          Some \<lparr>success = True, exitCode = 0, res_outputLog = [''true''], errorMessage = []\<rparr>"
    by (simp add: parenthesised_program_def interpreter_eval)
qed

text \<open>
  Witness for C7 (amended): with exact arithmetic, the literals \<open>1\<close> and \<open>1.0\<close> evaluate
  to Int 1 and Float 1, both of which print as \<open>1\<close>; \<open>1 == 1.0\<close> is true and \<open>1 != 1.0\<close>
  is false.
\<close>

theorem equality_compares_printed_text_witness:
  "evaluateExpression (interpreter exact_double Map.empty 1)
     (LiteralExpr (Token T_NUMBER ''1'' 1 2)) state_with_y = Some (Inr (FromInt 1), state_with_y) \<and>
   evaluateExpression (interpreter exact_double Map.empty 1)
     (LiteralExpr (Token T_FLOAT ''1.0'' 1 9)) state_with_y = Some (Inr (FromFloat 1), state_with_y) \<and>
   toString exact_double (FromInt 1) = ''1'' \<and> toString exact_double (FromFloat 1) = ''1'' \<and>
   evaluateExpression (interpreter exact_double Map.empty (Suc 1))
     (BinaryExpr (LiteralExpr (Token T_NUMBER ''1'' 1 2)) (Token T_EQUALS ''=='' 1 5)
        (LiteralExpr (Token T_FLOAT ''1.0'' 1 9))) state_with_y =
     Some (Inr (FromBool True), state_with_y) \<and>
   evaluateExpression (interpreter exact_double Map.empty (Suc 1))
     (BinaryExpr (LiteralExpr (Token T_NUMBER ''1'' 1 2)) (Token T_NOT_EQUALS ''!='' 1 5)
        (LiteralExpr (Token T_FLOAT ''1.0'' 1 9))) state_with_y =
     Some (Inr (FromBool False), state_with_y) \<and>
   parse_source 40 parenthesised_source = Some (Inr parenthesised_program) \<and>
   run exact_double 40 (Some parenthesised_program) [] =
     Some \<lparr>success = True, exitCode = 0, res_outputLog = [''true''], errorMessage = []\<rparr>"
  using equality_compares_printed_text
    [of exact_double Map.empty 1 "LiteralExpr (Token T_NUMBER ''1'' 1 2)" state_with_y
        "FromInt 1" state_with_y "LiteralExpr (Token T_FLOAT ''1.0'' 1 9)" "FromFloat 1" state_with_y
        "''==''" 1 5 "''!=''" 1 5 1]
  by (simp add: interpreter_eval exact_double_eval)

end
